theory Spec2Isabelle
  imports
    Complex_Main
    "HOL-Library.Product_Lexorder"
    "HOL-Library.List_Lexorder"
    "HOL-Library.Char_ord"
begin

section \<open>The chess club backend\<close>

text \<open>
  The repository holds two servers with the same routes. \<^verbatim>\<open>src/server.js\<close> talks to
  PostgreSQL; \<^verbatim>\<open>src/unnamed/part_001\<close> is the MySQL server. Definitions translated
  from \<^verbatim>\<open>server.js\<close> keep the route's plain name; definitions translated from
  \<^verbatim>\<open>part_001\<close> end in \<open>_mysql\<close>. A handler is a function from the request
  fields it reads and the database to the response it sends and the database it leaves.

  Request body fields are taken at the JSON types the handlers are written for: a name
  or a month is a string, an id or a number of points is an integer, and each may be
  absent (\<open>None\<close>, JavaScript's \<^verbatim>\<open>undefined\<close>). The two match handlers are the
  exception: they compare the identifiers of the winner and the loser before the database
  reads them, so their body fields are JavaScript values (\<open>jsval\<close> below), a number and
  the string that writes it being different values. Path and query parameters are
  strings, as Express delivers them.
\<close>

subsection \<open>Responses\<close>

text \<open>
  The body of a response is the JSON object passed to \<^verbatim>\<open>res.json\<close>, as the list of
  its keys. Booleans and the strings the handlers write are kept; every other value
  (rows, numbers, objects, time stamps) is \<open>JOther\<close>. A key whose value is
  \<^verbatim>\<open>undefined\<close> is not serialised and does not appear.
\<close>

datatype jv = JBool bool | JStr string | JOther

record response =
  status :: nat
  body :: "(string \<times> jv) list"

text \<open>An exception caught by a handler: \<^verbatim>\<open>error.code\<close> and \<^verbatim>\<open>error.message\<close>.\<close>

record js_error =
  err_code :: "string option"
  err_message :: string

definition respond :: "nat \<Rightarrow> (string \<times> jv) list \<Rightarrow> response" where
  "respond st b = \<lparr>status = st, body = b\<rparr>"

text \<open>\<^verbatim>\<open>handleError\<close> (server.js 61-68). The first argument is
  \<^verbatim>\<open>process.env.NODE_ENV === 'development'\<close>.\<close>

definition handleError :: "bool \<Rightarrow> js_error \<Rightarrow> string \<Rightarrow> response" where
  "handleError development e msg =
     respond 500
       ([(''success'', JBool False), (''error'', JStr msg)] @
        (if development then [(''details'', JStr (err_message e))] else []))"

text \<open>\<^verbatim>\<open>authenticateAdmin\<close> (server.js 44-58): the bearer token is absent, fails
  \<^verbatim>\<open>jwt.verify\<close>, or passes it. \<open>None\<close> is the call of \<^verbatim>\<open>next()\<close>.\<close>

datatype token = NoToken | InvalidToken | ValidToken

fun authenticateAdmin :: "token \<Rightarrow> response option" where
  "authenticateAdmin NoToken =
     Some (respond 401 [(''success'', JBool False), (''error'', JStr ''No token provided'')])"
| "authenticateAdmin InvalidToken =
     Some (respond 401 [(''success'', JBool False), (''error'', JStr ''Invalid token'')])"
| "authenticateAdmin ValidToken = None"

subsection \<open>JavaScript helpers\<close>

text \<open>Truthiness of an optional string and of an optional number: \<^verbatim>\<open>undefined\<close>,
  \<^verbatim>\<open>''\<close> and \<^verbatim>\<open>0\<close> are falsy.\<close>

fun truthy_str :: "string option \<Rightarrow> bool" where
  "truthy_str None = False"
| "truthy_str (Some s) = (s \<noteq> [])"

fun truthy_num :: "int option \<Rightarrow> bool" where
  "truthy_num None = False"
| "truthy_num (Some n) = (n \<noteq> 0)"

text \<open>White space as \<^verbatim>\<open>String.prototype.trim\<close> and \<^verbatim>\<open>parseInt\<close> skip it. A
  character here is one of the first 256 code units of a JavaScript string; of these the
  white space and line terminators are TAB, LF, VT, FF, CR, SPACE and the no-break space
  (160).\<close>

definition is_ws :: "char \<Rightarrow> bool" where
  "is_ws c = (of_char c \<in> {9, 10, 11, 12, 13, 32, 160 :: nat})"

definition trim :: "string \<Rightarrow> string" where
  "trim s = rev (dropWhile is_ws (rev (dropWhile is_ws s)))"

text \<open>The value of a character as a digit of the given radix.\<close>

definition digit_val :: "nat \<Rightarrow> char \<Rightarrow> nat option" where
  "digit_val radix c =
     (let n = of_char c :: nat;
          v = (if 48 \<le> n \<and> n \<le> 57 then Some (n - 48)
               else if 97 \<le> n \<and> n \<le> 122 then Some (n - 87)
               else if 65 \<le> n \<and> n \<le> 90 then Some (n - 55)
               else None)
      in case v of None \<Rightarrow> None | Some d \<Rightarrow> if d < radix then Some d else None)"

fun digits_prefix :: "nat \<Rightarrow> string \<Rightarrow> nat list" where
  "digits_prefix radix [] = []"
| "digits_prefix radix (c # cs) =
     (case digit_val radix c of None \<Rightarrow> [] | Some d \<Rightarrow> d # digits_prefix radix cs)"

text \<open>
  \<^verbatim>\<open>parseInt(string)\<close> with no radix argument: leading white space is skipped, then a
  sign, then a \<^verbatim>\<open>0x\<close> prefix selects radix 16, then the longest run of digits is read;
  no digit gives \<^verbatim>\<open>NaN\<close>, here \<open>None\<close>. The result is the exact integer (JavaScript
  rounds beyond \<open>2 ^ 53\<close>). \<^verbatim>\<open>parseInt(undefined)\<close> is \<^verbatim>\<open>NaN\<close>.
\<close>

definition parseInt :: "string \<Rightarrow> int option" where
  "parseInt s =
     (let t = dropWhile is_ws s;
          neg = (case t of [] \<Rightarrow> False | c # _ \<Rightarrow> c = CHR ''-'');
          u = (case t of [] \<Rightarrow> [] | c # r \<Rightarrow> if c = CHR ''-'' \<or> c = CHR ''+'' then r else t);
          hex = (case u of a # b # _ \<Rightarrow> a = CHR ''0'' \<and> (b = CHR ''x'' \<or> b = CHR ''X'') | _ \<Rightarrow> False);
          radix = (if hex then 16 else 10);
          ds = digits_prefix radix (if hex then drop 2 u else u);
          n = int (foldl (\<lambda>a d. a * radix + d) 0 ds)
      in if ds = [] then None else Some (if neg then - n else n))"

definition parseInt_opt :: "string option \<Rightarrow> int option" where
  "parseInt_opt q = (case q of None \<Rightarrow> None | Some s \<Rightarrow> parseInt s)"

text \<open>
  A body field as the match handlers receive it: absent, \<^verbatim>\<open>null\<close>, a boolean, a number
  or a string. The numbers are the integers, and arrays and objects are left out. On
  these values \<^verbatim>\<open>===\<close> is equality.
\<close>

datatype jsval = VUndefined | VNull | VBool bool | VNum int | VStr string

fun truthy :: "jsval \<Rightarrow> bool" where
  "truthy VUndefined = False"
| "truthy VNull = False"
| "truthy (VBool b) = b"
| "truthy (VNum n) = (n \<noteq> 0)"
| "truthy (VStr s) = (s \<noteq> [])"

text \<open>A destructuring default (\<^verbatim>\<open>const { pointsExchanged = 1 } = req.body\<close>) replaces
  \<^verbatim>\<open>undefined\<close> only.\<close>

definition or_default :: "jsval \<Rightarrow> jsval \<Rightarrow> jsval" where
  "or_default v d = (if v = VUndefined then d else v)"

text \<open>The decimal digits JavaScript prints for an integer (below \<open>10 ^ 21\<close>; beyond,
  it prints an exponent).\<close>

fun digits :: "nat \<Rightarrow> string" where
  "digits n =
     (if n < 10 then [''0123456789'' ! n]
      else digits (n div 10) @ [''0123456789'' ! (n mod 10)])"

declare digits.simps [simp del]

definition decimal :: "int \<Rightarrow> string" where
  "decimal n = (if n < 0 then CHR ''-'' # digits (nat (- n)) else digits (nat n))"

text \<open>How the driver of server.js writes a bound value for PostgreSQL
  (\<^verbatim>\<open>prepareValue\<close> of node-postgres): \<^verbatim>\<open>undefined\<close> and \<^verbatim>\<open>null\<close> become
  \<^verbatim>\<open>NULL\<close>, here \<open>None\<close>, and any other value the text of its \<^verbatim>\<open>toString()\<close>.\<close>

fun to_text :: "jsval \<Rightarrow> string option" where
  "to_text VUndefined = None"
| "to_text VNull = None"
| "to_text (VBool b) = Some (if b then ''true'' else ''false'')"
| "to_text (VNum n) = Some (decimal n)"
| "to_text (VStr s) = Some s"

subsection \<open>The PostgreSQL database of server.js\<close>

text \<open>
  The tables, with the columns the handlers read or write. Columns the database fills by
  itself and no modelled query reads (timestamps, the columns of \<^verbatim>\<open>matches\<close> other than
  the two player ids) are left out. The two sequences give the next serial key.
\<close>

record player =
  player_id :: int
  name :: string
  points :: int
  tier :: string

record match =
  winner_id :: int
  loser_id :: int

record archive =
  archive_id :: int
  archive_month :: string
  first_place_player_id :: int
  first_place_points :: int
  second_place_player_id :: int
  second_place_points :: int
  third_place_player_id :: int
  third_place_points :: int

record tournament_winner =
  tw_player_id :: int
  tournament_name :: string
  tournament_date :: string

record pg_db =
  players :: "player list"
  matches :: "match list"
  monthly_archives :: "archive list"
  tournament_winners :: "tournament_winner list"
  players_seq :: int
  archives_seq :: int

subsection \<open>Leaderboard queries of server.js\<close>

text \<open>\<^verbatim>\<open>COALESCE(wins.win_count, 0)\<close> and \<^verbatim>\<open>COALESCE(losses.loss_count, 0)\<close>: the
  number of match rows with the player as winner, as loser (server.js 113-114, 123-132).\<close>

definition win_count :: "pg_db \<Rightarrow> int \<Rightarrow> nat" where
  "win_count db pid = length (filter (\<lambda>m. winner_id m = pid) (matches db))"

definition loss_count :: "pg_db \<Rightarrow> int \<Rightarrow> nat" where
  "loss_count db pid = length (filter (\<lambda>m. loser_id m = pid) (matches db))"

text \<open>SQL \<^verbatim>\<open>ROUND(x, d)\<close> on an exact numeric: to \<open>d\<close> decimals, halves away from
  zero.\<close>

definition round_numeric :: "rat \<Rightarrow> nat \<Rightarrow> rat" where
  "round_numeric x d =
     (if 0 \<le> x then of_int \<lfloor>x * 10 ^ d + 1 / 2\<rfloor> / 10 ^ d
      else - (of_int \<lfloor>- x * 10 ^ d + 1 / 2\<rfloor> / 10 ^ d))"

text \<open>The \<^verbatim>\<open>win_percentage\<close> column (server.js 115-118). The quotient is exact here;
  PostgreSQL carries a numeric quotient to at least 16 significant digits.\<close>

definition win_percentage :: "nat \<Rightarrow> nat \<Rightarrow> rat" where
  "win_percentage w l =
     (if w + l = 0 then 0
      else round_numeric ((of_nat w / of_nat (w + l)) * 100) 2)"

text \<open>The \<^verbatim>\<open>champions\<close> subquery (server.js 133-136): the distinct player ids in the
  three place columns of the archives now in the table.\<close>

definition champions :: "pg_db \<Rightarrow> int list" where
  "champions db =
     remdups (concat (map (\<lambda>a. [first_place_player_id a, second_place_player_id a,
                                 third_place_player_id a]) (monthly_archives db)))"

definition is_champion :: "pg_db \<Rightarrow> int \<Rightarrow> bool" where
  "is_champion db pid = (pid \<in> set (champions db))"

text \<open>\<^verbatim>\<open>LEFT JOIN tournament_winners tw ON p.player_id = tw.player_id\<close>: one output row
  for each badge of the player, with the flag true, or one row with the flag false when
  the player has no badge.\<close>

definition tw_join :: "pg_db \<Rightarrow> int \<Rightarrow> bool list" where
  "tw_join db pid =
     (let tws = filter (\<lambda>t. tw_player_id t = pid) (tournament_winners db)
      in if tws = [] then [False] else map (\<lambda>_. True) tws)"

record lb_row =
  lb_id :: int
  lb_name :: string
  lb_points :: int
  lb_tier :: string
  lb_wins :: nat
  lb_losses :: nat
  lb_win_percentage :: rat
  lb_is_champion :: bool
  lb_is_tournament_winner :: bool
  lb_rank :: nat

text \<open>The rows of the leaderboard select for one player, before ranking (the rank
  column is filled by \<open>lb_number\<close>).\<close>

definition lb_rows_of :: "pg_db \<Rightarrow> player \<Rightarrow> lb_row list" where
  "lb_rows_of db p =
     map (\<lambda>tw. \<lparr>lb_id = player_id p, lb_name = name p, lb_points = points p, lb_tier = tier p,
                lb_wins = win_count db (player_id p), lb_losses = loss_count db (player_id p),
                lb_win_percentage =
                  win_percentage (win_count db (player_id p)) (loss_count db (player_id p)),
                lb_is_champion = is_champion db (player_id p),
                lb_is_tournament_winner = tw, lb_rank = 0\<rparr>)
         (tw_join db (player_id p))"

text \<open>\<^verbatim>\<open>ORDER BY p.points DESC, COALESCE(wins.win_count, 0) DESC, p.name ASC\<close>
  (server.js 121 and 138) as a sort key: the names are compared by a linear order, here
  the byte-wise one.\<close>

definition lb_key :: "lb_row \<Rightarrow> int \<times> int \<times> string" where
  "lb_key r = (- lb_points r, - int (lb_wins r), lb_name r)"

text \<open>\<^verbatim>\<open>ROW_NUMBER()\<close> over the same ordering as the output: the rows are numbered from
  1 in the order they are returned.\<close>

fun lb_number :: "nat \<Rightarrow> lb_row list \<Rightarrow> lb_row list" where
  "lb_number n [] = []"
| "lb_number n (r # rs) = r\<lparr>lb_rank := n\<rparr> # lb_number (Suc n) rs"

text \<open>The query of \<^verbatim>\<open>GET /api/leaderboard\<close> (server.js 107-139).\<close>

definition leaderboard :: "pg_db \<Rightarrow> lb_row list" where
  "leaderboard db =
     lb_number 1 (sort_key lb_key (concat (map (lb_rows_of db) (players db))))"

record top_row =
  top_id :: int
  top_name :: string
  top_points :: int
  top_tier :: string
  top_is_champion :: bool
  top_is_tournament_winner :: bool
  top_rank :: nat

definition top_rows_of :: "pg_db \<Rightarrow> player \<Rightarrow> top_row list" where
  "top_rows_of db p =
     map (\<lambda>tw. \<lparr>top_id = player_id p, top_name = name p, top_points = points p,
                top_tier = tier p, top_is_champion = is_champion db (player_id p),
                top_is_tournament_winner = tw, top_rank = 0\<rparr>)
         (tw_join db (player_id p))"

text \<open>\<^verbatim>\<open>ORDER BY p.points DESC, p.name ASC\<close> (server.js 158 and 165).\<close>

definition top_key :: "top_row \<Rightarrow> int \<times> string" where
  "top_key r = (- top_points r, top_name r)"

fun top_number :: "nat \<Rightarrow> top_row list \<Rightarrow> top_row list" where
  "top_number n [] = []"
| "top_number n (r # rs) = r\<lparr>top_rank := n\<rparr> # top_number (Suc n) rs"

text \<open>The query of \<^verbatim>\<open>GET /api/leaderboard/top3\<close> (server.js 150-167), with its
  \<^verbatim>\<open>LIMIT 3\<close>.\<close>

definition top3 :: "pg_db \<Rightarrow> top_row list" where
  "top3 db =
     take 3 (top_number 1 (sort_key top_key (concat (map (top_rows_of db) (players db)))))"

subsection \<open>Statements against the PostgreSQL tables\<close>

text \<open>
  Every \<^verbatim>\<open>pool.query\<close> may throw for a reason outside the modelled data (the
  connection is lost, a constraint that is not modelled fires). A handler takes such an
  error as its \<open>fault\<close> argument; \<open>None\<close> means the statements run as modelled.
\<close>

definition run :: "js_error option \<Rightarrow> js_error + 'a \<Rightarrow> js_error + 'a" where
  "run fault r = (case fault of Some e \<Rightarrow> Inl e | None \<Rightarrow> r)"

text \<open>
  An insert that the database refuses because of a unique key has by then taken the next
  value of the sequence of the table: the statement gives the error together with the
  database it leaves. A statement that throws for an outside reason leaves the database
  as it was.
\<close>

definition run_from :: "'d \<Rightarrow> js_error option \<Rightarrow> js_error \<times> 'd + 'a \<Rightarrow> js_error \<times> 'd + 'a" where
  "run_from db fault r = (case fault of Some e \<Rightarrow> Inl (e, db) | None \<Rightarrow> r)"

text \<open>
  A handler whose statements change the database before its last statement has run takes
  one such error for each statement: \<open>fault k\<close> is the error that its statement number
  \<open>k\<close> throws, counted from 0 in the order of the source, or \<open>None\<close>.
\<close>

type_synonym faults = "nat \<Rightarrow> js_error option"

definition no_fault :: faults where
  "no_fault k = None"

definition unique_violation :: js_error where
  "unique_violation = \<lparr>err_code = Some ''23505'', err_message = ''duplicate key value violates unique constraint''\<rparr>"

definition foreign_key_violation :: js_error where
  "foreign_key_violation = \<lparr>err_code = Some ''23503'', err_message = ''violates foreign key constraint''\<rparr>"

definition type_error :: js_error where
  "type_error = \<lparr>err_code = None, err_message = ''Cannot read properties of undefined''\<rparr>"

text \<open>
  Modelled from the spec: the schema of the tables is not in src. \<^verbatim>\<open>INSERT INTO players
  (name, points) ... RETURNING\<close> (server.js 257-261) takes the key from the sequence,
  rejects a name already in the table with error 23505 (spec 3: display name unique;
  the handler's catch expects that code), the key it took being lost, and lets the
  database derive the tier from the points: that derivation is the parameter
  \<open>tier_of\<close>.
\<close>

definition insert_player ::
  "(int \<Rightarrow> string) \<Rightarrow> string \<Rightarrow> int \<Rightarrow> pg_db \<Rightarrow> js_error \<times> pg_db + pg_db" where
  "insert_player tier_of nm pts db =
     (if nm \<in> set (map name (players db))
      then Inl (unique_violation, db\<lparr>players_seq := players_seq db + 1\<rparr>)
      else Inr (db\<lparr>players := players db @
                       [\<lparr>player_id = players_seq db, name = nm, points = pts, tier = tier_of pts\<rparr>],
                    players_seq := players_seq db + 1\<rparr>))"

text \<open>
  \<^verbatim>\<open>DELETE FROM players WHERE player_id = $1 RETURNING name\<close> (server.js 312-314): the
  names of the deleted rows and the database without them. What the schema does to the
  rows of the other tables that reference a deleted player is not in src: it is the
  parameter \<open>on_delete\<close>, which either refuses the statement (\<open>None\<close>, error 23503) or
  gives the three referencing tables as the delete leaves them.
\<close>

type_synonym referencing = "match list \<times> archive list \<times> tournament_winner list"

definition delete_player ::
  "(int \<Rightarrow> pg_db \<Rightarrow> referencing option) \<Rightarrow> int \<Rightarrow> pg_db \<Rightarrow> js_error + (string list \<times> pg_db)" where
  "delete_player on_delete pid db =
     (let gone = filter (\<lambda>p. player_id p = pid) (players db)
      in if gone = [] then Inr ([], db)
         else (case on_delete pid db of
                 None \<Rightarrow> Inl foreign_key_violation
               | Some (ms, as, ts) \<Rightarrow>
                   Inr (map name gone,
                        db\<lparr>players := filter (\<lambda>p. player_id p \<noteq> pid) (players db),
                           matches := ms, monthly_archives := as, tournament_winners := ts\<rparr>)))"

text \<open>
  Modelled from the spec: \<^verbatim>\<open>INSERT INTO monthly_archives\<close> (server.js 486-498) takes the
  key from the sequence and rejects a month already in the table with error 23505
  (spec 3: at most one archive per month; the handler's catch expects that code), the
  key it took being lost.
\<close>

definition insert_archive ::
  "string \<Rightarrow> int \<Rightarrow> int \<Rightarrow> int \<Rightarrow> int \<Rightarrow> int \<Rightarrow> int \<Rightarrow> pg_db \<Rightarrow> js_error \<times> pg_db + pg_db" where
  "insert_archive month p1 pts1 p2 pts2 p3 pts3 db =
     (if month \<in> set (map archive_month (monthly_archives db))
      then Inl (unique_violation, db\<lparr>archives_seq := archives_seq db + 1\<rparr>)
      else Inr (db\<lparr>monthly_archives := monthly_archives db @
                       [\<lparr>archive_id = archives_seq db, archive_month = month,
                         first_place_player_id = p1, first_place_points = pts1,
                         second_place_player_id = p2, second_place_points = pts2,
                         third_place_player_id = p3, third_place_points = pts3\<rparr>],
                    archives_seq := archives_seq db + 1\<rparr>))"

text \<open>\<^verbatim>\<open>DELETE FROM monthly_archives WHERE archive_id = $1 RETURNING archive_month\<close>
  (server.js 525-527).\<close>

definition delete_archive_rows :: "int \<Rightarrow> pg_db \<Rightarrow> string list \<times> pg_db" where
  "delete_archive_rows aid db =
     (map archive_month (filter (\<lambda>a. archive_id a = aid) (monthly_archives db)),
      db\<lparr>monthly_archives := filter (\<lambda>a. archive_id a \<noteq> aid) (monthly_archives db)\<rparr>)"

definition ok :: "(string \<times> jv) list \<Rightarrow> response" where
  "ok payload = respond 200 ((''success'', JBool True) # payload)"

definition failure :: "nat \<Rightarrow> string \<Rightarrow> response" where
  "failure st msg = respond st [(''success'', JBool False), (''error'', JStr msg)]"

subsection \<open>Player management of server.js\<close>

text \<open>\<^verbatim>\<open>POST /api/admin/players\<close> (server.js 245-275); \<open>name_f\<close> and \<open>points_f\<close> are
  the body's \<^verbatim>\<open>name\<close> and \<^verbatim>\<open>points\<close>.\<close>

definition add_player ::
  "bool \<Rightarrow> (int \<Rightarrow> string) \<Rightarrow> js_error option \<Rightarrow> token \<Rightarrow> string option \<Rightarrow> int option \<Rightarrow>
   pg_db \<Rightarrow> response \<times> pg_db" where
  "add_player development tier_of fault tok name_f points_f db =
     (case authenticateAdmin tok of
        Some r \<Rightarrow> (r, db)
      | None \<Rightarrow>
          (let pts = (case points_f of None \<Rightarrow> 0 | Some n \<Rightarrow> n)
           in case name_f of
                None \<Rightarrow> (failure 400 ''Player name is required'', db)
              | Some nm \<Rightarrow>
                  if nm = [] \<or> trim nm = [] then (failure 400 ''Player name is required'', db)
                  else if pts < 0 \<or> pts > 49
                  then (failure 400 ''Points must be between 0 and 49'', db)
                  else (case run_from db fault (insert_player tier_of (trim nm) pts db) of
                          Inr db' \<Rightarrow>
                            (ok [(''message'', JStr (''Player '' @ nm @ '' added successfully!'')),
                                 (''player'', JOther)], db')
                        | Inl (e, db') \<Rightarrow>
                            if err_code e = Some ''23505''
                            then (failure 400 ''Player name already exists'', db')
                            else (handleError development e ''Failed to add player'', db'))))"

record adm_row =
  adm_id :: int
  adm_name :: string
  adm_points :: int
  adm_tier :: string
  adm_is_champion :: bool
  adm_is_tournament_winner :: bool

definition adm_rows_of :: "pg_db \<Rightarrow> player \<Rightarrow> adm_row list" where
  "adm_rows_of db p =
     map (\<lambda>tw. \<lparr>adm_id = player_id p, adm_name = name p, adm_points = points p,
                adm_tier = tier p, adm_is_champion = is_champion db (player_id p),
                adm_is_tournament_winner = tw\<rparr>)
         (tw_join db (player_id p))"

text \<open>The query of \<^verbatim>\<open>GET /api/admin/players\<close> (server.js 280-295).\<close>

definition admin_players :: "pg_db \<Rightarrow> adm_row list" where
  "admin_players db = sort_key adm_name (concat (map (adm_rows_of db) (players db)))"

text \<open>\<^verbatim>\<open>DELETE /api/admin/players/:id\<close> (server.js 304-327).\<close>

definition remove_player ::
  "bool \<Rightarrow> (int \<Rightarrow> pg_db \<Rightarrow> referencing option) \<Rightarrow> js_error option \<Rightarrow> token \<Rightarrow> string \<Rightarrow>
   pg_db \<Rightarrow> response \<times> pg_db" where
  "remove_player development on_delete fault tok id_param db =
     (case authenticateAdmin tok of
        Some r \<Rightarrow> (r, db)
      | None \<Rightarrow>
          (case parseInt id_param of
             None \<Rightarrow> (failure 400 ''Invalid player ID'', db)
           | Some playerId \<Rightarrow>
               (case run fault (delete_player on_delete playerId db) of
                  Inl e \<Rightarrow> (handleError development e ''Failed to remove player'', db)
                | Inr (rows, db') \<Rightarrow>
                    (case rows of
                       [] \<Rightarrow> (failure 404 ''Player not found'', db')
                     | nm # _ \<Rightarrow>
                         (ok [(''message'', JStr (''Player '' @ nm @ '' removed successfully!''))],
                          db')))))"

subsection \<open>Match management of server.js\<close>

text \<open>The outcome of the first part of the match handler: an exception, a response
  already sent, or the two final names.\<close>

datatype names_result = Thrown js_error | Sent response | Names jsval jsval

text \<open>\<^verbatim>\<open>SELECT name FROM players WHERE player_id = $1\<close> (server.js 344-345) for an
  id.\<close>

definition names_by_id :: "pg_db \<Rightarrow> int \<Rightarrow> string list" where
  "names_by_id db pid = map name (filter (\<lambda>p. player_id p = pid) (players db))"

text \<open>
  The id PostgreSQL compares with the key column when a value is bound to
  \<^verbatim>\<open>player_id = $1\<close>: the database gets the text of the value and reads it as an
  integer. That reading is PostgreSQL's and not in src: it is the parameter \<open>int4in\<close>,
  which gives the integer or the error raised for a text that writes none. \<^verbatim>\<open>NULL\<close>
  compares equal to no key.
\<close>

definition bound_id :: "(string \<Rightarrow> js_error + int) \<Rightarrow> jsval \<Rightarrow> js_error + int option" where
  "bound_id int4in v =
     (case to_text v of
        None \<Rightarrow> Inr None
      | Some s \<Rightarrow> (case int4in s of Inl e \<Rightarrow> Inl e | Inr i \<Rightarrow> Inr (Some i)))"

text \<open>The rows of the select for a bound value, or the error of the statement.\<close>

definition select_name ::
  "(string \<Rightarrow> js_error + int) \<Rightarrow> js_error option \<Rightarrow> jsval \<Rightarrow> pg_db \<Rightarrow> js_error + string list" where
  "select_name int4in fault v db =
     run fault
       (case bound_id int4in v of
          Inl e \<Rightarrow> Inl e
        | Inr None \<Rightarrow> Inr []
        | Inr (Some i) \<Rightarrow> Inr (names_by_id db i))"

text \<open>The value of a body field after its truthiness has been checked.\<close>

fun str_of :: "string option \<Rightarrow> string" where
  "str_of None = []"
| "str_of (Some s) = s"

fun num_of :: "int option \<Rightarrow> int" where
  "num_of None = 0"
| "num_of (Some n) = n"

text \<open>server.js 334-358: the names are taken from the body as they are when both are
  given, otherwise read from the table by the two ids (statements 0 and 1).\<close>

definition final_names ::
  "(string \<Rightarrow> js_error + int) \<Rightarrow> faults \<Rightarrow> jsval \<Rightarrow> jsval \<Rightarrow> jsval \<Rightarrow> jsval \<Rightarrow> pg_db \<Rightarrow>
   names_result" where
  "final_names int4in fault winnerId loserId winnerName loserName db =
     (if truthy winnerName \<and> truthy loserName
      then Names winnerName loserName
      else if truthy winnerId \<and> truthy loserId
      then (case select_name int4in (fault 0) winnerId db of
              Inl e \<Rightarrow> Thrown e
            | Inr winnerRows \<Rightarrow>
                (case select_name int4in (fault 1) loserId db of
                   Inl e \<Rightarrow> Thrown e
                 | Inr loserRows \<Rightarrow>
                     (case (winnerRows, loserRows) of
                        (w # _, l # _) \<Rightarrow> Names (VStr w) (VStr l)
                      | _ \<Rightarrow> Sent (failure 400 ''One or both players not found''))))
      else Sent (failure 400 ''Either winner/loser names or IDs are required''))"

text \<open>
  \<^verbatim>\<open>POST /api/admin/matches\<close> (server.js 332-393). The stored function
  \<^verbatim>\<open>record_match_result\<close> is not in src: it is a parameter, given the two bound values,
  which raises an error or returns its message (\<open>None\<close> for \<^verbatim>\<open>NULL\<close>, on which
  \<^verbatim>\<open>startsWith\<close> throws a TypeError) and the database it leaves. It is statement 2;
  the two selects of \<^verbatim>\<open>Promise.all\<close> that follow it are statement 3. The keys
  \<^verbatim>\<open>winner\<close> and \<^verbatim>\<open>loser\<close> of the answer are the first rows of these selects by
  name, absent when the select is empty.
\<close>

definition by_name :: "pg_db \<Rightarrow> string \<Rightarrow> jsval \<Rightarrow> (string \<times> jv) list" where
  "by_name db key nm =
     (case to_text nm of
        None \<Rightarrow> []
      | Some s \<Rightarrow> if s \<in> set (map name (players db)) then [(key, JOther)] else [])"

definition record_match ::
  "bool \<Rightarrow> (string \<Rightarrow> js_error + int) \<Rightarrow>
   (jsval \<Rightarrow> jsval \<Rightarrow> pg_db \<Rightarrow> js_error + (string option \<times> pg_db)) \<Rightarrow> faults \<Rightarrow>
   token \<Rightarrow> jsval \<Rightarrow> jsval \<Rightarrow> jsval \<Rightarrow> jsval \<Rightarrow> pg_db \<Rightarrow> response \<times> pg_db" where
  "record_match development int4in record_match_result fault tok winnerId loserId winnerName
     loserName db =
     (case authenticateAdmin tok of
        Some r \<Rightarrow> (r, db)
      | None \<Rightarrow>
          (case final_names int4in fault winnerId loserId winnerName loserName db of
             Thrown e \<Rightarrow> (handleError development e ''Failed to record match'', db)
           | Sent r \<Rightarrow> (r, db)
           | Names finalWinnerName finalLoserName \<Rightarrow>
               if finalWinnerName = finalLoserName
               then (failure 400 ''Winner and loser cannot be the same player'', db)
               else (case run (fault 2) (record_match_result finalWinnerName finalLoserName db) of
                       Inl e \<Rightarrow> (handleError development e ''Failed to record match'', db)
                     | Inr (None, db') \<Rightarrow>
                         (handleError development type_error ''Failed to record match'', db')
                     | Inr (Some msg, db') \<Rightarrow>
                         if take 6 msg = ''Error:'' then (failure 400 msg, db')
                         else (case fault 3 of
                                 Some e \<Rightarrow>
                                   (handleError development e ''Failed to record match'', db')
                               | None \<Rightarrow>
                                   (ok ([(''message'', JStr msg)] @
                                        by_name db' ''winner'' finalWinnerName @
                                        by_name db' ''loser'' finalLoserName), db')))))"

text \<open>\<^verbatim>\<open>parseInt(req.query.limit) || 10\<close> (server.js 398): \<^verbatim>\<open>NaN\<close> and \<^verbatim>\<open>0\<close> are
  falsy.\<close>

definition recent_limit :: "string option \<Rightarrow> int" where
  "recent_limit q = (case parseInt_opt q of None \<Rightarrow> 10 | Some n \<Rightarrow> if n = 0 then 10 else n)"

text \<open>\<^verbatim>\<open>SELECT * FROM match_history_detailed ORDER BY match_date DESC LIMIT $1\<close>
  (server.js 400-404). The view is not in src: its rows, newest first, are the
  parameter \<open>history\<close>. PostgreSQL refuses a negative \<^verbatim>\<open>LIMIT\<close> with error 2201W.\<close>

definition negative_limit :: js_error where
  "negative_limit = \<lparr>err_code = Some ''2201W'', err_message = ''LIMIT must not be negative''\<rparr>"

definition select_recent :: "int \<Rightarrow> 'm list \<Rightarrow> js_error + 'm list" where
  "select_recent limit history =
     (if limit < 0 then Inl negative_limit else Inr (take (nat limit) history))"

text \<open>\<^verbatim>\<open>GET /api/matches/recent\<close> (server.js 396-410): the response and the rows in
  its \<^verbatim>\<open>matches\<close> key.\<close>

definition recent_matches ::
  "bool \<Rightarrow> js_error option \<Rightarrow> string option \<Rightarrow> 'm list \<Rightarrow> response \<times> 'm list" where
  "recent_matches development fault limit_q history =
     (case run fault (select_recent (recent_limit limit_q) history) of
        Inl e \<Rightarrow> (handleError development e ''Failed to fetch recent matches'', [])
      | Inr rows \<Rightarrow> (ok [(''matches'', JOther)], rows))"

subsection \<open>Archive management of server.js\<close>

text \<open>\<^verbatim>\<open>playerMap\<close> (server.js 481-484): the rows keyed by player id, a later row
  replacing an earlier one with the same key.\<close>

definition playerMap :: "player list \<Rightarrow> int \<rightharpoonup> player" where
  "playerMap rows = fold (\<lambda>p m. m(player_id p \<mapsto> p)) rows Map.empty"

text \<open>\<^verbatim>\<open>POST /api/admin/archives\<close> (server.js 442-514). Reading \<^verbatim>\<open>.points\<close> of a
  key that is not in \<^verbatim>\<open>playerMap\<close> throws a TypeError, which has no code.\<close>

definition create_archive ::
  "bool \<Rightarrow> js_error option \<Rightarrow> token \<Rightarrow> string option \<Rightarrow> int option \<Rightarrow> int option \<Rightarrow> int option \<Rightarrow>
   pg_db \<Rightarrow> response \<times> pg_db" where
  "create_archive development fault tok month firstPlaceId secondPlaceId thirdPlaceId db =
     (case authenticateAdmin tok of
        Some r \<Rightarrow> (r, db)
      | None \<Rightarrow>
          (case (month, firstPlaceId, secondPlaceId, thirdPlaceId) of
             (Some m, Some f, Some s, Some t) \<Rightarrow>
               if m = [] \<or> f = 0 \<or> s = 0 \<or> t = 0
               then (failure 400 ''All fields are required'', db)
               else if card (set [f, s, t]) \<noteq> length [f, s, t]
               then (failure 400 ''All three winners must be different players'', db)
               else
                 (case
                    (case fault of
                       Some e \<Rightarrow> Inl (Inl (e, db))
                     | None \<Rightarrow>
                         (let rows = filter (\<lambda>p. player_id p \<in> set [f, s, t]) (players db)
                          in if length rows \<noteq> 3
                             then Inl (Inr (failure 400 ''One or more players not found''))
                             else (case (playerMap rows f, playerMap rows s, playerMap rows t) of
                                     (Some p1, Some p2, Some p3) \<Rightarrow>
                                       (case insert_archive m f (points p1) s (points p2)
                                               t (points p3) db of
                                          Inl x \<Rightarrow> Inl (Inl x)
                                        | Inr db' \<Rightarrow> Inr db')
                                   | _ \<Rightarrow> Inl (Inl (type_error, db)))))
                  of
                    Inr db' \<Rightarrow>
                      (ok [(''message'', JStr (''Archive for '' @ m @ '' created successfully!''))],
                       db')
                  | Inl (Inr r) \<Rightarrow> (r, db)
                  | Inl (Inl (e, db')) \<Rightarrow>
                      if err_code e = Some ''23505''
                      then (failure 400 ''Archive for this month already exists'', db')
                      else (handleError development e ''Failed to create archive'', db'))
           | _ \<Rightarrow> (failure 400 ''All fields are required'', db)))"

text \<open>\<^verbatim>\<open>DELETE /api/admin/archives/:id\<close> (server.js 517-540).\<close>

definition delete_archive ::
  "bool \<Rightarrow> js_error option \<Rightarrow> token \<Rightarrow> string \<Rightarrow> pg_db \<Rightarrow> response \<times> pg_db" where
  "delete_archive development fault tok id_param db =
     (case authenticateAdmin tok of
        Some r \<Rightarrow> (r, db)
      | None \<Rightarrow>
          (case parseInt id_param of
             None \<Rightarrow> (failure 400 ''Invalid archive ID'', db)
           | Some archiveId \<Rightarrow>
               (case run fault (Inr (delete_archive_rows archiveId db)) of
                  Inl e \<Rightarrow> (handleError development e ''Failed to delete archive'', db)
                | Inr (rows, db') \<Rightarrow>
                    (case rows of
                       [] \<Rightarrow> (failure 404 ''Archive not found'', db')
                     | m # _ \<Rightarrow>
                         (ok [(''message'', JStr (''Archive for '' @ m @ '' deleted successfully!''))],
                          db')))))"

section \<open>The MySQL server\<close>

text \<open>The definitions of this section are translated from \<^verbatim>\<open>src/unnamed/part_001\<close>,
  cited below as \<^verbatim>\<open>part_001\<close> with its line numbers.\<close>

subsection \<open>Tables\<close>

text \<open>
  In this server wins, losses and the three flags are columns of \<^verbatim>\<open>players\<close>. A path
  parameter is bound to the statement as it is and MySQL compares it with the numeric id
  column as a number: the handlers below take that number.
\<close>

record player_mysql =
  my_id :: int
  my_name :: string
  my_points :: int
  my_tier :: string
  my_wins :: nat
  my_losses :: nat
  my_is_active :: bool
  my_is_champion :: bool
  my_is_tournament_winner :: bool

record archive_mysql =
  my_archive_id :: int
  my_archive_month :: string
  my_first_place_player_id :: int
  my_first_place_points :: int
  my_second_place_player_id :: int
  my_second_place_points :: int
  my_third_place_player_id :: int
  my_third_place_points :: int
  my_total_players :: int
  my_total_matches :: int

record my_db =
  my_players :: "player_mysql list"
  my_matches :: "match list"
  my_archives :: "archive_mysql list"
  my_archives_seq :: int

text \<open>The error branches of this server send \<^verbatim>\<open>{ error: message }\<close>.\<close>

definition failure_mysql :: "nat \<Rightarrow> string \<Rightarrow> response" where
  "failure_mysql st msg = respond st [(''error'', JStr msg)]"

text \<open>\<^verbatim>\<open>authenticateAdmin\<close> (\<^verbatim>\<open>part_001\<close> 34-48).\<close>

fun authenticateAdmin_mysql :: "token \<Rightarrow> response option" where
  "authenticateAdmin_mysql NoToken = Some (failure_mysql 401 ''No token provided'')"
| "authenticateAdmin_mysql InvalidToken = Some (failure_mysql 401 ''Invalid token'')"
| "authenticateAdmin_mysql ValidToken = None"

definition dup_entry :: js_error where
  "dup_entry = \<lparr>err_code = Some ''ER_DUP_ENTRY'', err_message = ''Duplicate entry''\<rparr>"

subsection \<open>Leaderboard queries\<close>

text \<open>The \<^verbatim>\<open>win_percentage\<close> column (\<^verbatim>\<open>part_001\<close> 90-93); MySQL's \<^verbatim>\<open>/\<close> on integers is
  decimal division, taken exactly here.\<close>

definition win_percentage_mysql :: "nat \<Rightarrow> nat \<Rightarrow> rat" where
  "win_percentage_mysql w l =
     (if w + l = 0 then 0
      else round_numeric ((of_nat w / of_nat (w + l)) * 100) 2)"

record lb_row_mysql =
  mlb_id :: int
  mlb_name :: string
  mlb_points :: int
  mlb_tier :: string
  mlb_wins :: nat
  mlb_losses :: nat
  mlb_win_percentage :: rat
  mlb_is_champion :: bool
  mlb_is_tournament_winner :: bool
  mlb_rank :: nat

definition lb_row_of_mysql :: "player_mysql \<Rightarrow> lb_row_mysql" where
  "lb_row_of_mysql p =
     \<lparr>mlb_id = my_id p, mlb_name = my_name p, mlb_points = my_points p, mlb_tier = my_tier p,
      mlb_wins = my_wins p, mlb_losses = my_losses p,
      mlb_win_percentage = win_percentage_mysql (my_wins p) (my_losses p),
      mlb_is_champion = my_is_champion p,
      mlb_is_tournament_winner = my_is_tournament_winner p, mlb_rank = 0\<rparr>"

text \<open>\<^verbatim>\<open>ORDER BY points DESC, wins DESC, win_percentage DESC\<close> (\<^verbatim>\<open>part_001\<close> 95 and 98).
  Rows that tie on the three keys come in an order SQL leaves open; the stable sort
  keeps them in table order.\<close>

definition lb_key_mysql :: "lb_row_mysql \<Rightarrow> int \<times> int \<times> rat" where
  "lb_key_mysql r = (- mlb_points r, - int (mlb_wins r), - mlb_win_percentage r)"

fun lb_number_mysql :: "nat \<Rightarrow> lb_row_mysql list \<Rightarrow> lb_row_mysql list" where
  "lb_number_mysql n [] = []"
| "lb_number_mysql n (r # rs) = r\<lparr>mlb_rank := n\<rparr> # lb_number_mysql (Suc n) rs"

text \<open>The query of \<^verbatim>\<open>GET /api/leaderboard\<close> (\<^verbatim>\<open>part_001\<close> 87-99).\<close>

definition leaderboard_mysql :: "my_db \<Rightarrow> lb_row_mysql list" where
  "leaderboard_mysql db =
     lb_number_mysql 1
       (sort_key lb_key_mysql (map lb_row_of_mysql (filter my_is_active (my_players db))))"

record short_row_mysql =
  ms_id :: int
  ms_name :: string
  ms_points :: int
  ms_tier :: string
  ms_is_champion :: bool
  ms_is_tournament_winner :: bool

definition short_row_of_mysql :: "player_mysql \<Rightarrow> short_row_mysql" where
  "short_row_of_mysql p =
     \<lparr>ms_id = my_id p, ms_name = my_name p, ms_points = my_points p, ms_tier = my_tier p,
      ms_is_champion = my_is_champion p, ms_is_tournament_winner = my_is_tournament_winner p\<rparr>"

text \<open>The query of \<^verbatim>\<open>GET /api/leaderboard/top3\<close> (\<^verbatim>\<open>part_001\<close> 111-117):
  \<^verbatim>\<open>ORDER BY points DESC, wins DESC LIMIT 3\<close>.\<close>

definition top3_mysql :: "my_db \<Rightarrow> short_row_mysql list" where
  "top3_mysql db =
     take 3 (map short_row_of_mysql
               (sort_key (\<lambda>p. (- my_points p, - int (my_wins p)))
                  (filter my_is_active (my_players db))))"

text \<open>The query of \<^verbatim>\<open>GET /api/admin/players\<close> (\<^verbatim>\<open>part_001\<close> 252-257).\<close>

definition admin_players_mysql :: "my_db \<Rightarrow> short_row_mysql list" where
  "admin_players_mysql db =
     map short_row_of_mysql (sort_key my_name (filter my_is_active (my_players db)))"

subsection \<open>Player and match management\<close>

text \<open>
  \<^verbatim>\<open>DELETE /api/admin/players/:id\<close> (\<^verbatim>\<open>part_001\<close> 267-289): \<^verbatim>\<open>UPDATE players SET
  is_active = FALSE WHERE id = ?\<close>; \<^verbatim>\<open>affectedRows\<close> counts the rows the
  \<^verbatim>\<open>WHERE\<close> matches.
\<close>

definition deactivate :: "int \<Rightarrow> player_mysql list \<Rightarrow> player_mysql list" where
  "deactivate pid ps = map (\<lambda>p. if my_id p = pid then p\<lparr>my_is_active := False\<rparr> else p) ps"

definition remove_player_mysql ::
  "js_error option \<Rightarrow> token \<Rightarrow> int \<Rightarrow> my_db \<Rightarrow> response \<times> my_db" where
  "remove_player_mysql fault tok playerId db =
     (case authenticateAdmin_mysql tok of
        Some r \<Rightarrow> (r, db)
      | None \<Rightarrow>
          (case fault of
             Some e \<Rightarrow> (failure_mysql 500 ''Failed to remove player'', db)
           | None \<Rightarrow>
               if length (filter (\<lambda>p. my_id p = playerId) (my_players db)) = 0
               then (failure_mysql 404 ''Player not found'', db)
               else (ok [(''message'', JStr ''Player removed successfully!'')],
                     db\<lparr>my_players := deactivate playerId (my_players db)\<rparr>)))"

text \<open>
  \<^verbatim>\<open>POST /api/admin/players\<close> (\<^verbatim>\<open>part_001\<close> 181-206). The handler binds the
  \<^verbatim>\<open>email\<close> field, which the driver refuses when it is \<^verbatim>\<open>undefined\<close>: it throws a
  TypeError, which has no code, before the statement is sent. The stored procedure
  \<^verbatim>\<open>AddPlayer\<close> is not in src: it is a parameter, given the three bound values, which
  raises an error or returns the database it leaves.
\<close>

definition add_player_mysql ::
  "(string \<Rightarrow> string \<Rightarrow> int \<Rightarrow> my_db \<Rightarrow> js_error + my_db) \<Rightarrow> js_error option \<Rightarrow> token \<Rightarrow>
   string option \<Rightarrow> string option \<Rightarrow> int option \<Rightarrow> my_db \<Rightarrow> response \<times> my_db" where
  "add_player_mysql AddPlayer fault tok name_f email_f points_f db =
     (case authenticateAdmin_mysql tok of
        Some r \<Rightarrow> (r, db)
      | None \<Rightarrow>
          (let pts = (case points_f of None \<Rightarrow> 0 | Some n \<Rightarrow> n)
           in if \<not> truthy_str name_f then (failure_mysql 400 ''Player name is required'', db)
              else (case email_f of
                      None \<Rightarrow> (failure_mysql 500 ''Failed to add player'', db)
                    | Some email \<Rightarrow>
                        (case run fault (AddPlayer (str_of name_f) email pts db) of
                           Inr db' \<Rightarrow>
                             (ok [(''message'',
                                   JStr (''Player '' @ str_of name_f @ '' added successfully!''))],
                              db')
                         | Inl e \<Rightarrow>
                             if err_code e = Some ''ER_DUP_ENTRY''
                             then (failure_mysql 400 ''Player name already exists'', db)
                             else (failure_mysql 500 ''Failed to add player'', db)))))"

text \<open>
  The id MySQL compares with the key column when a value is bound to \<^verbatim>\<open>id = ?\<close>. That
  conversion is MySQL's and not in src: it is the parameter \<open>as_id\<close>, which gives
  \<open>None\<close> for a value that compares equal to no key.
\<close>

definition by_id_mysql ::
  "(jsval \<Rightarrow> int option) \<Rightarrow> my_db \<Rightarrow> string \<Rightarrow> jsval \<Rightarrow> (string \<times> jv) list" where
  "by_id_mysql as_id db key v =
     (case as_id v of
        None \<Rightarrow> []
      | Some pid \<Rightarrow> if pid \<in> set (map my_id (my_players db)) then [(key, JOther)] else [])"

text \<open>
  \<^verbatim>\<open>POST /api/admin/matches\<close> (\<^verbatim>\<open>part_001\<close> 209-247). The two ids are compared with
  \<^verbatim>\<open>===\<close> as the body holds them. The stored procedure \<^verbatim>\<open>RecordMatch\<close> is not in
  src: it is a parameter, given the four bound values. The call is statement 0, the two
  selects that follow are statements 1 and 2.
\<close>

definition record_match_mysql ::
  "(jsval \<Rightarrow> int option) \<Rightarrow> (jsval \<Rightarrow> jsval \<Rightarrow> jsval \<Rightarrow> jsval \<Rightarrow> my_db \<Rightarrow> js_error + my_db) \<Rightarrow>
   faults \<Rightarrow> token \<Rightarrow> jsval \<Rightarrow> jsval \<Rightarrow> jsval \<Rightarrow> jsval \<Rightarrow> my_db \<Rightarrow> response \<times> my_db" where
  "record_match_mysql as_id RecordMatch fault tok winnerId loserId pointsExchanged matchType db =
     (case authenticateAdmin_mysql tok of
        Some r \<Rightarrow> (r, db)
      | None \<Rightarrow>
          if \<not> truthy winnerId \<or> \<not> truthy loserId
          then (failure_mysql 400 ''Winner and loser IDs are required'', db)
          else if winnerId = loserId
          then (failure_mysql 400 ''Winner and loser cannot be the same player'', db)
          else (case run (fault 0)
                       (RecordMatch winnerId loserId (or_default pointsExchanged (VNum 1))
                          (or_default matchType (VStr ''casual'')) db) of
                  Inl e \<Rightarrow> (failure_mysql 500 ''Failed to record match'', db)
                | Inr db' \<Rightarrow>
                    (case (fault 1, fault 2) of
                       (None, None) \<Rightarrow>
                         (ok ([(''message'', JStr ''Match recorded successfully!'')] @
                              by_id_mysql as_id db' ''winner'' winnerId @
                              by_id_mysql as_id db' ''loser'' loserId), db')
                     | _ \<Rightarrow> (failure_mysql 500 ''Failed to record match'', db'))))"

subsection \<open>Archive management\<close>

text \<open>
  Modelled from the spec: the schema is not in src. \<^verbatim>\<open>INSERT INTO monthly_archives\<close>
  (\<^verbatim>\<open>part_001\<close> 337-349) takes the key from the counter and rejects a month already in the
  table with \<^verbatim>\<open>ER_DUP_ENTRY\<close> (spec 3: at most one archive per month; the handler's
  catch expects that code), the key it took being lost.
\<close>

definition insert_archive_mysql ::
  "string \<Rightarrow> int \<Rightarrow> int \<Rightarrow> int \<Rightarrow> int \<Rightarrow> int \<Rightarrow> int \<Rightarrow> int \<Rightarrow> int \<Rightarrow> my_db \<Rightarrow>
   js_error \<times> my_db + my_db" where
  "insert_archive_mysql month p1 pts1 p2 pts2 p3 pts3 tp tm db =
     (if month \<in> set (map my_archive_month (my_archives db))
      then Inl (dup_entry, db\<lparr>my_archives_seq := my_archives_seq db + 1\<rparr>)
      else Inr (db\<lparr>my_archives := my_archives db @
                       [\<lparr>my_archive_id = my_archives_seq db, my_archive_month = month,
                         my_first_place_player_id = p1, my_first_place_points = pts1,
                         my_second_place_player_id = p2, my_second_place_points = pts2,
                         my_third_place_player_id = p3, my_third_place_points = pts3,
                         my_total_players = tp, my_total_matches = tm\<rparr>],
                    my_archives_seq := my_archives_seq db + 1\<rparr>))"

text \<open>\<^verbatim>\<open>UPDATE players SET is_champion = TRUE WHERE id IN (?, ?, ?)\<close>
  (\<^verbatim>\<open>part_001\<close> 352-356).\<close>

definition set_champions :: "int list \<Rightarrow> player_mysql list \<Rightarrow> player_mysql list" where
  "set_champions ids ps =
     map (\<lambda>p. if my_id p \<in> set ids then p\<lparr>my_is_champion := True\<rparr> else p) ps"

text \<open>
  The statements of \<^verbatim>\<open>POST /api/admin/archives\<close> (\<^verbatim>\<open>part_001\<close> 316-356): the select
  of the three players (statement 0), the insert of the archive (statement 1) and the
  update of the champion flags (statement 2), each sent and committed by itself. The
  result is the exception thrown, or the month, and the database as the statements that
  ran have left it. The driver refuses to bind \<^verbatim>\<open>undefined\<close> and \<^verbatim>\<open>.points\<close> of a
  player that \<^verbatim>\<open>find\<close> did not return throws: both are a TypeError, which has no
  code. \<^verbatim>\<open>totalPlayers || 0\<close> turns an absent count into 0.
\<close>

definition archive_statements_mysql ::
  "faults \<Rightarrow> string option \<Rightarrow> int option \<Rightarrow> int option \<Rightarrow> int option \<Rightarrow> int option \<Rightarrow>
   int option \<Rightarrow> my_db \<Rightarrow> (js_error + string) \<times> my_db" where
  "archive_statements_mysql fault month firstPlaceId secondPlaceId thirdPlaceId totalPlayers
     totalMatches db =
     (case (firstPlaceId, secondPlaceId, thirdPlaceId) of
        (Some f, Some s, Some t) \<Rightarrow>
          (case fault 0 of
             Some e \<Rightarrow> (Inl e, db)
           | None \<Rightarrow>
               (let rows = filter (\<lambda>p. my_id p \<in> set [f, s, t]) (my_players db)
                in case (find (\<lambda>p. my_id p = f) rows, find (\<lambda>p. my_id p = s) rows,
                         find (\<lambda>p. my_id p = t) rows) of
                     (Some firstPlayer, Some secondPlayer, Some thirdPlayer) \<Rightarrow>
                       (case month of
                          None \<Rightarrow> (Inl type_error, db)
                        | Some m \<Rightarrow>
                            (case run_from db (fault 1)
                                    (insert_archive_mysql m f (my_points firstPlayer)
                                       s (my_points secondPlayer) t (my_points thirdPlayer)
                                       (num_of totalPlayers) (num_of totalMatches) db) of
                               Inl (e, db') \<Rightarrow> (Inl e, db')
                             | Inr db' \<Rightarrow>
                                 (case fault 2 of
                                    Some e \<Rightarrow> (Inl e, db')
                                  | None \<Rightarrow>
                                      (Inr m, db'\<lparr>my_players :=
                                                    set_champions [f, s, t] (my_players db')\<rparr>))))
                   | _ \<Rightarrow> (Inl type_error, db)))
      | _ \<Rightarrow> (Inl type_error, db))"

text \<open>\<^verbatim>\<open>POST /api/admin/archives\<close> (\<^verbatim>\<open>part_001\<close> 316-369): the statements and the
  answer of the handler or of its \<^verbatim>\<open>catch\<close>.\<close>

definition create_archive_mysql ::
  "faults \<Rightarrow> token \<Rightarrow> string option \<Rightarrow> int option \<Rightarrow> int option \<Rightarrow> int option \<Rightarrow>
   int option \<Rightarrow> int option \<Rightarrow> my_db \<Rightarrow> response \<times> my_db" where
  "create_archive_mysql fault tok month firstPlaceId secondPlaceId thirdPlaceId totalPlayers
     totalMatches db =
     (case authenticateAdmin_mysql tok of
        Some r \<Rightarrow> (r, db)
      | None \<Rightarrow>
          (case archive_statements_mysql fault month firstPlaceId secondPlaceId thirdPlaceId
                  totalPlayers totalMatches db of
             (Inr m, db') \<Rightarrow>
               (ok [(''message'', JStr (''Archive for '' @ m @ '' created successfully!''))], db')
           | (Inl e, db') \<Rightarrow>
               if err_code e = Some ''ER_DUP_ENTRY''
               then (failure_mysql 400 ''Archive for this month already exists'', db')
               else (failure_mysql 500 ''Failed to create archive'', db')))"

text \<open>\<^verbatim>\<open>DELETE /api/admin/archives/:id\<close> (\<^verbatim>\<open>part_001\<close> 372-393).\<close>

definition delete_archive_mysql ::
  "js_error option \<Rightarrow> token \<Rightarrow> int \<Rightarrow> my_db \<Rightarrow> response \<times> my_db" where
  "delete_archive_mysql fault tok archiveId db =
     (case authenticateAdmin_mysql tok of
        Some r \<Rightarrow> (r, db)
      | None \<Rightarrow>
          (case fault of
             Some e \<Rightarrow> (failure_mysql 500 ''Failed to delete archive'', db)
           | None \<Rightarrow>
               if length (filter (\<lambda>a. my_archive_id a = archiveId) (my_archives db)) = 0
               then (failure_mysql 404 ''Archive not found'', db)
               else (ok [(''message'', JStr ''Archive deleted successfully!'')],
                     db\<lparr>my_archives :=
                          filter (\<lambda>a. my_archive_id a \<noteq> archiveId) (my_archives db)\<rparr>)))"

section \<open>The remaining routes and the two applications\<close>

subsection \<open>Remaining routes of server.js\<close>

text \<open>\<^verbatim>\<open>POST /api/admin/login\<close> (server.js 73-100): \<open>password_ok\<close> is the comparison of the
  password with the configured one, \<open>signed\<close> the token \<^verbatim>\<open>jwt.sign\<close> returns, and
  \<open>fault\<close> an exception it throws.\<close>

definition login :: "bool \<Rightarrow> js_error option \<Rightarrow> bool \<Rightarrow> string \<Rightarrow> response" where
  "login development fault password_ok signed =
     (if password_ok
      then (case fault of
              Some e \<Rightarrow> handleError development e ''Server error during authentication''
            | None \<Rightarrow> ok [(''token'', JStr signed), (''message'', JStr ''Authentication successful'')])
      else failure 401 ''Invalid password'')"

text \<open>The read-only routes send the rows of their query (server.js 105-145, 148-173,
  278-301, 415-439, 545-562). The rows of the two joins over archives and badges are not
  modelled; their responses are.\<close>

definition get_leaderboard :: "bool \<Rightarrow> js_error option \<Rightarrow> pg_db \<Rightarrow> response \<times> lb_row list" where
  "get_leaderboard development fault db =
     (case fault of
        Some e \<Rightarrow> (handleError development e ''Failed to fetch leaderboard'', [])
      | None \<Rightarrow> (ok [(''players'', JOther)], leaderboard db))"

definition get_top3 :: "bool \<Rightarrow> js_error option \<Rightarrow> pg_db \<Rightarrow> response \<times> top_row list" where
  "get_top3 development fault db =
     (case fault of
        Some e \<Rightarrow> (handleError development e ''Failed to fetch top 3'', [])
      | None \<Rightarrow> (ok [(''top3'', JOther)], top3 db))"

definition get_admin_players ::
  "bool \<Rightarrow> js_error option \<Rightarrow> token \<Rightarrow> pg_db \<Rightarrow> response \<times> adm_row list" where
  "get_admin_players development fault tok db =
     (case authenticateAdmin tok of
        Some r \<Rightarrow> (r, [])
      | None \<Rightarrow>
          (case fault of
             Some e \<Rightarrow> (handleError development e ''Failed to fetch players'', [])
           | None \<Rightarrow> (ok [(''players'', JOther)], admin_players db)))"

definition get_archives :: "bool \<Rightarrow> js_error option \<Rightarrow> response" where
  "get_archives development fault =
     (case fault of
        Some e \<Rightarrow> handleError development e ''Failed to fetch archives''
      | None \<Rightarrow> ok [(''archives'', JOther)])"

definition get_tournament_winners :: "bool \<Rightarrow> js_error option \<Rightarrow> response" where
  "get_tournament_winners development fault =
     (case fault of
        Some e \<Rightarrow> handleError development e ''Failed to fetch tournament winners''
      | None \<Rightarrow> ok [(''tournament_winners'', JOther)])"

text \<open>
  \<^verbatim>\<open>GET /api/player/:id/stats\<close> (server.js 176-240). Modelled from the spec: the view
  \<^verbatim>\<open>player_statistics\<close> is not in src; it has a row for a player id exactly when the
  players table has one (spec 4.3: per-player aggregate stats).
\<close>

definition get_player_stats :: "bool \<Rightarrow> js_error option \<Rightarrow> string \<Rightarrow> pg_db \<Rightarrow> response" where
  "get_player_stats development fault id_param db =
     (case parseInt id_param of
        None \<Rightarrow> failure 400 ''Invalid player ID''
      | Some playerId \<Rightarrow>
          (case fault of
             Some e \<Rightarrow> handleError development e ''Failed to fetch player statistics''
           | None \<Rightarrow>
               if filter (\<lambda>p. player_id p = playerId) (players db) = []
               then failure 404 ''Player not found''
               else ok [(''player'', JOther), (''matchHistory'', JOther)]))"

text \<open>
  Modelled from the spec: the schema is not in src. A badge row gets the current date,
  the parameter \<open>today\<close>, as its \<^verbatim>\<open>tournament_date\<close>, and the table admits one row
  for each player, tournament name and date (spec 3: uniqueness is per player,
  tournament and date). With \<^verbatim>\<open>ON CONFLICT ... DO NOTHING\<close> (server.js 576-580) a
  second such row is skipped, without it (server.js 619-622) it is error 23505.
\<close>

definition insert_badge :: "bool \<Rightarrow> string \<Rightarrow> int \<Rightarrow> string \<Rightarrow> pg_db \<Rightarrow> js_error + pg_db" where
  "insert_badge do_nothing today pid tname db =
     (if \<exists>t \<in> set (tournament_winners db).
           tw_player_id t = pid \<and> tournament_name t = tname \<and> tournament_date t = today
      then (if do_nothing then Inr db else Inl unique_violation)
      else Inr (db\<lparr>tournament_winners := tournament_winners db @
                    [\<lparr>tw_player_id = pid, tournament_name = tname, tournament_date = today\<rparr>]\<rparr>))"

definition tournament_name_or_default :: "string option \<Rightarrow> string" where
  "tournament_name_or_default tn = (case tn of None \<Rightarrow> ''Tournament'' | Some n \<Rightarrow> n)"

text \<open>\<^verbatim>\<open>PATCH /api/admin/players/:id/tournament-winner\<close> (server.js 565-595);
  \<open>isTournamentWinner\<close> is the truthiness of the body field.\<close>

definition patch_tournament_winner ::
  "bool \<Rightarrow> string \<Rightarrow> js_error option \<Rightarrow> token \<Rightarrow> string \<Rightarrow> bool \<Rightarrow> string option \<Rightarrow> pg_db \<Rightarrow>
   response \<times> pg_db" where
  "patch_tournament_winner development today fault tok id_param isTournamentWinner tournamentName db =
     (case authenticateAdmin tok of
        Some r \<Rightarrow> (r, db)
      | None \<Rightarrow>
          (case parseInt id_param of
             None \<Rightarrow> (failure 400 ''Invalid player ID'', db)
           | Some playerId \<Rightarrow>
               (case run fault
                       (if isTournamentWinner
                        then insert_badge True today playerId
                               (tournament_name_or_default tournamentName) db
                        else Inr (db\<lparr>tournament_winners :=
                                      filter (\<lambda>t. tw_player_id t \<noteq> playerId)
                                        (tournament_winners db)\<rparr>)) of
                  Inl e \<Rightarrow>
                    (handleError development e ''Failed to update tournament winner status'', db)
                | Inr db' \<Rightarrow>
                    (ok [(''message'', JStr ''Tournament winner status updated!'')], db'))))"

text \<open>\<^verbatim>\<open>POST /api/admin/tournament-winners\<close> (server.js 598-638).\<close>

definition add_tournament_winner ::
  "bool \<Rightarrow> string \<Rightarrow> js_error option \<Rightarrow> token \<Rightarrow> int option \<Rightarrow> string option \<Rightarrow> string option \<Rightarrow>
   pg_db \<Rightarrow> response \<times> pg_db" where
  "add_tournament_winner development today fault tok playerId playerName tournamentName db =
     (case authenticateAdmin tok of
        Some r \<Rightarrow> (r, db)
      | None \<Rightarrow>
          (case
             (if truthy_num playerId then Inr (num_of playerId)
              else if truthy_str playerName
              then (case fault of
                      Some e \<Rightarrow> Inl (Inl e)
                    | None \<Rightarrow>
                        (case filter (\<lambda>p. name p = str_of playerName) (players db) of
                           [] \<Rightarrow> Inl (Inr (failure 404 ''Player not found''))
                         | p # _ \<Rightarrow> Inr (player_id p)))
              else Inl (Inr (failure 400 ''Player ID or name is required'')))
           of
             Inl (Inr r) \<Rightarrow> (r, db)
           | Inl (Inl e) \<Rightarrow>
               if err_code e = Some ''23505''
               then (failure 400 ''Tournament winner entry already exists'', db)
               else (handleError development e ''Failed to add tournament winner'', db)
           | Inr finalPlayerId \<Rightarrow>
               (case run fault (insert_badge False today finalPlayerId
                                  (tournament_name_or_default tournamentName) db) of
                  Inr db' \<Rightarrow>
                    (ok [(''message'', JStr ''Tournament winner badge added successfully!'')], db')
                | Inl e \<Rightarrow>
                    if err_code e = Some ''23505''
                    then (failure 400 ''Tournament winner entry already exists'', db)
                    else (handleError development e ''Failed to add tournament winner'', db))))"

text \<open>\<^verbatim>\<open>DELETE /api/admin/tournament-winners/:id\<close> (server.js 641-669).\<close>

definition remove_tournament_winner ::
  "bool \<Rightarrow> js_error option \<Rightarrow> token \<Rightarrow> string \<Rightarrow> pg_db \<Rightarrow> response \<times> pg_db" where
  "remove_tournament_winner development fault tok id_param db =
     (case authenticateAdmin tok of
        Some r \<Rightarrow> (r, db)
      | None \<Rightarrow>
          (case parseInt id_param of
             None \<Rightarrow> (failure 400 ''Invalid player ID'', db)
           | Some playerId \<Rightarrow>
               (case fault of
                  Some e \<Rightarrow> (handleError development e ''Failed to remove tournament winner'', db)
                | None \<Rightarrow>
                    if filter (\<lambda>t. tw_player_id t = playerId) (tournament_winners db) = []
                    then (failure 404 ''Tournament winner not found'', db)
                    else (ok [(''message'', JStr ''Tournament winner badge removed successfully!'')],
                          db\<lparr>tournament_winners :=
                               filter (\<lambda>t. tw_player_id t \<noteq> playerId)
                                 (tournament_winners db)\<rparr>))))"

text \<open>\<^verbatim>\<open>DELETE /api/admin/tournament-winners\<close> (server.js 672-683); the message, which
  holds the number of deleted rows, is kept as a string of unknown content.\<close>

definition clear_tournament_winners ::
  "bool \<Rightarrow> js_error option \<Rightarrow> token \<Rightarrow> pg_db \<Rightarrow> response \<times> pg_db" where
  "clear_tournament_winners development fault tok db =
     (case authenticateAdmin tok of
        Some r \<Rightarrow> (r, db)
      | None \<Rightarrow>
          (case fault of
             Some e \<Rightarrow> (handleError development e ''Failed to clear tournament winners'', db)
           | None \<Rightarrow>
               (ok [(''message'', JStr ''Cleared tournament winner badges'')],
                db\<lparr>tournament_winners := []\<rparr>)))"

text \<open>\<^verbatim>\<open>GET /api/health\<close> (server.js 688-706).\<close>

definition health :: "js_error option \<Rightarrow> response" where
  "health fault =
     (case fault of
        None \<Rightarrow>
          ok [(''status'', JStr ''healthy''), (''timestamp'', JOther),
              (''database'', JStr ''connected''), (''server_time'', JOther)]
      | Some e \<Rightarrow>
          respond 500 [(''success'', JBool False), (''status'', JStr ''unhealthy''),
                       (''database'', JStr ''disconnected''), (''error'', JStr (err_message e))])"

text \<open>The error-handling middleware and the 404 handler (server.js 711-726).\<close>

definition error_middleware :: "bool \<Rightarrow> js_error \<Rightarrow> response" where
  "error_middleware development e =
     respond 500
       ([(''success'', JBool False), (''error'', JStr ''Internal server error'')] @
        (if development then [(''details'', JStr (err_message e))] else []))"

definition not_found :: response where
  "not_found = failure 404 ''Endpoint not found''"

subsection \<open>The application of server.js\<close>

text \<open>
  A request that reaches the application: one constructor for each route, with the
  fields the handler reads; a request whose processing raises before any route (a body
  that is not JSON, say) and goes to the error middleware; and a request for a path no
  route matches. Static files and the CORS preflight are served by the framework and are
  not part of it.
\<close>

datatype request =
    PostLogin bool string
  | GetLeaderboard
  | GetTop3
  | GetPlayerStats string
  | PostPlayer token "string option" "int option"
  | GetAdminPlayers token
  | DeletePlayer token string
  | PostMatch token jsval jsval jsval jsval
  | GetRecentMatches "string option"
  | GetArchives
  | PostArchive token "string option" "int option" "int option" "int option"
  | DeleteArchive token string
  | GetTournamentWinners
  | PatchTournamentWinner token string bool "string option"
  | PostTournamentWinner token "int option" "string option" "string option"
  | DeleteTournamentWinner token string
  | DeleteTournamentWinners token
  | GetHealth
  | Raised js_error
  | NoRoute

text \<open>What lies outside src, as one record: the environment flag, the schema's tier
  derivation and delete rule, PostgreSQL's reading of a text as an integer, the stored
  function, the rows of the history view and the current date.\<close>

record 'm outside =
  development_mode :: bool
  tier_rule :: "int \<Rightarrow> string"
  delete_rule :: "int \<Rightarrow> pg_db \<Rightarrow> referencing option"
  integer_input :: "string \<Rightarrow> js_error + int"
  stored_record_match :: "jsval \<Rightarrow> jsval \<Rightarrow> pg_db \<Rightarrow> js_error + (string option \<times> pg_db)"
  history_view :: "'m list"
  current_date :: string

text \<open>The application: the route of the request, run with the errors its statements
  throw. A handler that takes one error is given that of its first statement.\<close>

fun app :: "'m outside \<Rightarrow> faults \<Rightarrow> request \<Rightarrow> pg_db \<Rightarrow> response \<times> pg_db" where
  "app w fault (PostLogin password_ok signed) db =
     (login (development_mode w) (fault 0) password_ok signed, db)"
| "app w fault GetLeaderboard db = (fst (get_leaderboard (development_mode w) (fault 0) db), db)"
| "app w fault GetTop3 db = (fst (get_top3 (development_mode w) (fault 0) db), db)"
| "app w fault (GetPlayerStats i) db = (get_player_stats (development_mode w) (fault 0) i db, db)"
| "app w fault (PostPlayer tok n p) db =
     add_player (development_mode w) (tier_rule w) (fault 0) tok n p db"
| "app w fault (GetAdminPlayers tok) db =
     (fst (get_admin_players (development_mode w) (fault 0) tok db), db)"
| "app w fault (DeletePlayer tok i) db =
     remove_player (development_mode w) (delete_rule w) (fault 0) tok i db"
| "app w fault (PostMatch tok wi li wn lname) db =
     record_match (development_mode w) (integer_input w) (stored_record_match w) fault tok wi li wn
       lname db"
| "app w fault (GetRecentMatches q) db =
     (fst (recent_matches (development_mode w) (fault 0) q (history_view w)), db)"
| "app w fault GetArchives db = (get_archives (development_mode w) (fault 0), db)"
| "app w fault (PostArchive tok m f s t) db =
     create_archive (development_mode w) (fault 0) tok m f s t db"
| "app w fault (DeleteArchive tok i) db = delete_archive (development_mode w) (fault 0) tok i db"
| "app w fault GetTournamentWinners db = (get_tournament_winners (development_mode w) (fault 0), db)"
| "app w fault (PatchTournamentWinner tok i b tn) db =
     patch_tournament_winner (development_mode w) (current_date w) (fault 0) tok i b tn db"
| "app w fault (PostTournamentWinner tok i n tn) db =
     add_tournament_winner (development_mode w) (current_date w) (fault 0) tok i n tn db"
| "app w fault (DeleteTournamentWinner tok i) db =
     remove_tournament_winner (development_mode w) (fault 0) tok i db"
| "app w fault (DeleteTournamentWinners tok) db =
     clear_tournament_winners (development_mode w) (fault 0) tok db"
| "app w fault GetHealth db = (health (fault 0), db)"
| "app w fault (Raised e) db = (error_middleware (development_mode w) e, db)"
| "app w fault NoRoute db = (not_found, db)"

text \<open>In the words of the specification: a response is an envelope when its body has
  a boolean \<^verbatim>\<open>success\<close> field and, if that is false, a string \<^verbatim>\<open>error\<close> field.\<close>

definition envelope :: "response \<Rightarrow> bool" where
  "envelope r =
     (case map_of (body r) ''success'' of
        Some (JBool True) \<Rightarrow> True
      | Some (JBool False) \<Rightarrow> (case map_of (body r) ''error'' of Some (JStr e) \<Rightarrow> True | _ \<Rightarrow> False)
      | _ \<Rightarrow> False)"

text \<open>The \<^verbatim>\<open>success\<close> field agrees with the status: it is true exactly on status
  200.\<close>

definition success_matches_status :: "response \<Rightarrow> bool" where
  "success_matches_status r = (map_of (body r) ''success'' = Some (JBool (status r = 200)))"

definition sound_response :: "response \<Rightarrow> bool" where
  "sound_response r = (envelope r \<and> success_matches_status r)"

subsection \<open>Remaining routes of the MySQL server\<close>

text \<open>\<^verbatim>\<open>POST /api/admin/login\<close> (\<^verbatim>\<open>part_001\<close> 53-82).\<close>

definition login_mysql :: "js_error option \<Rightarrow> bool \<Rightarrow> string \<Rightarrow> response" where
  "login_mysql fault password_ok signed =
     (if password_ok
      then (case fault of
              Some e \<Rightarrow> failure_mysql 500 ''Server error during authentication''
            | None \<Rightarrow> ok [(''token'', JStr signed), (''message'', JStr ''Authentication successful'')])
      else respond 401 [(''success'', JBool False), (''message'', JStr ''Invalid password'')])"

text \<open>The read-only routes (\<^verbatim>\<open>part_001\<close> 85-124, 250-264, 292-313).\<close>

definition get_leaderboard_mysql :: "js_error option \<Rightarrow> my_db \<Rightarrow> response \<times> lb_row_mysql list" where
  "get_leaderboard_mysql fault db =
     (case fault of
        Some e \<Rightarrow> (failure_mysql 500 ''Failed to fetch leaderboard'', [])
      | None \<Rightarrow> (ok [(''players'', JOther)], leaderboard_mysql db))"

definition get_top3_mysql :: "js_error option \<Rightarrow> my_db \<Rightarrow> response \<times> short_row_mysql list" where
  "get_top3_mysql fault db =
     (case fault of
        Some e \<Rightarrow> (failure_mysql 500 ''Failed to fetch top 3'', [])
      | None \<Rightarrow> (ok [(''top3'', JOther)], top3_mysql db))"

definition get_admin_players_mysql ::
  "js_error option \<Rightarrow> token \<Rightarrow> my_db \<Rightarrow> response \<times> short_row_mysql list" where
  "get_admin_players_mysql fault tok db =
     (case authenticateAdmin_mysql tok of
        Some r \<Rightarrow> (r, [])
      | None \<Rightarrow>
          (case fault of
             Some e \<Rightarrow> (failure_mysql 500 ''Failed to fetch players'', [])
           | None \<Rightarrow> (ok [(''players'', JOther)], admin_players_mysql db)))"

definition get_archives_mysql :: "js_error option \<Rightarrow> response" where
  "get_archives_mysql fault =
     (case fault of
        Some e \<Rightarrow> failure_mysql 500 ''Failed to fetch archives''
      | None \<Rightarrow> ok [(''archives'', JOther)])"

text \<open>
  \<^verbatim>\<open>GET /api/player/:id/stats\<close> (\<^verbatim>\<open>part_001\<close> 127-178). Modelled from the spec: the view
  \<^verbatim>\<open>player_stats\<close> is not in src; it has a row for a player id exactly when the players
  table has one (spec 4.3: per-player aggregate stats).
\<close>

definition get_player_stats_mysql :: "js_error option \<Rightarrow> int \<Rightarrow> my_db \<Rightarrow> response" where
  "get_player_stats_mysql fault playerId db =
     (case fault of
        Some e \<Rightarrow> failure_mysql 500 ''Failed to fetch player statistics''
      | None \<Rightarrow>
          if length (filter (\<lambda>p. my_id p = playerId) (my_players db)) = 0
          then failure_mysql 404 ''Player not found''
          else ok [(''player'', JOther), (''matchHistory'', JOther)])"

text \<open>\<^verbatim>\<open>PATCH /api/admin/players/:id/tournament-winner\<close> (\<^verbatim>\<open>part_001\<close> 396-414); the driver
  refuses to bind an absent flag.\<close>

definition patch_tournament_winner_mysql ::
  "js_error option \<Rightarrow> token \<Rightarrow> int \<Rightarrow> bool option \<Rightarrow> my_db \<Rightarrow> response \<times> my_db" where
  "patch_tournament_winner_mysql fault tok playerId isTournamentWinner db =
     (case authenticateAdmin_mysql tok of
        Some r \<Rightarrow> (r, db)
      | None \<Rightarrow>
          (case (fault, isTournamentWinner) of
             (None, Some b) \<Rightarrow>
               (ok [(''message'', JStr ''Tournament winner status updated!'')],
                db\<lparr>my_players :=
                     map (\<lambda>p. if my_id p = playerId then p\<lparr>my_is_tournament_winner := b\<rparr> else p)
                       (my_players db)\<rparr>)
           | _ \<Rightarrow> (failure_mysql 500 ''Failed to update tournament winner status'', db)))"

text \<open>
  \<^verbatim>\<open>GET /api/matches/recent\<close> (\<^verbatim>\<open>part_001\<close> 417-432): \<^verbatim>\<open>req.query.limit || 10\<close>, then
  \<^verbatim>\<open>parseInt\<close> of it as the bound of \<^verbatim>\<open>LIMIT ?\<close>. The view \<^verbatim>\<open>recent_matches\<close> is
  not in src: its rows, newest first, are the parameter \<open>history\<close>. The statement fails
  when the bound is \<^verbatim>\<open>NaN\<close> or negative.
\<close>

definition recent_matches_mysql ::
  "js_error option \<Rightarrow> string option \<Rightarrow> 'm list \<Rightarrow> response \<times> 'm list" where
  "recent_matches_mysql fault limit_q history =
     (case (fault, if truthy_str limit_q then parseInt (str_of limit_q) else Some 10) of
        (None, Some n) \<Rightarrow>
          if n < 0 then (failure_mysql 500 ''Failed to fetch recent matches'', [])
          else (ok [(''matches'', JOther)], take (nat n) history)
      | _ \<Rightarrow> (failure_mysql 500 ''Failed to fetch recent matches'', []))"

text \<open>\<^verbatim>\<open>GET /api/health\<close> and the error-handling middleware (\<^verbatim>\<open>part_001\<close> 435-450).\<close>

definition health_mysql :: response where
  "health_mysql =
     respond 200 [(''status'', JStr ''healthy''), (''timestamp'', JOther),
                  (''database'', JStr ''connected'')]"

definition error_middleware_mysql :: "bool \<Rightarrow> js_error \<Rightarrow> response" where
  "error_middleware_mysql development e =
     respond 500
       ([(''error'', JStr ''Internal server error'')] @
        (if development then [(''message'', JStr (err_message e))] else []))"

subsection \<open>The application of the MySQL server\<close>

datatype request_mysql =
    MPostLogin bool string
  | MGetLeaderboard
  | MGetTop3
  | MGetPlayerStats int
  | MPostPlayer token "string option" "string option" "int option"
  | MPostMatch token jsval jsval jsval jsval
  | MGetAdminPlayers token
  | MDeletePlayer token int
  | MGetArchives
  | MPostArchive token "string option" "int option" "int option" "int option" "int option"
      "int option"
  | MDeleteArchive token int
  | MPatchTournamentWinner token int "bool option"
  | MGetRecentMatches "string option"
  | MGetHealth
  | MRaised js_error

record 'm outside_mysql =
  development_mode_mysql :: bool
  id_comparison :: "jsval \<Rightarrow> int option"
  stored_AddPlayer :: "string \<Rightarrow> string \<Rightarrow> int \<Rightarrow> my_db \<Rightarrow> js_error + my_db"
  stored_RecordMatch :: "jsval \<Rightarrow> jsval \<Rightarrow> jsval \<Rightarrow> jsval \<Rightarrow> my_db \<Rightarrow> js_error + my_db"
  history_view_mysql :: "'m list"

fun app_mysql ::
  "'m outside_mysql \<Rightarrow> faults \<Rightarrow> request_mysql \<Rightarrow> my_db \<Rightarrow> response \<times> my_db" where
  "app_mysql w fault (MPostLogin password_ok signed) db = (login_mysql (fault 0) password_ok signed, db)"
| "app_mysql w fault MGetLeaderboard db = (fst (get_leaderboard_mysql (fault 0) db), db)"
| "app_mysql w fault MGetTop3 db = (fst (get_top3_mysql (fault 0) db), db)"
| "app_mysql w fault (MGetPlayerStats i) db = (get_player_stats_mysql (fault 0) i db, db)"
| "app_mysql w fault (MPostPlayer tok n e p) db =
     add_player_mysql (stored_AddPlayer w) (fault 0) tok n e p db"
| "app_mysql w fault (MPostMatch tok wi li pe mt) db =
     record_match_mysql (id_comparison w) (stored_RecordMatch w) fault tok wi li pe mt db"
| "app_mysql w fault (MGetAdminPlayers tok) db = (fst (get_admin_players_mysql (fault 0) tok db), db)"
| "app_mysql w fault (MDeletePlayer tok i) db = remove_player_mysql (fault 0) tok i db"
| "app_mysql w fault MGetArchives db = (get_archives_mysql (fault 0), db)"
| "app_mysql w fault (MPostArchive tok m f s t tp tm) db =
     create_archive_mysql fault tok m f s t tp tm db"
| "app_mysql w fault (MDeleteArchive tok i) db = delete_archive_mysql (fault 0) tok i db"
| "app_mysql w fault (MPatchTournamentWinner tok i b) db =
     patch_tournament_winner_mysql (fault 0) tok i b db"
| "app_mysql w fault (MGetRecentMatches q) db =
     (fst (recent_matches_mysql (fault 0) q (history_view_mysql w)), db)"
| "app_mysql w fault MGetHealth db = (health_mysql, db)"
| "app_mysql w fault (MRaised e) db =
     (error_middleware_mysql (development_mode_mysql w) e, db)"

text \<open>The shape of the error branches of the MySQL server: a string \<^verbatim>\<open>error\<close> field
  and no \<^verbatim>\<open>success\<close> field.\<close>

definition plain_error :: "response \<Rightarrow> bool" where
  "plain_error r =
     (map_of (body r) ''success'' = None \<and>
      (case map_of (body r) ''error'' of Some (JStr e) \<Rightarrow> True | _ \<Rightarrow> False))"

text \<open>The shape of the responses of the MySQL server: an error status comes with a
  plain error body, any other status with \<^verbatim>\<open>success: true\<close>.\<close>

definition sound_response_mysql :: "response \<Rightarrow> bool" where
  "sound_response_mysql r =
     (if 400 \<le> status r then plain_error r
      else map_of (body r) ''success'' = Some (JBool True))"

section \<open>Statements of the specification\<close>

text \<open>
  In the words of the specification: the win percentage is wins divided by wins plus
  losses, times 100, rounded to two decimals, and 0 when no game was played. A value is
  that rounding when it has two decimals and lies within half a hundredth of the exact
  percentage.
\<close>

definition is_win_percentage :: "nat \<Rightarrow> nat \<Rightarrow> rat \<Rightarrow> bool" where
  "is_win_percentage w l x =
     (if w + l = 0 then x = 0
      else of_int \<lfloor>x * 100\<rfloor> = x * 100 \<and>
           \<bar>x - of_nat w / of_nat (w + l) * 100\<bar> \<le> 1 / 200)"

text \<open>In the words of the specification: the ranking order is higher points first,
  then more wins first, then name ascending.\<close>

definition ranks_before :: "lb_row \<Rightarrow> lb_row \<Rightarrow> bool" where
  "ranks_before a b =
     (lb_points a > lb_points b \<or>
      (lb_points a = lb_points b \<and>
         (lb_wins a > lb_wins b \<or> (lb_wins a = lb_wins b \<and> lb_name a < lb_name b))))"

text \<open>The ordering the MySQL leaderboard sorts by: higher points first, then more wins
  first, then the higher win percentage first.\<close>

definition ranks_before_mysql :: "lb_row_mysql \<Rightarrow> lb_row_mysql \<Rightarrow> bool" where
  "ranks_before_mysql a b =
     (mlb_points a > mlb_points b \<or>
      (mlb_points a = mlb_points b \<and>
         (mlb_wins a > mlb_wins b \<or>
          (mlb_wins a = mlb_wins b \<and> mlb_win_percentage a > mlb_win_percentage b))))"

text \<open>A schema with no rule for the rows that reference a deleted player: they are
  left as they are.\<close>

definition keep_references :: "int \<Rightarrow> pg_db \<Rightarrow> referencing option" where
  "keep_references pid db = Some (matches db, monthly_archives db, tournament_winners db)"

text \<open>Two databases hold the same rows when their tables are equal; the sequences,
  which no query reads, may differ.\<close>

definition same_rows :: "pg_db \<Rightarrow> pg_db \<Rightarrow> bool" where
  "same_rows db db' =
     (players db' = players db \<and> matches db' = matches db \<and>
      monthly_archives db' = monthly_archives db \<and>
      tournament_winners db' = tournament_winners db)"

definition same_rows_mysql :: "my_db \<Rightarrow> my_db \<Rightarrow> bool" where
  "same_rows_mysql db db' =
     (my_players db' = my_players db \<and> my_matches db' = my_matches db \<and>
      my_archives db' = my_archives db)"

text \<open>A player id is named by an archive when it is in one of its three place columns.\<close>

definition named_by :: "archive \<Rightarrow> int \<Rightarrow> bool" where
  "named_by a pid =
     (pid = first_place_player_id a \<or> pid = second_place_player_id a \<or>
      pid = third_place_player_id a)"

text \<open>The archive row that a request for month \<open>m\<close> and the players \<open>p1\<close>, \<open>p2\<close>,
  \<open>p3\<close> inserts: their ids and the points they hold in the table.\<close>

definition archive_row :: "pg_db \<Rightarrow> string \<Rightarrow> player \<Rightarrow> player \<Rightarrow> player \<Rightarrow> archive" where
  "archive_row db m p1 p2 p3 =
     \<lparr>archive_id = archives_seq db, archive_month = m,
      first_place_player_id = player_id p1, first_place_points = points p1,
      second_place_player_id = player_id p2, second_place_points = points p2,
      third_place_player_id = player_id p3, third_place_points = points p3\<rparr>"

definition archive_row_mysql ::
  "my_db \<Rightarrow> string \<Rightarrow> player_mysql \<Rightarrow> player_mysql \<Rightarrow> player_mysql \<Rightarrow> int option \<Rightarrow> int option \<Rightarrow>
   archive_mysql" where
  "archive_row_mysql db m p1 p2 p3 tp tm =
     \<lparr>my_archive_id = my_archives_seq db, my_archive_month = m,
      my_first_place_player_id = my_id p1, my_first_place_points = my_points p1,
      my_second_place_player_id = my_id p2, my_second_place_points = my_points p2,
      my_third_place_player_id = my_id p3, my_third_place_points = my_points p3,
      my_total_players = num_of tp, my_total_matches = num_of tm\<rparr>"

text \<open>The player a name or an id resolves to: the first row of the table with that
  name, with that id.\<close>

definition player_by_name :: "pg_db \<Rightarrow> string \<Rightarrow> player option" where
  "player_by_name db nm = find (\<lambda>p. name p = nm) (players db)"

definition player_by_id :: "pg_db \<Rightarrow> int \<Rightarrow> player option" where
  "player_by_id db pid = find (\<lambda>p. player_id p = pid) (players db)"

definition player_by_id_mysql :: "my_db \<Rightarrow> int \<Rightarrow> player_mysql option" where
  "player_by_id_mysql db pid = find (\<lambda>p. my_id p = pid) (my_players db)"

section \<open>Example databases\<close>

definition example_db :: pg_db where
  "example_db =
     \<lparr>players = [\<lparr>player_id = 1, name = ''Ann'', points = 10, tier = ''Gold''\<rparr>,
                 \<lparr>player_id = 2, name = ''Bob'', points = 10, tier = ''Gold''\<rparr>,
                 \<lparr>player_id = 3, name = ''Cy'', points = 5, tier = ''Silver''\<rparr>,
                 \<lparr>player_id = 4, name = ''Dee'', points = 0, tier = ''Bronze''\<rparr>],
      matches = [\<lparr>winner_id = 2, loser_id = 3\<rparr>],
      monthly_archives =
        [\<lparr>archive_id = 1, archive_month = ''2024-05'',
          first_place_player_id = 1, first_place_points = 10,
          second_place_player_id = 2, second_place_points = 10,
          third_place_player_id = 3, third_place_points = 5\<rparr>],
      tournament_winners = [],
      players_seq = 5, archives_seq = 2\<rparr>"

text \<open>The same database after a player named 7 has been added.\<close>

definition example_db_seven :: pg_db where
  "example_db_seven =
     example_db\<lparr>players := players example_db @
                   [\<lparr>player_id = 5, name = ''7'', points = 0, tier = ''Bronze''\<rparr>],
                 players_seq := 6\<rparr>"

definition example_db_mysql :: my_db where
  "example_db_mysql =
     \<lparr>my_players =
        [\<lparr>my_id = 1, my_name = ''Ann'', my_points = 10, my_tier = ''Gold'', my_wins = 1,
          my_losses = 1, my_is_active = True, my_is_champion = False,
          my_is_tournament_winner = False\<rparr>,
         \<lparr>my_id = 2, my_name = ''Bob'', my_points = 10, my_tier = ''Gold'', my_wins = 1,
          my_losses = 0, my_is_active = True, my_is_champion = False,
          my_is_tournament_winner = False\<rparr>,
         \<lparr>my_id = 3, my_name = ''Cy'', my_points = 5, my_tier = ''Silver'', my_wins = 0,
          my_losses = 1, my_is_active = True, my_is_champion = False,
          my_is_tournament_winner = False\<rparr>],
      my_matches = [\<lparr>winner_id = 1, loser_id = 3\<rparr>, \<lparr>winner_id = 2, loser_id = 1\<rparr>],
      my_archives = [],
      my_archives_seq = 1\<rparr>"

text \<open>Examples of the readings of a bound value that are parameters of the match
  handlers: PostgreSQL reads a text of decimal digits as the number it writes and refuses
  any other text of these examples with error 22P02; MySQL compares a number as itself, a
  boolean as 1 or 0 and a string of decimal digits as the number it writes.\<close>

definition invalid_text_representation :: js_error where
  "invalid_text_representation =
     \<lparr>err_code = Some ''22P02'', err_message = ''invalid input syntax for type integer''\<rparr>"

definition example_int4in :: "string \<Rightarrow> js_error + int" where
  "example_int4in s =
     (let ds = digits_prefix 10 s
      in if s \<noteq> [] \<and> length ds = length s then Inr (int (foldl (\<lambda>a d. a * 10 + d) 0 ds))
         else Inl invalid_text_representation)"

definition example_id_comparison :: "jsval \<Rightarrow> int option" where
  "example_id_comparison v =
     (case v of
        VNum n \<Rightarrow> Some n
      | VBool b \<Rightarrow> Some (if b then 1 else 0)
      | VStr s \<Rightarrow> (case example_int4in s of Inr i \<Rightarrow> Some i | Inl e \<Rightarrow> None)
      | _ \<Rightarrow> None)"

text \<open>Examples of the stored routines that are parameters of the handlers. An
  \<open>example\<close> routine appends the match row, or the player row, it is called for and
  checks nothing else than what it needs for that; a \<open>checking\<close> routine of the MySQL
  server first checks what the specification asks of the routine and signals an error.\<close>

definition signal :: js_error where
  "signal = \<lparr>err_code = Some ''ER_SIGNAL_EXCEPTION'', err_message = ''Unhandled user-defined exception''\<rparr>"

definition example_record_match_result ::
  "jsval \<Rightarrow> jsval \<Rightarrow> pg_db \<Rightarrow> js_error + (string option \<times> pg_db)" where
  "example_record_match_result w l db =
     (case (to_text w, to_text l) of
        (Some a, Some b) \<Rightarrow>
          (case (player_by_name db a, player_by_name db b) of
             (Some p, Some q) \<Rightarrow>
               Inr (Some ''Match recorded'',
                    db\<lparr>matches := matches db @
                          [\<lparr>winner_id = player_id p, loser_id = player_id q\<rparr>]\<rparr>)
           | _ \<Rightarrow> Inr (Some ''Error: player not found'', db))
      | _ \<Rightarrow> Inr (Some ''Error: player not found'', db))"

definition example_RecordMatch ::
  "jsval \<Rightarrow> jsval \<Rightarrow> jsval \<Rightarrow> jsval \<Rightarrow> my_db \<Rightarrow> js_error + my_db" where
  "example_RecordMatch w l pe mt db =
     (case (example_id_comparison w, example_id_comparison l) of
        (Some a, Some b) \<Rightarrow> Inr (db\<lparr>my_matches := my_matches db @ [\<lparr>winner_id = a, loser_id = b\<rparr>]\<rparr>)
      | _ \<Rightarrow> Inl signal)"

definition checking_RecordMatch ::
  "jsval \<Rightarrow> jsval \<Rightarrow> jsval \<Rightarrow> jsval \<Rightarrow> my_db \<Rightarrow> js_error + my_db" where
  "checking_RecordMatch w l pe mt db =
     (if example_id_comparison w = example_id_comparison l then Inl signal
      else example_RecordMatch w l pe mt db)"

definition example_AddPlayer :: "string \<Rightarrow> string \<Rightarrow> int \<Rightarrow> my_db \<Rightarrow> js_error + my_db" where
  "example_AddPlayer nm email pts db =
     (if nm \<in> set (map my_name (my_players db)) then Inl dup_entry
      else Inr (db\<lparr>my_players := my_players db @
                  [\<lparr>my_id = 1 + int (length (my_players db)), my_name = nm, my_points = pts,
                    my_tier = ''Bronze'', my_wins = 0, my_losses = 0, my_is_active = True,
                    my_is_champion = False, my_is_tournament_winner = False\<rparr>]\<rparr>))"

definition checking_AddPlayer :: "string \<Rightarrow> string \<Rightarrow> int \<Rightarrow> my_db \<Rightarrow> js_error + my_db" where
  "checking_AddPlayer nm email pts db =
     (if trim nm = [] \<or> pts < 0 \<or> 49 < pts then Inl signal
      else example_AddPlayer nm email pts db)"

text \<open>The MySQL database after the archive of Ann, Bob and Cy for 2024-05 has been
  created.\<close>

definition example_db_mysql_archived :: my_db where
  "example_db_mysql_archived =
     snd (create_archive_mysql no_fault ValidToken (Some ''2024-05'') (Some 1) (Some 2) (Some 3)
            None None example_db_mysql)"

definition example_tier_of :: "int \<Rightarrow> string" where
  "example_tier_of pts = (if pts < 5 then ''Bronze'' else if pts < 10 then ''Silver'' else ''Gold'')"

definition example_outside :: "nat outside" where
  "example_outside =
     \<lparr>development_mode = False, tier_rule = example_tier_of, delete_rule = keep_references,
      integer_input = example_int4in, stored_record_match = example_record_match_result,
      history_view = [], current_date = ''2024-06-01''\<rparr>"

definition example_outside_mysql :: "nat outside_mysql" where
  "example_outside_mysql =
     \<lparr>development_mode_mysql = False, id_comparison = example_id_comparison,
      stored_AddPlayer = example_AddPlayer, stored_RecordMatch = example_RecordMatch,
      history_view_mysql = []\<rparr>"

section \<open>Properties\<close>

subsection \<open>Rounding and evaluation helpers\<close>

lemma floor_rat_numeral [simp]:
  "\<lfloor>(numeral a :: rat) / numeral b\<rfloor> = numeral a div numeral b"
  "\<lfloor>(1 :: rat) / numeral b\<rfloor> = 1 div numeral b"
  using floor_divide_of_int_eq[of "numeral a" "numeral b", where ?'a = rat]
        floor_divide_of_int_eq[of 1 "numeral b", where ?'a = rat]
  by simp_all

lemma round_numeric_two_decimals:
  "of_int \<lfloor>round_numeric x 2 * 100\<rfloor> = round_numeric x 2 * 100"
  by (simp add: round_numeric_def)

lemma round_numeric_close:
  assumes "0 \<le> x"
  shows "\<bar>round_numeric x 2 - x\<bar> \<le> 1 / 200"
proof -
  define k :: rat where "k = of_int \<lfloor>x * 100 + 1 / 2\<rfloor>"
  have lo: "k \<le> x * 100 + 1 / 2" unfolding k_def by (rule of_int_floor_le)
  have hi: "x * 100 + 1 / 2 < k + 1" unfolding k_def by linarith
  have "round_numeric x 2 = k / 100" using assms by (simp add: round_numeric_def k_def)
  moreover have "\<bar>k / 100 - x\<bar> \<le> 1 / 200" using lo hi by linarith
  ultimately show ?thesis by (simp only:)
qed

lemma win_percentage_is: "is_win_percentage w l (win_percentage w l)"
  unfolding is_win_percentage_def win_percentage_def
  using round_numeric_two_decimals round_numeric_close[of "of_nat w / of_nat (w + l) * 100"]
  by simp

lemma win_percentage_mysql_is: "is_win_percentage w l (win_percentage_mysql w l)"
  unfolding is_win_percentage_def win_percentage_mysql_def
  using round_numeric_two_decimals round_numeric_close[of "of_nat w / of_nat (w + l) * 100"]
  by simp

subsection \<open>Rows of the leaderboards\<close>

lemma set_lb_number:
  "r \<in> set (lb_number n rs) \<Longrightarrow> \<exists>r0 \<in> set rs. \<exists>k. r = r0\<lparr>lb_rank := k\<rparr>"
  by (induction rs arbitrary: n) auto

lemma set_lb_number_mysql:
  "r \<in> set (lb_number_mysql n rs) \<Longrightarrow> \<exists>r0 \<in> set rs. \<exists>k. r = r0\<lparr>mlb_rank := k\<rparr>"
  by (induction rs arbitrary: n) auto

lemma leaderboard_row:
  assumes "r \<in> set (leaderboard db)"
  shows "\<exists>p \<in> set (players db). \<exists>r0 \<in> set (lb_rows_of db p). \<exists>k. r = r0\<lparr>lb_rank := k\<rparr>"
  using set_lb_number[OF assms[unfolded leaderboard_def]] by auto

lemma leaderboard_example:
  "map (\<lambda>r. (lb_id r, lb_name r, lb_points r, lb_wins r, lb_losses r, lb_win_percentage r,
             lb_is_champion r, lb_rank r)) (leaderboard example_db) =
     [(2, ''Bob'', 10, 1, 0, 100, True, 1), (1, ''Ann'', 10, 0, 0, 0, True, 2),
      (3, ''Cy'', 5, 0, 1, 0, True, 3), (4, ''Dee'', 0, 0, 0, 0, False, 4)]"
  by (simp add: example_db_def leaderboard_def lb_rows_of_def tw_join_def lb_key_def
        win_count_def loss_count_def win_percentage_def round_numeric_def is_champion_def
        champions_def)

lemma leaderboard_mysql_example:
  "map (\<lambda>r. (mlb_id r, mlb_name r, mlb_points r, mlb_wins r, mlb_losses r,
             mlb_win_percentage r, mlb_rank r)) (leaderboard_mysql example_db_mysql) =
     [(2, ''Bob'', 10, 1, 0, 100, 1), (1, ''Ann'', 10, 1, 1, 50, 2), (3, ''Cy'', 5, 0, 1, 0, 3)]"
  by (simp add: example_db_mysql_def leaderboard_mysql_def lb_row_of_mysql_def lb_key_mysql_def
        win_percentage_mysql_def round_numeric_def)

subsection \<open>Win percentage\<close>

text \<open>
  C7. In every row of the leaderboard, of server.js and of the MySQL server, the reported
  win percentage is wins divided by wins plus losses, times 100, rounded to two decimals
  (it has two decimals and is within half a hundredth of the exact percentage), and it is
  exactly 0 for a player with no game. In server.js the wins and losses of the row are
  the counts of the player's match rows.
\<close>

theorem win_percentage_reported:
  "(\<forall>r \<in> set (leaderboard db).
      lb_wins r = win_count db (lb_id r) \<and> lb_losses r = loss_count db (lb_id r) \<and>
      is_win_percentage (lb_wins r) (lb_losses r) (lb_win_percentage r) \<and>
      (lb_wins r + lb_losses r = 0 \<longrightarrow> lb_win_percentage r = 0)) \<and>
   (\<forall>r \<in> set (leaderboard_mysql mdb).
      is_win_percentage (mlb_wins r) (mlb_losses r) (mlb_win_percentage r) \<and>
      (mlb_wins r + mlb_losses r = 0 \<longrightarrow> mlb_win_percentage r = 0))"
proof (intro conjI ballI)
  fix r assume r: "r \<in> set (leaderboard db)"
  from leaderboard_row[OF r] obtain p r0 k where
    "p \<in> set (players db)" and r0: "r0 \<in> set (lb_rows_of db p)" and rk: "r = r0\<lparr>lb_rank := k\<rparr>"
    by blast
  from r0 have f: "lb_id r0 = player_id p" "lb_wins r0 = win_count db (player_id p)"
      "lb_losses r0 = loss_count db (player_id p)"
      "lb_win_percentage r0 = win_percentage (lb_wins r0) (lb_losses r0)"
    by (auto simp: lb_rows_of_def)
  show "lb_wins r = win_count db (lb_id r)" using f rk by simp
  show "lb_losses r = loss_count db (lb_id r)" using f rk by simp
  show "is_win_percentage (lb_wins r) (lb_losses r) (lb_win_percentage r)"
    using f rk win_percentage_is by simp
  show "lb_wins r + lb_losses r = 0 \<longrightarrow> lb_win_percentage r = 0"
    using f rk by (simp add: win_percentage_def)
next
  fix r assume r: "r \<in> set (leaderboard_mysql mdb)"
  from set_lb_number_mysql[OF r[unfolded leaderboard_mysql_def]] obtain p k where
    rk: "r = (lb_row_of_mysql p)\<lparr>mlb_rank := k\<rparr>" by auto
  show "is_win_percentage (mlb_wins r) (mlb_losses r) (mlb_win_percentage r)"
    using rk win_percentage_mysql_is by (simp add: lb_row_of_mysql_def)
  show "mlb_wins r + mlb_losses r = 0 \<longrightarrow> mlb_win_percentage r = 0"
    using rk by (simp add: lb_row_of_mysql_def win_percentage_mysql_def)
qed

theorem win_percentage_reported_witness:
  "leaderboard example_db ! 1 \<in> set (leaderboard example_db) \<and>
   lb_wins (leaderboard example_db ! 1) + lb_losses (leaderboard example_db ! 1) = 0 \<and>
   lb_win_percentage (leaderboard example_db ! 1) = 0 \<and>
   leaderboard example_db ! 0 \<in> set (leaderboard example_db) \<and>
   is_win_percentage 1 0 (lb_win_percentage (leaderboard example_db ! 0)) \<and>
   leaderboard_mysql example_db_mysql ! 1 \<in> set (leaderboard_mysql example_db_mysql) \<and>
   is_win_percentage 1 1 (mlb_win_percentage (leaderboard_mysql example_db_mysql ! 1))"
proof -
  have len: "length (leaderboard example_db) = 4"
    using arg_cong[OF leaderboard_example, of length] by simp
  have r0: "lb_wins (leaderboard example_db ! 0) = 1" "lb_losses (leaderboard example_db ! 0) = 0"
    using arg_cong[OF leaderboard_example, of "\<lambda>l. l ! 0"] len by simp_all
  have r1: "lb_wins (leaderboard example_db ! 1) = 0" "lb_losses (leaderboard example_db ! 1) = 0"
    using arg_cong[OF leaderboard_example, of "\<lambda>l. l ! 1"] len by simp_all
  have m0: "leaderboard example_db ! 0 \<in> set (leaderboard example_db)"
    and m1: "leaderboard example_db ! 1 \<in> set (leaderboard example_db)"
    using len by simp_all
  have mlen: "length (leaderboard_mysql example_db_mysql) = 3"
    using arg_cong[OF leaderboard_mysql_example, of length] by simp
  have q1: "mlb_wins (leaderboard_mysql example_db_mysql ! 1) = 1"
    "mlb_losses (leaderboard_mysql example_db_mysql ! 1) = 1"
    using arg_cong[OF leaderboard_mysql_example, of "\<lambda>l. l ! 1"] mlen by simp_all
  have n1: "leaderboard_mysql example_db_mysql ! 1 \<in> set (leaderboard_mysql example_db_mysql)"
    using mlen by simp
  note t = win_percentage_reported[of example_db example_db_mysql]
  from t m0 r0 have a: "is_win_percentage 1 0 (lb_win_percentage (leaderboard example_db ! 0))"
    by fastforce
  from t m1 r1 have b: "lb_win_percentage (leaderboard example_db ! 1) = 0"
    by fastforce
  from t n1 q1 have c:
    "is_win_percentage 1 1 (mlb_win_percentage (leaderboard_mysql example_db_mysql ! 1))"
    by fastforce
  from a b c m0 m1 n1 r1 show ?thesis by simp
qed

subsection \<open>Recent matches\<close>

lemma parse_examples:
  "parseInt_opt (Some ''0'') = Some 0" "parseInt_opt (Some ''abc'') = None"
  "parseInt_opt (Some ''3'') = Some 3" "parseInt_opt None = None"
  "parseInt ''1'' = Some 1" "parseInt ''4'' = Some 4"
  by (simp_all add: parseInt_opt_def parseInt_def digit_val_def is_ws_def)

text \<open>
  C10. When the recent-matches endpoint of server.js answers with matches, their number
  is at most the integer parse of the limit parameter when that parse is a nonzero
  number and at most 10 otherwise; a response that is not a success carries no match.
  With limit 0, a limit that does not parse, or no limit, the first 10 rows are served.
\<close>

theorem recent_matches_bounded:
  "(status (fst (recent_matches development fault q history)) = 200 \<longrightarrow>
      int (length (snd (recent_matches development fault q history))) \<le>
        (case parseInt_opt q of None \<Rightarrow> 10 | Some n \<Rightarrow> if n = 0 then 10 else n)) \<and>
   (status (fst (recent_matches development fault q history)) \<noteq> 200 \<longrightarrow>
      snd (recent_matches development fault q history) = []) \<and>
   (parseInt_opt q = None \<or> parseInt_opt q = Some 0 \<longrightarrow>
      recent_matches development None q history = (ok [(''matches'', JOther)], take 10 history)) \<and>
   recent_matches development None (Some ''0'') history =
     (ok [(''matches'', JOther)], take 10 history) \<and>
   recent_matches development None (Some ''abc'') history =
     (ok [(''matches'', JOther)], take 10 history)"
  by (auto simp: recent_matches_def run_def select_recent_def recent_limit_def ok_def respond_def
        handleError_def parse_examples split: option.splits)

theorem recent_matches_bounded_witness:
  "status (fst (recent_matches False None (Some ''3'') [1, 2, 3, 4, 5 :: nat])) = 200 \<and>
   snd (recent_matches False None (Some ''3'') [1, 2, 3, 4, 5 :: nat]) = [1, 2, 3] \<and>
   int (length (snd (recent_matches False None (Some ''3'') [1, 2, 3, 4, 5 :: nat]))) \<le> 3 \<and>
   parseInt_opt (Some ''0'') = Some 0 \<and>
   recent_matches False None (Some ''0'') [1, 2, 3 :: nat] = (ok [(''matches'', JOther)], [1, 2, 3])"
proof -
  have s: "status (fst (recent_matches False None (Some ''3'') [1, 2, 3, 4, 5 :: nat])) = 200"
    and r: "snd (recent_matches False None (Some ''3'') [1, 2, 3, 4, 5 :: nat]) = [1, 2, 3]"
    by (simp_all add: recent_matches_def run_def select_recent_def recent_limit_def ok_def
          respond_def parse_examples)
  from recent_matches_bounded[of False None "Some ''3''" "[1, 2, 3, 4, 5 :: nat]"] s
  have b: "int (length (snd (recent_matches False None (Some ''3'') [1, 2, 3, 4, 5 :: nat]))) \<le> 3"
    by (simp add: parse_examples)
  from recent_matches_bounded[of False None "Some ''0''" "[1, 2, 3 :: nat]"]
  have z: "recent_matches False None (Some ''0'') [1, 2, 3 :: nat] =
             (ok [(''matches'', JOther)], [1, 2, 3])"
    by (simp add: parse_examples)
  from s r b z show ?thesis by (simp add: parse_examples)
qed

subsection \<open>Order of the leaderboard\<close>

lemma nth_lb_number: "i < length rs \<Longrightarrow> lb_number n rs ! i = (rs ! i)\<lparr>lb_rank := n + i\<rparr>"
proof (induction rs arbitrary: n i)
  case Nil
  then show ?case by simp
next
  case (Cons r rs)
  then show ?case by (cases i) auto
qed

lemma length_lb_number [simp]: "length (lb_number n rs) = length rs"
  by (induction rs arbitrary: n) auto

lemma map_lb_id_number [simp]: "map lb_id (lb_number n rs) = map lb_id rs"
  by (induction rs arbitrary: n) auto

lemma ranks_before_key: "ranks_before a b \<longleftrightarrow> lb_key a < lb_key b"
  by (auto simp: ranks_before_def lb_key_def)

lemma lb_key_rank [simp]: "lb_key (r\<lparr>lb_rank := k\<rparr>) = lb_key r"
  by (simp add: lb_key_def)

lemma lb_rows_name:
  assumes "distinct (map name (players db))"
    and "p \<in> set (players db)" "q \<in> set (players db)"
    and "a \<in> set (lb_rows_of db p)" "b \<in> set (lb_rows_of db q)" "lb_id a \<noteq> lb_id b"
  shows "lb_name a \<noteq> lb_name b"
proof
  assume e: "lb_name a = lb_name b"
  from assms(4,5) have f: "lb_name a = name p" "lb_name b = name q"
      "lb_id a = player_id p" "lb_id b = player_id q"
    by (auto simp: lb_rows_of_def)
  with e have "name p = name q" by simp
  with assms(1-3) have "p = q" by (meson distinct_map inj_onD)
  with f assms(6) show False by simp
qed

lemma leaderboard_pair:
  assumes d: "distinct (map name (players db))"
    and a: "a \<in> set (leaderboard db)" and b: "b \<in> set (leaderboard db)"
    and ne: "lb_id a \<noteq> lb_id b"
  shows "(ranks_before a b \<or> ranks_before b a) \<and> \<not> (ranks_before a b \<and> ranks_before b a) \<and>
         (ranks_before a b \<longleftrightarrow> lb_rank a < lb_rank b)"
proof -
  define R where "R = concat (map (lb_rows_of db) (players db))"
  define S where "S = sort_key lb_key R"
  have L: "leaderboard db = lb_number 1 S" by (simp add: leaderboard_def S_def R_def)
  from a obtain i where i: "i < length S" "a = (S ! i)\<lparr>lb_rank := 1 + i\<rparr>"
    unfolding L in_set_conv_nth by (auto simp: nth_lb_number)
  from b obtain j where j: "j < length S" "b = (S ! j)\<lparr>lb_rank := 1 + j\<rparr>"
    unfolding L in_set_conv_nth by (auto simp: nth_lb_number)
  have inR: "\<exists>p \<in> set (players db). S ! k \<in> set (lb_rows_of db p)" if "k < length S" for k
  proof -
    from that have "S ! k \<in> set S" by simp
    then have "S ! k \<in> set R" by (simp add: S_def)
    then show ?thesis by (auto simp: R_def)
  qed
  from inR[OF i(1)] obtain p where p: "p \<in> set (players db)" "S ! i \<in> set (lb_rows_of db p)"
    by blast
  from inR[OF j(1)] obtain q where q: "q \<in> set (players db)" "S ! j \<in> set (lb_rows_of db q)"
    by blast
  have ids: "lb_id (S ! i) \<noteq> lb_id (S ! j)" using ne i(2) j(2) by simp
  have names: "lb_name (S ! i) \<noteq> lb_name (S ! j)"
    by (rule lb_rows_name[OF d p(1) q(1) p(2) q(2) ids])
  then have keys: "lb_key (S ! i) \<noteq> lb_key (S ! j)" by (simp add: lb_key_def)
  have srt: "sorted (map lb_key S)" by (simp add: S_def)
  have mono: "lb_key (S ! m) \<le> lb_key (S ! n)" if "m \<le> n" "n < length S" for m n
    using sorted_nth_mono[OF srt] that by fastforce
  have ka: "lb_key a = lb_key (S ! i)" and kb: "lb_key b = lb_key (S ! j)"
    using i(2) j(2) by simp_all
  have ra: "lb_rank a = 1 + i" and rb: "lb_rank b = 1 + j" using i(2) j(2) by simp_all
  have ij: "i \<noteq> j" using ids by auto
  show ?thesis
  proof (cases "i < j")
    case True
    then have "lb_key (S ! i) \<le> lb_key (S ! j)" using mono[of i j] j(1) by simp
    with keys have "lb_key a < lb_key b" using ka kb by simp
    then show ?thesis using True ra rb by (auto simp: ranks_before_key)
  next
    case False
    with ij have ji: "j < i" by simp
    then have "lb_key (S ! j) \<le> lb_key (S ! i)" using mono[of j i] i(1) by simp
    with keys have "lb_key b < lb_key a" using ka kb by simp
    then show ?thesis using ji ra rb by (auto simp: ranks_before_key)
  qed
qed

lemma tw_join_nonempty: "tw_join db pid \<noteq> []"
  by (simp add: tw_join_def Let_def)

lemma lb_rows_ids: "lb_id ` set (lb_rows_of db p) = {player_id p}"
proof -
  obtain x xs where "tw_join db (player_id p) = x # xs"
    using tw_join_nonempty[of db "player_id p"] by (cases "tw_join db (player_id p)") auto
  then show ?thesis by (auto simp: lb_rows_of_def image_iff)
qed

lemma leaderboard_ids: "set (map lb_id (leaderboard db)) = set (map player_id (players db))"
proof -
  have "set (map lb_id (leaderboard db)) = (\<Union>p \<in> set (players db). lb_id ` set (lb_rows_of db p))"
    by (auto simp: leaderboard_def)
  then show ?thesis by (auto simp: lb_rows_ids)
qed

lemma nth_lb_number_mysql:
  "i < length rs \<Longrightarrow> lb_number_mysql n rs ! i = (rs ! i)\<lparr>mlb_rank := n + i\<rparr>"
proof (induction rs arbitrary: n i)
  case Nil
  then show ?case by simp
next
  case (Cons r rs)
  then show ?case by (cases i) auto
qed

lemma length_lb_number_mysql [simp]: "length (lb_number_mysql n rs) = length rs"
  by (induction rs arbitrary: n) auto

lemma map_mlb_id_number [simp]: "map mlb_id (lb_number_mysql n rs) = map mlb_id rs"
  by (induction rs arbitrary: n) auto

lemma ranks_before_mysql_key: "ranks_before_mysql a b \<longleftrightarrow> lb_key_mysql a < lb_key_mysql b"
  by (auto simp: ranks_before_mysql_def lb_key_mysql_def)

lemma lb_key_mysql_rank [simp]: "lb_key_mysql (r\<lparr>mlb_rank := k\<rparr>) = lb_key_mysql r"
  by (simp add: lb_key_mysql_def)

lemma leaderboard_mysql_pair:
  assumes "i < j" "j < length (leaderboard_mysql db)"
  shows "\<not> ranks_before_mysql (leaderboard_mysql db ! j) (leaderboard_mysql db ! i) \<and>
         mlb_rank (leaderboard_mysql db ! i) = i + 1 \<and>
         mlb_rank (leaderboard_mysql db ! j) = j + 1"
proof -
  define S where
    "S = sort_key lb_key_mysql (map lb_row_of_mysql (filter my_is_active (my_players db)))"
  have L: "leaderboard_mysql db = lb_number_mysql 1 S" by (simp add: leaderboard_mysql_def S_def)
  have len: "j < length S" "i < length S" using assms by (simp_all add: L)
  have srt: "sorted (map lb_key_mysql S)" by (simp add: S_def)
  have "lb_key_mysql (S ! i) \<le> lb_key_mysql (S ! j)"
    using sorted_nth_mono[OF srt, of i j] assms(1) len by simp
  then show ?thesis
    using len by (simp add: L nth_lb_number_mysql ranks_before_mysql_key not_less)
qed

lemma leaderboard_mysql_ids:
  "set (map mlb_id (leaderboard_mysql db)) = set (map my_id (filter my_is_active (my_players db)))"
  by (auto simp: leaderboard_mysql_def lb_row_of_mysql_def image_iff)

lemma leaderboard_example_rows:
  "length (leaderboard example_db) = 4"
  "lb_id (leaderboard example_db ! 0) = 2" "lb_id (leaderboard example_db ! 1) = 1"
  "lb_name (leaderboard example_db ! 0) = ''Bob''" "lb_name (leaderboard example_db ! 1) = ''Ann''"
  "lb_points (leaderboard example_db ! 0) = 10" "lb_points (leaderboard example_db ! 1) = 10"
  "lb_wins (leaderboard example_db ! 0) = 1" "lb_wins (leaderboard example_db ! 1) = 0"
  "lb_rank (leaderboard example_db ! 0) = 1" "lb_rank (leaderboard example_db ! 1) = 2"
proof -
  show len: "length (leaderboard example_db) = 4"
    using arg_cong[OF leaderboard_example, of length] by simp
  show "lb_id (leaderboard example_db ! 0) = 2" "lb_name (leaderboard example_db ! 0) = ''Bob''"
    "lb_points (leaderboard example_db ! 0) = 10" "lb_wins (leaderboard example_db ! 0) = 1"
    "lb_rank (leaderboard example_db ! 0) = 1"
    using arg_cong[OF leaderboard_example, of "\<lambda>l. l ! 0"] len by simp_all
  show "lb_id (leaderboard example_db ! 1) = 1" "lb_name (leaderboard example_db ! 1) = ''Ann''"
    "lb_points (leaderboard example_db ! 1) = 10" "lb_wins (leaderboard example_db ! 1) = 0"
    "lb_rank (leaderboard example_db ! 1) = 2"
    using arg_cong[OF leaderboard_example, of "\<lambda>l. l ! 1"] len by simp_all
qed

lemma leaderboard_mysql_example_rows:
  "length (leaderboard_mysql example_db_mysql) = 3"
  "mlb_name (leaderboard_mysql example_db_mysql ! 0) = ''Bob''"
  "mlb_name (leaderboard_mysql example_db_mysql ! 1) = ''Ann''"
  "mlb_points (leaderboard_mysql example_db_mysql ! 0) = 10"
  "mlb_points (leaderboard_mysql example_db_mysql ! 1) = 10"
  "mlb_wins (leaderboard_mysql example_db_mysql ! 0) = 1"
  "mlb_wins (leaderboard_mysql example_db_mysql ! 1) = 1"
  "mlb_win_percentage (leaderboard_mysql example_db_mysql ! 0) = 100"
  "mlb_win_percentage (leaderboard_mysql example_db_mysql ! 1) = 50"
  "mlb_rank (leaderboard_mysql example_db_mysql ! 0) = 1"
  "mlb_rank (leaderboard_mysql example_db_mysql ! 1) = 2"
proof -
  show len: "length (leaderboard_mysql example_db_mysql) = 3"
    using arg_cong[OF leaderboard_mysql_example, of length] by simp
  show "mlb_name (leaderboard_mysql example_db_mysql ! 0) = ''Bob''"
    "mlb_points (leaderboard_mysql example_db_mysql ! 0) = 10"
    "mlb_wins (leaderboard_mysql example_db_mysql ! 0) = 1"
    "mlb_win_percentage (leaderboard_mysql example_db_mysql ! 0) = 100"
    "mlb_rank (leaderboard_mysql example_db_mysql ! 0) = 1"
    using arg_cong[OF leaderboard_mysql_example, of "\<lambda>l. l ! 0"] len by simp_all
  show "mlb_name (leaderboard_mysql example_db_mysql ! 1) = ''Ann''"
    "mlb_points (leaderboard_mysql example_db_mysql ! 1) = 10"
    "mlb_wins (leaderboard_mysql example_db_mysql ! 1) = 1"
    "mlb_win_percentage (leaderboard_mysql example_db_mysql ! 1) = 50"
    "mlb_rank (leaderboard_mysql example_db_mysql ! 1) = 2"
    using arg_cong[OF leaderboard_mysql_example, of "\<lambda>l. l ! 1"] len by simp_all
qed

lemmas leaderboard_example_simps =
  leaderboard_example_rows leaderboard_example_rows[unfolded One_nat_def]

lemmas leaderboard_mysql_example_simps =
  leaderboard_mysql_example_rows leaderboard_mysql_example_rows[unfolded One_nat_def]

text \<open>
  C5, as the claim states it, fails on the MySQL leaderboard: Bob and Ann are active and
  tie on points and on wins, Ann's name is the smaller one, and Bob is ranked first,
  because the third sort key there is the win percentage.
\<close>

theorem leaderboard_mysql_name_order_counterexample:
  "mlb_points (leaderboard_mysql example_db_mysql ! 0) =
     mlb_points (leaderboard_mysql example_db_mysql ! 1) \<and>
   mlb_wins (leaderboard_mysql example_db_mysql ! 0) =
     mlb_wins (leaderboard_mysql example_db_mysql ! 1) \<and>
   mlb_name (leaderboard_mysql example_db_mysql ! 1) <
     mlb_name (leaderboard_mysql example_db_mysql ! 0) \<and>
   mlb_rank (leaderboard_mysql example_db_mysql ! 0) <
     mlb_rank (leaderboard_mysql example_db_mysql ! 1)"
  by (simp add: leaderboard_mysql_example_simps)

text \<open>
  C5, amended. In server.js the leaderboard has a row for every player (there is no
  activity flag), and when the names in the table are distinct, of any two rows of
  different players exactly one ranks before the other in the order points descending,
  wins descending, name ascending, and that row has the smaller rank number. In the MySQL
  server the leaderboard lists the active players, numbered from 1 in output order, and
  no row comes after a row it precedes in the order points descending, wins descending,
  win percentage descending; the name is no sort key there.
\<close>

theorem leaderboard_order:
  "(distinct (map name (players db)) \<longrightarrow>
      (\<forall>a \<in> set (leaderboard db). \<forall>b \<in> set (leaderboard db). lb_id a \<noteq> lb_id b \<longrightarrow>
         (ranks_before a b \<or> ranks_before b a) \<and> \<not> (ranks_before a b \<and> ranks_before b a) \<and>
         (ranks_before a b \<longleftrightarrow> lb_rank a < lb_rank b))) \<and>
   set (map lb_id (leaderboard db)) = set (map player_id (players db)) \<and>
   (\<forall>i j. i < j \<and> j < length (leaderboard_mysql mdb) \<longrightarrow>
      \<not> ranks_before_mysql (leaderboard_mysql mdb ! j) (leaderboard_mysql mdb ! i) \<and>
      mlb_rank (leaderboard_mysql mdb ! i) = i + 1 \<and>
      mlb_rank (leaderboard_mysql mdb ! j) = j + 1) \<and>
   set (map mlb_id (leaderboard_mysql mdb)) =
     set (map my_id (filter my_is_active (my_players mdb)))"
  using leaderboard_pair[of db] leaderboard_ids[of db] leaderboard_mysql_pair[of _ _ mdb]
    leaderboard_mysql_ids[of mdb]
  by blast

theorem leaderboard_order_witness:
  "distinct (map name (players example_db)) \<and>
   leaderboard example_db ! 0 \<in> set (leaderboard example_db) \<and>
   leaderboard example_db ! 1 \<in> set (leaderboard example_db) \<and>
   lb_id (leaderboard example_db ! 0) \<noteq> lb_id (leaderboard example_db ! 1) \<and>
   ranks_before (leaderboard example_db ! 0) (leaderboard example_db ! 1) \<and>
   \<not> ranks_before (leaderboard example_db ! 1) (leaderboard example_db ! 0) \<and>
   lb_rank (leaderboard example_db ! 0) < lb_rank (leaderboard example_db ! 1) \<and>
   (0 :: nat) < 1 \<and> 1 < length (leaderboard_mysql example_db_mysql) \<and>
   \<not> ranks_before_mysql (leaderboard_mysql example_db_mysql ! 1)
        (leaderboard_mysql example_db_mysql ! 0)"
proof -
  have d: "distinct (map name (players example_db))" by (simp add: example_db_def)
  have m: "leaderboard example_db ! 0 \<in> set (leaderboard example_db)"
    "leaderboard example_db ! 1 \<in> set (leaderboard example_db)"
    by (simp_all add: leaderboard_example_simps)
  have ne: "lb_id (leaderboard example_db ! 0) \<noteq> lb_id (leaderboard example_db ! 1)"
    by (simp add: leaderboard_example_simps)
  have rk: "lb_rank (leaderboard example_db ! 0) < lb_rank (leaderboard example_db ! 1)"
    by (simp add: leaderboard_example_simps)
  have l: "(0 :: nat) < 1 \<and> 1 < length (leaderboard_mysql example_db_mysql)"
    by (simp add: leaderboard_mysql_example_simps)
  note t = leaderboard_order[of example_db example_db_mysql]
  from t d m ne rk have a:
    "ranks_before (leaderboard example_db ! 0) (leaderboard example_db ! 1) \<and>
     \<not> ranks_before (leaderboard example_db ! 1) (leaderboard example_db ! 0)"
    by blast
  from t l have b:
    "\<not> ranks_before_mysql (leaderboard_mysql example_db_mysql ! 1)
         (leaderboard_mysql example_db_mysql ! 0)"
    by blast
  from d m ne rk l a b show ?thesis by simp
qed

subsection \<open>The podium\<close>

lemma top3_example:
  "map (\<lambda>r. (top_id r, top_name r, top_points r, top_rank r)) (top3 example_db) =
     [(1, ''Ann'', 10, 1), (2, ''Bob'', 10, 2), (3, ''Cy'', 5, 3)]"
  by (simp add: example_db_def top3_def top_rows_of_def tw_join_def top_key_def)

text \<open>
  C6. The podium of server.js is not the first three rows of its leaderboard: Ann and
  Bob have 10 points each and Bob has the only win, so the leaderboard ranks Bob first
  and Ann second, while the podium, which sorts by points and name only, ranks Ann first
  and Bob second.
\<close>

theorem top3_differs_from_leaderboard:
  "map lb_id (take 3 (leaderboard example_db)) = [2, 1, 3] \<and>
   map lb_rank (take 3 (leaderboard example_db)) = [1, 2, 3] \<and>
   map top_id (top3 example_db) = [1, 2, 3] \<and>
   map top_rank (top3 example_db) = [1, 2, 3]"
proof -
  let ?cols = "\<lambda>r. (lb_id r, lb_name r, lb_points r, lb_wins r, lb_losses r, lb_win_percentage r,
                     lb_is_champion r, lb_rank r)"
  have "map lb_id (take 3 (leaderboard example_db)) =
          take 3 (map ((\<lambda>(i, n, p, w, l, x, c, k). i) \<circ> ?cols) (leaderboard example_db))"
    by (simp add: take_map comp_def)
  also have "\<dots> = [2, 1, 3]"
    unfolding map_map[symmetric] leaderboard_example by simp
  finally have a: "map lb_id (take 3 (leaderboard example_db)) = [2, 1, 3]" .
  have "map lb_rank (take 3 (leaderboard example_db)) =
          take 3 (map ((\<lambda>(i, n, p, w, l, x, c, k). k) \<circ> ?cols) (leaderboard example_db))"
    by (simp add: take_map comp_def)
  also have "\<dots> = [1, 2, 3]"
    unfolding map_map[symmetric] leaderboard_example by simp
  finally have b: "map lb_rank (take 3 (leaderboard example_db)) = [1, 2, 3]" .
  let ?tcols = "\<lambda>r. (top_id r, top_name r, top_points r, top_rank r)"
  have "map top_id (top3 example_db) = map ((\<lambda>(i, n, p, k). i) \<circ> ?tcols) (top3 example_db)"
    by (simp add: comp_def)
  also have "\<dots> = [1, 2, 3]"
    unfolding map_map[symmetric] top3_example by simp
  finally have c: "map top_id (top3 example_db) = [1, 2, 3]" .
  have "map top_rank (top3 example_db) = map ((\<lambda>(i, n, p, k). k) \<circ> ?tcols) (top3 example_db)"
    by (simp add: comp_def)
  also have "\<dots> = [1, 2, 3]"
    unfolding map_map[symmetric] top3_example by simp
  finally show ?thesis using a b c by simp
qed

subsection \<open>Removing a player\<close>

lemma remove_player_found:
  assumes "parseInt id_param = Some pid" "pid \<in> set (map player_id (players db))"
  shows "(on_delete pid db = None \<and>
          status (fst (remove_player development on_delete None ValidToken id_param db)) = 500 \<and>
          snd (remove_player development on_delete None ValidToken id_param db) = db) \<or>
     (on_delete pid db \<noteq> None \<and>
      status (fst (remove_player development on_delete None ValidToken id_param db)) = 200 \<and>
      players (snd (remove_player development on_delete None ValidToken id_param db)) =
        filter (\<lambda>p. player_id p \<noteq> pid) (players db) \<and>
      pid \<notin> set (map player_id
                (players (snd (remove_player development on_delete None ValidToken id_param db)))))"
proof -
  from assms(2) obtain g gs where g: "filter (\<lambda>p. player_id p = pid) (players db) = g # gs"
    by (cases "filter (\<lambda>p. player_id p = pid) (players db)") (auto simp: filter_empty_conv)
  show ?thesis
  proof (cases "on_delete pid db")
    case None
    with assms(1) g show ?thesis
      by (simp add: remove_player_def run_def delete_player_def handleError_def respond_def)
  next
    case (Some t)
    obtain ms as ts where t: "t = (ms, as, ts)" by (cases t) auto
    from assms(1) Some t g show ?thesis
      by (simp add: remove_player_def run_def delete_player_def ok_def respond_def) blast
  qed
qed

lemma deactivate_ids: "map my_id (deactivate pid ps) = map my_id ps"
  by (induction ps) (simp_all add: deactivate_def)

lemma deactivate_inactive:
  assumes "p \<in> set (deactivate pid ps)" "my_id p = pid"
  shows "\<not> my_is_active p"
proof -
  from assms(1) have "p \<in> (\<lambda>p. if my_id p = pid then p\<lparr>my_is_active := False\<rparr> else p) ` set ps"
    by (simp only: deactivate_def set_map)
  then obtain q where q: "p = (if my_id q = pid then q\<lparr>my_is_active := False\<rparr> else q)"
    by (rule imageE)
  show ?thesis
  proof (cases "my_id q = pid")
    case True
    with q show ?thesis by simp
  next
    case False
    with q assms(2) show ?thesis by simp
  qed
qed

lemma remove_player_mysql_found:
  assumes "pid \<in> set (map my_id (my_players mdb))"
  shows "remove_player_mysql None ValidToken pid mdb =
     (ok [(''message'', JStr ''Player removed successfully!'')],
      mdb\<lparr>my_players := deactivate pid (my_players mdb)\<rparr>)"
proof -
  from assms have ne: "filter (\<lambda>p. my_id p = pid) (my_players mdb) \<noteq> []"
    by (auto simp: filter_empty_conv)
  then show ?thesis by (simp add: remove_player_mysql_def)
qed

lemma remove_player_my:
  assumes "pid \<in> set (map my_id (my_players mdb))"
  shows "status (fst (remove_player_mysql None ValidToken pid mdb)) = 200 \<and>
      my_players (snd (remove_player_mysql None ValidToken pid mdb)) =
        map (\<lambda>p. if my_id p = pid then p\<lparr>my_is_active := False\<rparr> else p) (my_players mdb) \<and>
      map my_id (my_players (snd (remove_player_mysql None ValidToken pid mdb))) =
        map my_id (my_players mdb) \<and>
      my_matches (snd (remove_player_mysql None ValidToken pid mdb)) = my_matches mdb \<and>
      my_archives (snd (remove_player_mysql None ValidToken pid mdb)) = my_archives mdb \<and>
      (\<forall>p \<in> set (my_players (snd (remove_player_mysql None ValidToken pid mdb))).
         my_id p = pid \<longrightarrow> \<not> my_is_active p) \<and>
      (\<forall>m \<in> set (my_matches (snd (remove_player_mysql None ValidToken pid mdb))).
         (winner_id m \<in> set (map my_id (my_players mdb)) \<longrightarrow>
            winner_id m \<in> set (map my_id
              (my_players (snd (remove_player_mysql None ValidToken pid mdb))))) \<and>
         (loser_id m \<in> set (map my_id (my_players mdb)) \<longrightarrow>
            loser_id m \<in> set (map my_id
              (my_players (snd (remove_player_mysql None ValidToken pid mdb))))))"
  unfolding remove_player_mysql_found[OF assms]
  using deactivate_inactive[of _ pid "my_players mdb"]
  by (simp add: ok_def respond_def deactivate_ids) (simp add: deactivate_def)


text \<open>
  C1, as the claim states it, fails on server.js: Dee (id 4) is in the table and no row
  references her; the removal request succeeds and her row is gone.
\<close>

theorem remove_player_counterexample:
  "4 \<in> set (map player_id (players example_db)) \<and>
   status (fst (remove_player False keep_references None ValidToken ''4'' example_db)) = 200 \<and>
   map player_id (players (snd (remove_player False keep_references None ValidToken ''4'' example_db)))
     = [1, 2, 3]"
  by (simp add: remove_player_def parse_examples run_def delete_player_def keep_references_def
        example_db_def ok_def respond_def)

text \<open>
  C1, amended. In server.js a removal request that names an existing player deletes the
  player's row: either the database refuses the delete and nothing changes, or the
  request succeeds and no row with that id is left, the other rows being kept; there is
  no activity flag. In the MySQL server such a request succeeds and only sets the
  \<^verbatim>\<open>is_active\<close> flag of the rows with that id to false: no row is removed, the ids
  and the matches are unchanged, so every match row whose player ids resolved before
  resolves afterwards.
\<close>

theorem remove_player_effect:
  "(parseInt id_param = Some pid \<and> pid \<in> set (map player_id (players db)) \<longrightarrow>
      (on_delete pid db = None \<and>
       status (fst (remove_player development on_delete None ValidToken id_param db)) = 500 \<and>
       snd (remove_player development on_delete None ValidToken id_param db) = db) \<or>
      (on_delete pid db \<noteq> None \<and>
       status (fst (remove_player development on_delete None ValidToken id_param db)) = 200 \<and>
       players (snd (remove_player development on_delete None ValidToken id_param db)) =
         filter (\<lambda>p. player_id p \<noteq> pid) (players db) \<and>
       pid \<notin> set (map player_id
                 (players (snd (remove_player development on_delete None ValidToken id_param db)))))) \<and>
   (mid \<in> set (map my_id (my_players mdb)) \<longrightarrow>
      status (fst (remove_player_mysql None ValidToken mid mdb)) = 200 \<and>
      my_players (snd (remove_player_mysql None ValidToken mid mdb)) =
        map (\<lambda>p. if my_id p = mid then p\<lparr>my_is_active := False\<rparr> else p) (my_players mdb) \<and>
      map my_id (my_players (snd (remove_player_mysql None ValidToken mid mdb))) =
        map my_id (my_players mdb) \<and>
      my_matches (snd (remove_player_mysql None ValidToken mid mdb)) = my_matches mdb \<and>
      my_archives (snd (remove_player_mysql None ValidToken mid mdb)) = my_archives mdb \<and>
      (\<forall>p \<in> set (my_players (snd (remove_player_mysql None ValidToken mid mdb))).
         my_id p = mid \<longrightarrow> \<not> my_is_active p) \<and>
      (\<forall>m \<in> set (my_matches (snd (remove_player_mysql None ValidToken mid mdb))).
         (winner_id m \<in> set (map my_id (my_players mdb)) \<longrightarrow>
            winner_id m \<in> set (map my_id
              (my_players (snd (remove_player_mysql None ValidToken mid mdb))))) \<and>
         (loser_id m \<in> set (map my_id (my_players mdb)) \<longrightarrow>
            loser_id m \<in> set (map my_id
              (my_players (snd (remove_player_mysql None ValidToken mid mdb)))))))"
  using remove_player_found[of id_param pid db on_delete development] remove_player_my[of mid mdb]
  by blast

theorem remove_player_effect_witness:
  "parseInt ''4'' = Some 4 \<and> 4 \<in> set (map player_id (players example_db)) \<and>
   keep_references 4 example_db \<noteq> None \<and>
   4 \<notin> set (map player_id
            (players (snd (remove_player False keep_references None ValidToken ''4'' example_db)))) \<and>
   3 \<in> set (map my_id (my_players example_db_mysql)) \<and>
   map my_id (my_players (snd (remove_player_mysql None ValidToken 3 example_db_mysql))) =
     [1, 2, 3] \<and>
   my_matches (snd (remove_player_mysql None ValidToken 3 example_db_mysql)) =
     [\<lparr>winner_id = 1, loser_id = 3\<rparr>, \<lparr>winner_id = 2, loser_id = 1\<rparr>]"
proof -
  have h: "parseInt ''4'' = Some 4 \<and> 4 \<in> set (map player_id (players example_db))"
    by (simp add: parse_examples example_db_def)
  have k: "keep_references 4 example_db \<noteq> None" by (simp add: keep_references_def)
  have m: "3 \<in> set (map my_id (my_players example_db_mysql))"
    by (simp add: example_db_mysql_def)
  note t = remove_player_effect[of "''4''" 4 example_db keep_references False 3 example_db_mysql]
  from t h k have a:
    "4 \<notin> set (map player_id
             (players (snd (remove_player False keep_references None ValidToken ''4'' example_db))))"
    by blast
  from t m have b:
    "map my_id (my_players (snd (remove_player_mysql None ValidToken 3 example_db_mysql))) =
       map my_id (my_players example_db_mysql) \<and>
     my_matches (snd (remove_player_mysql None ValidToken 3 example_db_mysql)) =
       my_matches example_db_mysql"
    by blast
  from h k m a b show ?thesis by (simp add: example_db_mysql_def)
qed

subsection \<open>Champions and archive deletion\<close>

lemma is_champion_iff:
  "is_champion db pid \<longleftrightarrow> (\<exists>a \<in> set (monthly_archives db). named_by a pid)"
  by (auto simp: is_champion_def champions_def named_by_def)

lemma set_top_number:
  "r \<in> set (top_number n rs) \<Longrightarrow> \<exists>r0 \<in> set rs. \<exists>k. r = r0\<lparr>top_rank := k\<rparr>"
  by (induction rs arbitrary: n) auto

lemma leaderboard_champion:
  assumes "r \<in> set (leaderboard db)"
  shows "lb_is_champion r = is_champion db (lb_id r)"
proof -
  from leaderboard_row[OF assms] obtain p r0 k where
    r0: "r0 \<in> set (lb_rows_of db p)" and rk: "r = r0\<lparr>lb_rank := k\<rparr>" by blast
  from r0 have "lb_is_champion r0 = is_champion db (lb_id r0)" by (auto simp: lb_rows_of_def)
  with rk show ?thesis by simp
qed

lemma top3_champion:
  assumes "r \<in> set (top3 db)"
  shows "top_is_champion r = is_champion db (top_id r)"
proof -
  from assms have "r \<in> set (top_number 1 (sort_key top_key (concat (map (top_rows_of db) (players db)))))"
    unfolding top3_def by (rule in_set_takeD)
  from set_top_number[OF this] obtain p r0 k where
    r0: "r0 \<in> set (top_rows_of db p)" and rk: "r = r0\<lparr>top_rank := k\<rparr>" by auto
  from r0 have "top_is_champion r0 = is_champion db (top_id r0)" by (auto simp: top_rows_of_def)
  with rk show ?thesis by simp
qed

lemma admin_players_champion:
  assumes "r \<in> set (admin_players db)"
  shows "adm_is_champion r = is_champion db (adm_id r)"
proof -
  from assms obtain p where "r \<in> set (adm_rows_of db p)" by (auto simp: admin_players_def)
  then show ?thesis by (auto simp: adm_rows_of_def)
qed

lemma filter_complement_id:
  "filter (\<lambda>a. f a = x) xs = [] \<Longrightarrow> filter (\<lambda>a. f a \<noteq> x) xs = xs"
  by (induction xs) (auto split: if_splits)

lemma delete_archive_rows_none:
  "fst (delete_archive_rows aid db) = [] \<Longrightarrow> snd (delete_archive_rows aid db) = db"
  by (simp add: delete_archive_rows_def filter_complement_id)

lemma delete_archive_effect:
  "players (snd (delete_archive development fault tok id_param db)) = players db \<and>
   matches (snd (delete_archive development fault tok id_param db)) = matches db \<and>
   tournament_winners (snd (delete_archive development fault tok id_param db)) =
     tournament_winners db \<and>
   (status (fst (delete_archive development fault tok id_param db)) = 200 \<longrightarrow>
      (\<exists>aid. parseInt id_param = Some aid \<and>
         monthly_archives (snd (delete_archive development fault tok id_param db)) =
           filter (\<lambda>a. archive_id a \<noteq> aid) (monthly_archives db))) \<and>
   (status (fst (delete_archive development fault tok id_param db)) \<noteq> 200 \<longrightarrow>
      snd (delete_archive development fault tok id_param db) = db)"
proof (cases tok)
  case ValidToken
  show ?thesis
  proof (cases "parseInt id_param")
    case None
    with ValidToken show ?thesis by (simp add: delete_archive_def failure_def respond_def)
  next
    case (Some aid)
    show ?thesis
    proof (cases fault)
      case (Some e)
      with ValidToken \<open>parseInt id_param = Some aid\<close> show ?thesis
        by (simp add: delete_archive_def run_def handleError_def respond_def)
    next
      case None
      show ?thesis
      proof (cases "filter (\<lambda>a. archive_id a = aid) (monthly_archives db)")
        case Nil
        with ValidToken \<open>parseInt id_param = Some aid\<close> None show ?thesis
          by (simp add: delete_archive_def run_def delete_archive_rows_def failure_def
                respond_def filter_complement_id)
      next
        case (Cons a as)
        with ValidToken \<open>parseInt id_param = Some aid\<close> None show ?thesis
          by (simp add: delete_archive_def run_def delete_archive_rows_def ok_def respond_def)
      qed
    qed
  qed
qed (simp_all add: delete_archive_def respond_def)


lemma delete_archive_mysql_players:
  "my_players (snd (delete_archive_mysql fault tok aid mdb)) = my_players mdb"
  by (cases tok; cases fault) (simp_all add: delete_archive_mysql_def)

lemma projections_mysql_cong:
  assumes "my_players a = my_players b"
  shows "leaderboard_mysql a = leaderboard_mysql b" "top3_mysql a = top3_mysql b"
    "admin_players_mysql a = admin_players_mysql b"
  using assms by (simp_all add: leaderboard_mysql_def top3_mysql_def admin_players_mysql_def)

lemma set_champions_flag:
  assumes "p \<in> set (set_champions ids ps)" "my_id p \<in> set ids"
  shows "my_is_champion p"
proof -
  from assms(1) have "p \<in> (\<lambda>p. if my_id p \<in> set ids then p\<lparr>my_is_champion := True\<rparr> else p) ` set ps"
    by (simp only: set_champions_def set_map)
  then obtain q where q: "p = (if my_id q \<in> set ids then q\<lparr>my_is_champion := True\<rparr> else q)"
    by (rule imageE)
  show ?thesis
  proof (cases "my_id q \<in> set ids")
    case True
    with q show ?thesis by simp
  next
    case False
    with q assms(2) show ?thesis by simp
  qed
qed

lemma insert_archive_mysql_players:
  "insert_archive_mysql m p1 a p2 b p3 c tp tm db = Inr db' \<Longrightarrow> my_players db' = my_players db"
  by (auto simp: insert_archive_mysql_def split: if_splits)

lemma archive_statements_mysql_done:
  assumes "archive_statements_mysql fault month (Some f) (Some s) (Some t) tp tm mdb = (Inr m, db')"
  shows "my_players db' = set_champions [f, s, t] (my_players mdb)"
  using assms
  by (auto simp: archive_statements_mysql_def Let_def run_from_def
        dest: insert_archive_mysql_players split: option.splits sum.splits)

lemma create_archive_mysql_flags:
  assumes "status (fst (create_archive_mysql fault tok month (Some f) (Some s) (Some t) tp tm mdb)) = 200"
  shows "my_players (snd (create_archive_mysql fault tok month (Some f) (Some s) (Some t) tp tm mdb)) =
           set_champions [f, s, t] (my_players mdb)"
proof (cases tok)
  case ValidToken
  obtain r db' where st: "archive_statements_mysql fault month (Some f) (Some s) (Some t) tp tm mdb =
      (r, db')"
    by (cases "archive_statements_mysql fault month (Some f) (Some s) (Some t) tp tm mdb")
  show ?thesis
  proof (cases r)
    case (Inl e)
    with ValidToken st assms show ?thesis
      by (simp add: create_archive_mysql_def failure_mysql_def respond_def split: if_splits)
  next
    case (Inr m)
    with ValidToken st archive_statements_mysql_done[of fault month f s t tp tm mdb m db']
    show ?thesis by (simp add: create_archive_mysql_def)
  qed
qed (use assms in \<open>simp_all add: create_archive_mysql_def failure_mysql_def respond_def\<close>)


lemma leaderboard_mysql_row:
  assumes "r \<in> set (leaderboard_mysql db)"
  shows "\<exists>p \<in> set (my_players db). mlb_id r = my_id p \<and> mlb_is_champion r = my_is_champion p"
proof -
  from set_lb_number_mysql[OF assms[unfolded leaderboard_mysql_def]] obtain p k where
    "p \<in> set (my_players db)" "r = (lb_row_of_mysql p)\<lparr>mlb_rank := k\<rparr>" by auto
  then show ?thesis by (auto simp: lb_row_of_mysql_def)
qed

lemma top3_mysql_row:
  assumes "r \<in> set (top3_mysql db)"
  shows "\<exists>p \<in> set (my_players db). ms_id r = my_id p \<and> ms_is_champion r = my_is_champion p"
proof -
  from assms have "r \<in> set (map short_row_of_mysql
      (sort_key (\<lambda>p. (- my_points p, - int (my_wins p))) (filter my_is_active (my_players db))))"
    unfolding top3_mysql_def by (rule in_set_takeD)
  then show ?thesis by (auto simp: short_row_of_mysql_def)
qed

lemma admin_players_mysql_row:
  assumes "r \<in> set (admin_players_mysql db)"
  shows "\<exists>p \<in> set (my_players db). ms_id r = my_id p \<and> ms_is_champion r = my_is_champion p"
  using assms by (auto simp: admin_players_mysql_def short_row_of_mysql_def)

lemma champions_persist_mysql:
  assumes ok: "status (fst (create_archive_mysql fault tok month (Some f) (Some s) (Some t) tp tm mdb)) = 200"
    and d: "mdb2 = snd (delete_archive_mysql fault' tok' aid
              (snd (create_archive_mysql fault tok month (Some f) (Some s) (Some t) tp tm mdb)))"
  shows "(\<forall>r \<in> set (leaderboard_mysql mdb2). mlb_id r \<in> {f, s, t} \<longrightarrow> mlb_is_champion r) \<and>
         (\<forall>r \<in> set (top3_mysql mdb2). ms_id r \<in> {f, s, t} \<longrightarrow> ms_is_champion r) \<and>
         (\<forall>r \<in> set (admin_players_mysql mdb2). ms_id r \<in> {f, s, t} \<longrightarrow> ms_is_champion r)"
proof -
  have pl: "my_players mdb2 = set_champions [f, s, t] (my_players mdb)"
    unfolding d delete_archive_mysql_players by (rule create_archive_mysql_flags[OF ok])
  have flag: "my_is_champion p" if "p \<in> set (my_players mdb2)" "my_id p \<in> {f, s, t}" for p
    using that set_champions_flag[of p "[f, s, t]" "my_players mdb"] unfolding pl by simp
  show ?thesis
    using leaderboard_mysql_row[of _ mdb2] top3_mysql_row[of _ mdb2]
      admin_players_mysql_row[of _ mdb2] flag
    by metis
qed


lemma champion_projections:
  "(\<forall>r \<in> set (leaderboard db'). lb_is_champion r \<longleftrightarrow>
      (\<exists>a \<in> set (monthly_archives db'). named_by a (lb_id r))) \<and>
   (\<forall>r \<in> set (top3 db'). top_is_champion r \<longleftrightarrow>
      (\<exists>a \<in> set (monthly_archives db'). named_by a (top_id r))) \<and>
   (\<forall>r \<in> set (admin_players db'). adm_is_champion r \<longleftrightarrow>
      (\<exists>a \<in> set (monthly_archives db'). named_by a (adm_id r)))"
  by (simp add: leaderboard_champion top3_champion admin_players_champion is_champion_iff)

lemma delete_archive_mysql_keeps:
  "my_players (snd (delete_archive_mysql mfault mtok maid mdb)) = my_players mdb \<and>
   leaderboard_mysql (snd (delete_archive_mysql mfault mtok maid mdb)) = leaderboard_mysql mdb \<and>
   top3_mysql (snd (delete_archive_mysql mfault mtok maid mdb)) = top3_mysql mdb \<and>
   admin_players_mysql (snd (delete_archive_mysql mfault mtok maid mdb)) =
     admin_players_mysql mdb"
  by (intro conjI delete_archive_mysql_players
        projections_mysql_cong[OF delete_archive_mysql_players])

lemma create_then_delete_mysql:
  "status (fst (create_archive_mysql cfault ctok month (Some f) (Some s) (Some t) tp tm mdb)) = 200
    \<longrightarrow>
      (\<forall>r \<in> set (leaderboard_mysql (snd (delete_archive_mysql mfault mtok maid
                (snd (create_archive_mysql cfault ctok month (Some f) (Some s) (Some t) tp tm mdb))))).
         mlb_id r \<in> {f, s, t} \<longrightarrow> mlb_is_champion r) \<and>
      (\<forall>r \<in> set (top3_mysql (snd (delete_archive_mysql mfault mtok maid
                (snd (create_archive_mysql cfault ctok month (Some f) (Some s) (Some t) tp tm mdb))))).
         ms_id r \<in> {f, s, t} \<longrightarrow> ms_is_champion r) \<and>
      (\<forall>r \<in> set (admin_players_mysql (snd (delete_archive_mysql mfault mtok maid
                (snd (create_archive_mysql cfault ctok month (Some f) (Some s) (Some t) tp tm mdb))))).
         ms_id r \<in> {f, s, t} \<longrightarrow> ms_is_champion r)"
  using champions_persist_mysql[OF _ refl] by blast

text \<open>
  C2, amended. Deleting an archive removes only archive rows: in server.js the players,
  matches and badges are unchanged and a successful deletion leaves the archives with
  another id. In server.js the champion flag is computed from the archives in the table,
  so after the deletion the leaderboard, the podium and the admin list report a player
  as champion exactly when an archive that is still there names the player. In the MySQL
  server the flag is a column that archive creation sets: the deletion leaves the players
  table and the three projections as they were, and after a successful creation followed
  by any deletion the three archived players are reported as champions wherever they
  appear.
\<close>

theorem champion_after_archive_deletion:
  "(players (snd (delete_archive development fault tok id_param db)) = players db \<and>
   matches (snd (delete_archive development fault tok id_param db)) = matches db \<and>
   tournament_winners (snd (delete_archive development fault tok id_param db)) =
     tournament_winners db \<and>
   (status (fst (delete_archive development fault tok id_param db)) = 200 \<longrightarrow>
      (\<exists>aid. parseInt id_param = Some aid \<and>
         monthly_archives (snd (delete_archive development fault tok id_param db)) =
           filter (\<lambda>a. archive_id a \<noteq> aid) (monthly_archives db))) \<and>
   (status (fst (delete_archive development fault tok id_param db)) \<noteq> 200 \<longrightarrow>
      snd (delete_archive development fault tok id_param db) = db)) \<and>
   ((\<forall>r \<in> set (leaderboard (snd (delete_archive development fault tok id_param db))). lb_is_champion r \<longleftrightarrow>
      (\<exists>a \<in> set (monthly_archives (snd (delete_archive development fault tok id_param db))). named_by a (lb_id r))) \<and>
   (\<forall>r \<in> set (top3 (snd (delete_archive development fault tok id_param db))). top_is_champion r \<longleftrightarrow>
      (\<exists>a \<in> set (monthly_archives (snd (delete_archive development fault tok id_param db))). named_by a (top_id r))) \<and>
   (\<forall>r \<in> set (admin_players (snd (delete_archive development fault tok id_param db))). adm_is_champion r \<longleftrightarrow>
      (\<exists>a \<in> set (monthly_archives (snd (delete_archive development fault tok id_param db))). named_by a (adm_id r)))) \<and>
   (my_players (snd (delete_archive_mysql mfault mtok maid mdb)) = my_players mdb \<and>
   leaderboard_mysql (snd (delete_archive_mysql mfault mtok maid mdb)) = leaderboard_mysql mdb \<and>
   top3_mysql (snd (delete_archive_mysql mfault mtok maid mdb)) = top3_mysql mdb \<and>
   admin_players_mysql (snd (delete_archive_mysql mfault mtok maid mdb)) =
     admin_players_mysql mdb) \<and>
   (status (fst (create_archive_mysql cfault ctok month (Some f) (Some s) (Some t) tp tm mdb)) = 200
    \<longrightarrow>
      (\<forall>r \<in> set (leaderboard_mysql (snd (delete_archive_mysql mfault mtok maid
                (snd (create_archive_mysql cfault ctok month (Some f) (Some s) (Some t) tp tm mdb))))).
         mlb_id r \<in> {f, s, t} \<longrightarrow> mlb_is_champion r) \<and>
      (\<forall>r \<in> set (top3_mysql (snd (delete_archive_mysql mfault mtok maid
                (snd (create_archive_mysql cfault ctok month (Some f) (Some s) (Some t) tp tm mdb))))).
         ms_id r \<in> {f, s, t} \<longrightarrow> ms_is_champion r) \<and>
      (\<forall>r \<in> set (admin_players_mysql (snd (delete_archive_mysql mfault mtok maid
                (snd (create_archive_mysql cfault ctok month (Some f) (Some s) (Some t) tp tm mdb))))).
         ms_id r \<in> {f, s, t} \<longrightarrow> ms_is_champion r))"
  by (rule conjI[OF delete_archive_effect
        conjI[OF champion_projections conjI[OF delete_archive_mysql_keeps create_then_delete_mysql]]])



lemma delete_archive_example:
  "status (fst (delete_archive False None ValidToken ''1'' example_db)) = 200"
  "monthly_archives (snd (delete_archive False None ValidToken ''1'' example_db)) = []"
  "map (\<lambda>r. (lb_id r, lb_is_champion r))
     (leaderboard (snd (delete_archive False None ValidToken ''1'' example_db))) =
     [(2, False), (1, False), (3, False), (4, False)]"
  by (simp_all add: delete_archive_def parse_examples run_def delete_archive_rows_def ok_def
        respond_def example_db_def leaderboard_def lb_rows_of_def tw_join_def lb_key_def
        win_count_def loss_count_def is_champion_def champions_def)

lemma create_archive_mysql_example:
  "status (fst (create_archive_mysql no_fault ValidToken (Some ''2024-05'') (Some 1) (Some 2) (Some 3)
                  None None example_db_mysql)) = 200"
  "map mlb_id (leaderboard_mysql (snd (delete_archive_mysql None ValidToken 1
     (snd (create_archive_mysql no_fault ValidToken (Some ''2024-05'') (Some 1) (Some 2) (Some 3)
             None None example_db_mysql))))) = [2, 1, 3]"
  by (simp_all add: create_archive_mysql_def archive_statements_mysql_def no_fault_def
        run_from_def insert_archive_mysql_def set_champions_def
        delete_archive_mysql_def example_db_mysql_def ok_def respond_def leaderboard_mysql_def
        lb_row_of_mysql_def lb_key_mysql_def win_percentage_mysql_def round_numeric_def)

text \<open>
  C2, as the claim states it, fails on server.js: Ann, Bob and Cy are the three players of
  the only archive and are reported as champions; after that archive is deleted the
  leaderboard reports none of them as champion.
\<close>

theorem champion_after_archive_deletion_counterexample:
  "map lb_is_champion (leaderboard example_db) = [True, True, True, False] \<and>
   status (fst (delete_archive False None ValidToken ''1'' example_db)) = 200 \<and>
   map lb_is_champion (leaderboard (snd (delete_archive False None ValidToken ''1'' example_db))) =
     [False, False, False, False]"
proof -
  have "map lb_is_champion (leaderboard example_db) =
          map ((\<lambda>(i, n, p, w, l, x, c, k). c) \<circ>
            (\<lambda>r. (lb_id r, lb_name r, lb_points r, lb_wins r, lb_losses r, lb_win_percentage r,
                  lb_is_champion r, lb_rank r))) (leaderboard example_db)"
    by (simp add: comp_def)
  also have "\<dots> = [True, True, True, False]"
    unfolding map_map[symmetric] leaderboard_example by simp
  finally have a: "map lb_is_champion (leaderboard example_db) = [True, True, True, False]" .
  have "map lb_is_champion (leaderboard (snd (delete_archive False None ValidToken ''1'' example_db))) =
          map (snd \<circ> (\<lambda>r. (lb_id r, lb_is_champion r)))
            (leaderboard (snd (delete_archive False None ValidToken ''1'' example_db)))"
    by (simp add: comp_def)
  also have "\<dots> = [False, False, False, False]"
    unfolding map_map[symmetric] delete_archive_example by simp
  finally show ?thesis using a delete_archive_example(1) by simp
qed

theorem champion_after_archive_deletion_witness:
  "status (fst (delete_archive False None ValidToken ''1'' example_db)) = 200 \<and>
   leaderboard (snd (delete_archive False None ValidToken ''1'' example_db)) ! 0 \<in>
     set (leaderboard (snd (delete_archive False None ValidToken ''1'' example_db))) \<and>
   \<not> lb_is_champion (leaderboard (snd (delete_archive False None ValidToken ''1'' example_db)) ! 0) \<and>
   status (fst (create_archive_mysql no_fault ValidToken (Some ''2024-05'') (Some 1) (Some 2) (Some 3)
                  None None example_db_mysql)) = 200 \<and>
   leaderboard_mysql (snd (delete_archive_mysql None ValidToken 1
     (snd (create_archive_mysql no_fault ValidToken (Some ''2024-05'') (Some 1) (Some 2) (Some 3)
             None None example_db_mysql)))) ! 0 \<in>
     set (leaderboard_mysql (snd (delete_archive_mysql None ValidToken 1
       (snd (create_archive_mysql no_fault ValidToken (Some ''2024-05'') (Some 1) (Some 2) (Some 3)
               None None example_db_mysql))))) \<and>
   mlb_is_champion (leaderboard_mysql (snd (delete_archive_mysql None ValidToken 1
     (snd (create_archive_mysql no_fault ValidToken (Some ''2024-05'') (Some 1) (Some 2) (Some 3)
             None None example_db_mysql)))) ! 0)"
proof -
  define L where "L = leaderboard (snd (delete_archive False None ValidToken ''1'' example_db))"
  define M where "M = leaderboard_mysql (snd (delete_archive_mysql None ValidToken 1
     (snd (create_archive_mysql no_fault ValidToken (Some ''2024-05'') (Some 1) (Some 2) (Some 3)
             None None example_db_mysql))))"
  have lenL: "length L = 4"
    using arg_cong[OF delete_archive_example(3), of length] by (simp add: L_def)
  then have inL: "L ! 0 \<in> set L" by simp
  have lenM: "length M = 3" and idM: "mlb_id (M ! 0) = 2"
    using arg_cong[OF create_archive_mysql_example(2), of length]
      arg_cong[OF create_archive_mysql_example(2), of "\<lambda>l. l ! 0"]
    by (simp_all add: M_def)
  then have inM: "M ! 0 \<in> set M" by simp
  note t = champion_after_archive_deletion[of False None ValidToken "''1''" example_db
      None ValidToken 1 example_db_mysql no_fault ValidToken "Some ''2024-05''" 1 2 3 None None]
  from t inL delete_archive_example(2) have a: "\<not> lb_is_champion (L ! 0)"
    unfolding L_def by simp
  from t create_archive_mysql_example(1) inM idM have b: "mlb_is_champion (M ! 0)"
    unfolding M_def by blast
  from a b inL inM delete_archive_example(1) create_archive_mysql_example(1)
  show ?thesis unfolding L_def M_def by blast
qed

subsection \<open>Creating an archive\<close>

lemma status_simps [simp]:
  "status (failure st msg) = st" "status (ok pl) = 200" "status (handleError d e msg) = 500"
  "status (failure_mysql st msg) = st"
  by (simp_all add: failure_def ok_def handleError_def failure_mysql_def respond_def)

lemma authenticateAdmin_status: "authenticateAdmin tok = Some r \<Longrightarrow> status r = 401"
  by (cases tok) (auto simp: respond_def)

lemma authenticateAdmin_mysql_status: "authenticateAdmin_mysql tok = Some r \<Longrightarrow> status r = 401"
  by (cases tok) auto

lemma fold_playerMap:
  "fold (\<lambda>p m. m(player_id p \<mapsto> p)) rows m k = Some p \<Longrightarrow>
     (p \<in> set rows \<and> player_id p = k) \<or> m k = Some p"
proof (induction rows arbitrary: m)
  case Nil
  then show ?case by simp
next
  case (Cons r rows)
  from Cons.IH[of "m(player_id r \<mapsto> r)"] Cons.prems
  have "(p \<in> set rows \<and> player_id p = k) \<or> (m(player_id r \<mapsto> r)) k = Some p" by simp
  then show ?case by (auto split: if_splits)
qed

lemma playerMap_Some: "playerMap rows k = Some p \<Longrightarrow> p \<in> set rows \<and> player_id p = k"
  using fold_playerMap[of rows Map.empty k p] by (simp add: playerMap_def)

lemma fold_playerMap_dom:
  "k \<in> player_id ` set rows \<or> m k \<noteq> None \<Longrightarrow>
   fold (\<lambda>p m. m(player_id p \<mapsto> p)) rows m k \<noteq> None"
proof (induction rows arbitrary: m)
  case Nil
  then show ?case by simp
next
  case (Cons r rows)
  have "k \<in> player_id ` set rows \<or> (m(player_id r \<mapsto> r)) k \<noteq> None"
    using Cons.prems by auto
  from Cons.IH[of "m(player_id r \<mapsto> r)", OF this] show ?case by simp
qed

lemma playerMap_defined: "k \<in> player_id ` set rows \<Longrightarrow> \<exists>p. playerMap rows k = Some p"
  using fold_playerMap_dom[of k rows Map.empty] by (auto simp: playerMap_def)

lemma create_archive_cases:
  "(same_rows db (snd (create_archive development fault tok month fid sid tid db)) \<and>
    status (fst (create_archive development fault tok month fid sid tid db)) \<in> {400, 401, 500}) \<or>
   (\<exists>m p1 p2 p3.
     month = Some m \<and> fid = Some (player_id p1) \<and> sid = Some (player_id p2) \<and>
     tid = Some (player_id p3) \<and> distinct [player_id p1, player_id p2, player_id p3] \<and>
     m \<notin> set (map archive_month (monthly_archives db)) \<and>
     p1 \<in> set (players db) \<and> p2 \<in> set (players db) \<and> p3 \<in> set (players db) \<and>
     status (fst (create_archive development fault tok month fid sid tid db)) = 200 \<and>
     snd (create_archive development fault tok month fid sid tid db) =
       db\<lparr>monthly_archives := monthly_archives db @ [archive_row db m p1 p2 p3],
          archives_seq := archives_seq db + 1\<rparr>)"
  (is "?rejected \<or> ?accepted")
proof (cases "tok = ValidToken")
  case False
  then have ?rejected by (cases tok) (simp_all add: create_archive_def respond_def same_rows_def)
  then show ?thesis ..
next
  case tk: True
  show ?thesis
  proof (cases "\<exists>m f s t. month = Some m \<and> fid = Some f \<and> sid = Some s \<and> tid = Some t")
    case False
    then have ?rejected using tk
      by (cases month; cases fid; cases sid; cases tid) (simp_all add: create_archive_def same_rows_def)
    then show ?thesis ..
  next
    case True
    then obtain m f s t where pre: "month = Some m" "fid = Some f" "sid = Some s" "tid = Some t"
      by blast
    show ?thesis
    proof (cases "m = [] \<or> f = 0 \<or> s = 0 \<or> t = 0")
      case True
      then have ?rejected using tk pre by (auto simp: create_archive_def same_rows_def)
      then show ?thesis ..
    next
      case truthy: False
      show ?thesis
      proof (cases "card (set [f, s, t]) = length [f, s, t]")
        case False
        then have ?rejected using tk pre truthy by (simp add: create_archive_def same_rows_def)
        then show ?thesis ..
      next
        case cd: True
        then have d: "distinct [f, s, t]" by (rule card_distinct)
        show ?thesis
        proof (cases fault)
          case (Some e)
          then have ?rejected using tk pre truthy cd by (simp add: create_archive_def same_rows_def)
          then show ?thesis ..
        next
          case nf: None
          define rows where "rows = filter (\<lambda>p. player_id p \<in> set [f, s, t]) (players db)"
          show ?thesis
          proof (cases "length rows = 3")
            case False
            then have ?rejected using tk pre truthy cd nf
              by (simp add: create_archive_def rows_def same_rows_def)
            then show ?thesis ..
          next
            case len: True
            show ?thesis
            proof (cases "\<exists>p1 p2 p3. playerMap rows f = Some p1 \<and> playerMap rows s = Some p2 \<and>
                                    playerMap rows t = Some p3")
              case False
              then have ?rejected using tk pre truthy cd nf len
                by (cases "playerMap rows f"; cases "playerMap rows s"; cases "playerMap rows t")
                   (simp_all add: create_archive_def rows_def type_error_def same_rows_def)
              then show ?thesis ..
            next
              case True
              then obtain p1 p2 p3 where p: "playerMap rows f = Some p1"
                  "playerMap rows s = Some p2" "playerMap rows t = Some p3"
                by blast
              from playerMap_Some[OF p(1)] playerMap_Some[OF p(2)] playerMap_Some[OF p(3)]
              have ids: "player_id p1 = f" "player_id p2 = s" "player_id p3 = t"
                and mem: "p1 \<in> set (players db)" "p2 \<in> set (players db)" "p3 \<in> set (players db)"
                by (simp_all add: rows_def)
              show ?thesis
              proof (cases "m \<in> set (map archive_month (monthly_archives db))")
                case True
                then have ?rejected using tk pre truthy cd nf len p
                  by (simp add: create_archive_def rows_def insert_archive_def
                        unique_violation_def same_rows_def)
                then show ?thesis ..
              next
                case new: False
                have "status (fst (create_archive development fault tok month fid sid tid db)) = 200"
                  and "snd (create_archive development fault tok month fid sid tid db) =
                         db\<lparr>monthly_archives := monthly_archives db @ [archive_row db m p1 p2 p3],
                            archives_seq := archives_seq db + 1\<rparr>"
                  using tk pre truthy cd nf len p new ids
                  by (simp_all add: create_archive_def rows_def insert_archive_def archive_row_def)
                with pre d new mem ids have ?accepted by blast
                then show ?thesis ..
              qed
            qed
          qed
        qed
      qed
    qed
  qed
qed

lemma create_archive_rejected:
  "status (fst (create_archive development fault tok month fid sid tid db)) \<noteq> 200 \<Longrightarrow>
   same_rows db (snd (create_archive development fault tok month fid sid tid db)) \<and>
   status (fst (create_archive development fault tok month fid sid tid db)) \<in> {400, 401, 500}"
  using create_archive_cases[where development = development and fault = fault and tok = tok
      and month = month and fid = fid and sid = sid and tid = tid and db = db] by blast

lemma create_archive_accepted:
  assumes "status (fst (create_archive development fault tok month fid sid tid db)) = 200"
  shows "\<exists>m p1 p2 p3.
     month = Some m \<and> fid = Some (player_id p1) \<and> sid = Some (player_id p2) \<and>
     tid = Some (player_id p3) \<and> distinct [player_id p1, player_id p2, player_id p3] \<and>
     m \<notin> set (map archive_month (monthly_archives db)) \<and>
     p1 \<in> set (players db) \<and> p2 \<in> set (players db) \<and> p3 \<in> set (players db) \<and>
     snd (create_archive development fault tok month fid sid tid db) =
       db\<lparr>monthly_archives := monthly_archives db @ [archive_row db m p1 p2 p3],
          archives_seq := archives_seq db + 1\<rparr>"
proof -
  from create_archive_cases[where development = development and fault = fault and tok = tok
      and month = month and fid = fid and sid = sid and tid = tid and db = db] assms
  have "\<exists>m p1 p2 p3.
     month = Some m \<and> fid = Some (player_id p1) \<and> sid = Some (player_id p2) \<and>
     tid = Some (player_id p3) \<and> distinct [player_id p1, player_id p2, player_id p3] \<and>
     m \<notin> set (map archive_month (monthly_archives db)) \<and>
     p1 \<in> set (players db) \<and> p2 \<in> set (players db) \<and> p3 \<in> set (players db) \<and>
     status (fst (create_archive development fault tok month fid sid tid db)) = 200 \<and>
     snd (create_archive development fault tok month fid sid tid db) =
       db\<lparr>monthly_archives := monthly_archives db @ [archive_row db m p1 p2 p3],
          archives_seq := archives_seq db + 1\<rparr>"
    by simp
  then show ?thesis by blast
qed

lemma length_filter_ids:
  assumes "distinct (map g xs)"
  shows "length (filter (\<lambda>x. g x \<in> A) xs) = card (A \<inter> g ` set xs)"
proof -
  have "distinct (map g (filter (\<lambda>x. g x \<in> A) xs))"
    using assms by (rule distinct_map_filter)
  then have "card (set (map g (filter (\<lambda>x. g x \<in> A) xs))) =
               length (map g (filter (\<lambda>x. g x \<in> A) xs))"
    by (rule distinct_card)
  moreover have "set (map g (filter (\<lambda>x. g x \<in> A) xs)) = A \<inter> g ` set xs" by auto
  ultimately show ?thesis by simp
qed

lemma create_archive_success:
  assumes m: "m \<noteq> []" "m \<notin> set (map archive_month (monthly_archives db))"
    and nz: "f \<noteq> 0" "s \<noteq> 0" "t \<noteq> 0"
    and d: "distinct [f, s, t]"
    and pk: "distinct (map player_id (players db))"
    and ex: "set [f, s, t] \<subseteq> player_id ` set (players db)"
  shows "status (fst (create_archive development None ValidToken (Some m) (Some f) (Some s) (Some t)
                        db)) = 200"
proof -
  define rows where "rows = filter (\<lambda>p. player_id p \<in> set [f, s, t]) (players db)"
  have cd: "card (set [f, s, t]) = length [f, s, t]" using d by (rule distinct_card)
  have inter: "set [f, s, t] \<inter> player_id ` set (players db) = set [f, s, t]" using ex by blast
  have "length rows = card (set [f, s, t] \<inter> player_id ` set (players db))"
    unfolding rows_def by (rule length_filter_ids[OF pk])
  also have "\<dots> = card (set [f, s, t])" by (simp only: inter)
  also have "\<dots> = 3" by (simp only: cd) simp
  finally have len: "length rows = 3" .
  have inrows: "k \<in> player_id ` set rows" if "k \<in> set [f, s, t]" for k
  proof -
    from that ex obtain p where "p \<in> set (players db)" "player_id p = k" by auto
    with that have "p \<in> set rows" by (simp add: rows_def)
    with \<open>player_id p = k\<close> show ?thesis by blast
  qed
  obtain p1 where p1: "playerMap rows f = Some p1" using playerMap_defined[OF inrows[of f]] by auto
  obtain p2 where p2: "playerMap rows s = Some p2" using playerMap_defined[OF inrows[of s]] by auto
  obtain p3 where p3: "playerMap rows t = Some p3" using playerMap_defined[OF inrows[of t]] by auto
  show ?thesis
    using m nz cd len p1 p2 p3
    by (simp add: create_archive_def rows_def insert_archive_def)
qed

lemma create_archive_refused:
  assumes "(\<exists>m. month = Some m \<and> m \<in> set (map archive_month (monthly_archives db))) \<or>
           fid = sid \<or> sid = tid \<or> fid = tid"
  shows "status (fst (create_archive development fault tok month fid sid tid db)) \<noteq> 200"
proof
  assume "status (fst (create_archive development fault tok month fid sid tid db)) = 200"
  from create_archive_accepted[OF this] show False
  proof (elim exE conjE)
    fix m p1 p2 p3
    assume "month = Some m" "fid = Some (player_id p1)" "sid = Some (player_id p2)"
      "tid = Some (player_id p3)" "distinct [player_id p1, player_id p2, player_id p3]"
      "m \<notin> set (map archive_month (monthly_archives db))"
    with assms show False by auto
  qed
qed


lemma find_id_Some:
  "find (\<lambda>p. my_id p = k) (filter (\<lambda>p. my_id p \<in> A) ps) = Some p \<Longrightarrow> p \<in> set ps \<and> my_id p = k"
  by (auto simp: find_Some_iff in_set_conv_nth dest: nth_mem)

lemma find_id_defined:
  assumes "k \<in> A" "k \<in> my_id ` set ps"
  shows "\<exists>p. find (\<lambda>p. my_id p = k) (filter (\<lambda>p. my_id p \<in> A) ps) = Some p"
proof -
  from assms have "\<exists>p \<in> set (filter (\<lambda>p. my_id p \<in> A) ps). my_id p = k" by auto
  then have "find (\<lambda>p. my_id p = k) (filter (\<lambda>p. my_id p \<in> A) ps) \<noteq> None"
    by (simp only: find_None_iff not_not) blast
  then show ?thesis by auto
qed

lemma archive_statements_mysql_cases:
  "(\<exists>e db'. archive_statements_mysql fault month fid sid tid tp tm db = (Inl e, db') \<and>
      same_rows_mysql db db') \<or>
   (\<exists>e m p1 p2 p3.
     fault 2 = Some e \<and>
     month = Some m \<and> fid = Some (my_id p1) \<and> sid = Some (my_id p2) \<and> tid = Some (my_id p3) \<and>
     m \<notin> set (map my_archive_month (my_archives db)) \<and>
     p1 \<in> set (my_players db) \<and> p2 \<in> set (my_players db) \<and> p3 \<in> set (my_players db) \<and>
     archive_statements_mysql fault month fid sid tid tp tm db =
       (Inl e, db\<lparr>my_archives := my_archives db @ [archive_row_mysql db m p1 p2 p3 tp tm],
                 my_archives_seq := my_archives_seq db + 1\<rparr>)) \<or>
   (\<exists>m p1 p2 p3.
     month = Some m \<and> fid = Some (my_id p1) \<and> sid = Some (my_id p2) \<and> tid = Some (my_id p3) \<and>
     m \<notin> set (map my_archive_month (my_archives db)) \<and>
     p1 \<in> set (my_players db) \<and> p2 \<in> set (my_players db) \<and> p3 \<in> set (my_players db) \<and>
     archive_statements_mysql fault month fid sid tid tp tm db =
       (Inr m, db\<lparr>my_players := set_champions [my_id p1, my_id p2, my_id p3] (my_players db),
                 my_archives := my_archives db @ [archive_row_mysql db m p1 p2 p3 tp tm],
                 my_archives_seq := my_archives_seq db + 1\<rparr>))"
  (is "?failed \<or> ?half \<or> ?done")
proof (cases "\<exists>f s t. fid = Some f \<and> sid = Some s \<and> tid = Some t")
  case False
  then have ?failed
    by (cases fid; cases sid; cases tid) (simp_all add: archive_statements_mysql_def same_rows_mysql_def)
  then show ?thesis ..
next
  case True
  then obtain f s t where pre: "fid = Some f" "sid = Some s" "tid = Some t" by blast
  show ?thesis
  proof (cases "fault 0")
    case (Some e)
    then have ?failed using pre by (simp add: archive_statements_mysql_def same_rows_mysql_def)
    then show ?thesis ..
  next
    case f0: None
    define rows where "rows = filter (\<lambda>p. my_id p \<in> set [f, s, t]) (my_players db)"
    show ?thesis
    proof (cases "\<exists>p1 p2 p3. find (\<lambda>p. my_id p = f) rows = Some p1 \<and>
                    find (\<lambda>p. my_id p = s) rows = Some p2 \<and> find (\<lambda>p. my_id p = t) rows = Some p3")
      case False
      then have ?failed using f0 pre
        by (cases "find (\<lambda>p. my_id p = f) rows"; cases "find (\<lambda>p. my_id p = s) rows";
            cases "find (\<lambda>p. my_id p = t) rows")
           (simp_all add: archive_statements_mysql_def rows_def same_rows_mysql_def)
      then show ?thesis ..
    next
      case True
      then obtain p1 p2 p3 where p: "find (\<lambda>p. my_id p = f) rows = Some p1"
          "find (\<lambda>p. my_id p = s) rows = Some p2" "find (\<lambda>p. my_id p = t) rows = Some p3"
        by blast
      from find_id_Some[OF p(1)[unfolded rows_def]] find_id_Some[OF p(2)[unfolded rows_def]]
        find_id_Some[OF p(3)[unfolded rows_def]]
      have ids: "my_id p1 = f" "my_id p2 = s" "my_id p3 = t"
        and mem: "p1 \<in> set (my_players db)" "p2 \<in> set (my_players db)" "p3 \<in> set (my_players db)"
        by simp_all
      show ?thesis
      proof (cases month)
        case None
        then have ?failed using f0 pre p
          by (simp add: archive_statements_mysql_def rows_def same_rows_mysql_def)
        then show ?thesis ..
      next
        case (Some m)
        show ?thesis
        proof (cases "fault 1")
          case (Some e)
          then have ?failed using f0 pre p \<open>month = Some m\<close>
            by (simp add: archive_statements_mysql_def rows_def run_from_def same_rows_mysql_def)
          then show ?thesis ..
        next
          case f1: None
          show ?thesis
          proof (cases "m \<in> set (map my_archive_month (my_archives db))")
            case True
            then have ?failed using f0 f1 pre p Some
              by (simp add: archive_statements_mysql_def rows_def run_from_def
                    insert_archive_mysql_def same_rows_mysql_def)
            then show ?thesis ..
          next
            case new: False
            show ?thesis
            proof (cases "fault 2")
              case (Some e)
              have "archive_statements_mysql fault month fid sid tid tp tm db =
                 (Inl e, db\<lparr>my_archives := my_archives db @ [archive_row_mysql db m p1 p2 p3 tp tm],
                           my_archives_seq := my_archives_seq db + 1\<rparr>)"
                using f0 f1 Some pre p \<open>month = Some m\<close> new ids
                by (simp add: archive_statements_mysql_def rows_def run_from_def
                      insert_archive_mysql_def archive_row_mysql_def)
              with Some pre \<open>month = Some m\<close> new mem ids have ?half by blast
              then show ?thesis by blast
            next
              case f2: None
              have "archive_statements_mysql fault month fid sid tid tp tm db =
                 (Inr m, db\<lparr>my_players := set_champions [my_id p1, my_id p2, my_id p3] (my_players db),
                           my_archives := my_archives db @ [archive_row_mysql db m p1 p2 p3 tp tm],
                           my_archives_seq := my_archives_seq db + 1\<rparr>)"
                using f0 f1 f2 pre p Some new ids
                by (simp add: archive_statements_mysql_def rows_def run_from_def
                      insert_archive_mysql_def archive_row_mysql_def)
              with pre Some new mem ids have ?done by blast
              then show ?thesis by blast
            qed
          qed
        qed
      qed
    qed
  qed
qed

lemma create_archive_mysql_cases:
  "(same_rows_mysql db (snd (create_archive_mysql fault tok month fid sid tid tp tm db)) \<and>
    status (fst (create_archive_mysql fault tok month fid sid tid tp tm db)) \<in> {400, 401, 500}) \<or>
   (\<exists>m p1 p2 p3.
     fault 2 \<noteq> None \<and>
     month = Some m \<and> fid = Some (my_id p1) \<and> sid = Some (my_id p2) \<and> tid = Some (my_id p3) \<and>
     m \<notin> set (map my_archive_month (my_archives db)) \<and>
     status (fst (create_archive_mysql fault tok month fid sid tid tp tm db)) \<in> {400, 500} \<and>
     snd (create_archive_mysql fault tok month fid sid tid tp tm db) =
       db\<lparr>my_archives := my_archives db @ [archive_row_mysql db m p1 p2 p3 tp tm],
          my_archives_seq := my_archives_seq db + 1\<rparr>) \<or>
   (\<exists>m p1 p2 p3.
     month = Some m \<and> fid = Some (my_id p1) \<and> sid = Some (my_id p2) \<and> tid = Some (my_id p3) \<and>
     m \<notin> set (map my_archive_month (my_archives db)) \<and>
     p1 \<in> set (my_players db) \<and> p2 \<in> set (my_players db) \<and> p3 \<in> set (my_players db) \<and>
     status (fst (create_archive_mysql fault tok month fid sid tid tp tm db)) = 200 \<and>
     snd (create_archive_mysql fault tok month fid sid tid tp tm db) =
       db\<lparr>my_players := set_champions [my_id p1, my_id p2, my_id p3] (my_players db),
          my_archives := my_archives db @ [archive_row_mysql db m p1 p2 p3 tp tm],
          my_archives_seq := my_archives_seq db + 1\<rparr>)"
  (is "?rejected \<or> ?half \<or> ?accepted")
proof (cases "tok = ValidToken")
  case False
  then have ?rejected by (cases tok) (simp_all add: create_archive_mysql_def same_rows_mysql_def)
  then show ?thesis ..
next
  case tk: True
  from archive_statements_mysql_cases[of fault month fid sid tid tp tm db]
  show ?thesis
  proof (elim disjE exE conjE)
    fix e db'
    assume "archive_statements_mysql fault month fid sid tid tp tm db = (Inl e, db')"
      "same_rows_mysql db db'"
    with tk have ?rejected by (simp add: create_archive_mysql_def)
    then show ?thesis ..
  next
    fix e m p1 p2 p3
    assume a: "fault 2 = Some e" "month = Some m" "fid = Some (my_id p1)" "sid = Some (my_id p2)"
      "tid = Some (my_id p3)" "m \<notin> set (map my_archive_month (my_archives db))"
      and st: "archive_statements_mysql fault month fid sid tid tp tm db =
       (Inl e, db\<lparr>my_archives := my_archives db @ [archive_row_mysql db m p1 p2 p3 tp tm],
                 my_archives_seq := my_archives_seq db + 1\<rparr>)"
    have "status (fst (create_archive_mysql fault tok month fid sid tid tp tm db)) \<in> {400, 500}"
      and "snd (create_archive_mysql fault tok month fid sid tid tp tm db) =
       db\<lparr>my_archives := my_archives db @ [archive_row_mysql db m p1 p2 p3 tp tm],
          my_archives_seq := my_archives_seq db + 1\<rparr>"
      using tk st by (simp_all add: create_archive_mysql_def)
    with a have ?half by blast
    then show ?thesis by blast
  next
    fix m p1 p2 p3
    assume a: "month = Some m" "fid = Some (my_id p1)" "sid = Some (my_id p2)"
      "tid = Some (my_id p3)" "m \<notin> set (map my_archive_month (my_archives db))"
      "p1 \<in> set (my_players db)" "p2 \<in> set (my_players db)" "p3 \<in> set (my_players db)"
      and st: "archive_statements_mysql fault month fid sid tid tp tm db =
       (Inr m, db\<lparr>my_players := set_champions [my_id p1, my_id p2, my_id p3] (my_players db),
                 my_archives := my_archives db @ [archive_row_mysql db m p1 p2 p3 tp tm],
                 my_archives_seq := my_archives_seq db + 1\<rparr>)"
    have "status (fst (create_archive_mysql fault tok month fid sid tid tp tm db)) = 200"
      and "snd (create_archive_mysql fault tok month fid sid tid tp tm db) =
       db\<lparr>my_players := set_champions [my_id p1, my_id p2, my_id p3] (my_players db),
          my_archives := my_archives db @ [archive_row_mysql db m p1 p2 p3 tp tm],
          my_archives_seq := my_archives_seq db + 1\<rparr>"
      using tk st by (simp_all add: create_archive_mysql_def)
    with a have ?accepted by blast
    then show ?thesis by blast
  qed
qed

lemma create_archive_mysql_success:
  assumes m: "m \<notin> set (map my_archive_month (my_archives db))"
    and ex: "set [f, s, t] \<subseteq> my_id ` set (my_players db)"
    and nf: "nf 0 = None" "nf 1 = None" "nf 2 = None"
  shows "status (fst (create_archive_mysql nf ValidToken (Some m) (Some f) (Some s) (Some t) tp tm
                        db)) = 200"
proof -
  define rows where "rows = filter (\<lambda>p. my_id p \<in> set [f, s, t]) (my_players db)"
  obtain p1 where p1: "find (\<lambda>p. my_id p = f) rows = Some p1"
    using find_id_defined[of f "set [f, s, t]" "my_players db"] ex by (auto simp: rows_def)
  obtain p2 where p2: "find (\<lambda>p. my_id p = s) rows = Some p2"
    using find_id_defined[of s "set [f, s, t]" "my_players db"] ex by (auto simp: rows_def)
  obtain p3 where p3: "find (\<lambda>p. my_id p = t) rows = Some p3"
    using find_id_defined[of t "set [f, s, t]" "my_players db"] ex by (auto simp: rows_def)
  show ?thesis using m p1 p2 p3 nf
    by (simp add: create_archive_mysql_def archive_statements_mysql_def rows_def run_from_def
          insert_archive_mysql_def)
qed


lemma create_archive_part_rejected:
  "status (fst (create_archive development fault tok month fid sid tid db)) \<noteq> 200 \<longrightarrow>
      same_rows db (snd (create_archive development fault tok month fid sid tid db)) \<and>
      status (fst (create_archive development fault tok month fid sid tid db)) \<in> {400, 401, 500}"
  using create_archive_rejected by blast

lemma create_archive_part_refused:
  "(\<exists>m. month = Some m \<and> m \<in> set (map archive_month (monthly_archives db))) \<or>
    fid = sid \<or> sid = tid \<or> fid = tid \<longrightarrow>
      status (fst (create_archive development fault tok month fid sid tid db)) \<noteq> 200"
  using create_archive_refused by blast

lemma create_archive_part_accepted:
  "status (fst (create_archive development fault tok month fid sid tid db)) = 200 \<longrightarrow>
      (\<exists>m p1 p2 p3.
         month = Some m \<and> fid = Some (player_id p1) \<and> sid = Some (player_id p2) \<and>
         tid = Some (player_id p3) \<and> distinct [player_id p1, player_id p2, player_id p3] \<and>
         m \<notin> set (map archive_month (monthly_archives db)) \<and>
         p1 \<in> set (players db) \<and> p2 \<in> set (players db) \<and> p3 \<in> set (players db) \<and>
         snd (create_archive development fault tok month fid sid tid db) =
           db\<lparr>monthly_archives := monthly_archives db @ [archive_row db m p1 p2 p3],
              archives_seq := archives_seq db + 1\<rparr>)"
  using create_archive_accepted by blast

lemma create_archive_part_success:
  "m \<noteq> [] \<and> m \<notin> set (map archive_month (monthly_archives db)) \<and>
    f \<noteq> 0 \<and> s \<noteq> 0 \<and> t \<noteq> 0 \<and> distinct [f, s, t] \<and>
    distinct (map player_id (players db)) \<and> set [f, s, t] \<subseteq> player_id ` set (players db) \<longrightarrow>
      status (fst (create_archive development None ValidToken (Some m) (Some f) (Some s) (Some t)
                     db)) = 200"
  using create_archive_success by blast

lemma create_archive_mysql_part_rejected:
  "status (fst (create_archive_mysql mfault mtok mmonth mfid msid mtid tp tm mdb)) \<noteq> 200 \<longrightarrow>
      my_players (snd (create_archive_mysql mfault mtok mmonth mfid msid mtid tp tm mdb)) =
        my_players mdb \<and>
      status (fst (create_archive_mysql mfault mtok mmonth mfid msid mtid tp tm mdb)) \<in> {400, 401, 500} \<and>
      (mfault 2 = None \<longrightarrow>
         same_rows_mysql mdb (snd (create_archive_mysql mfault mtok mmonth mfid msid mtid tp tm mdb)))"
proof
  assume a: "status (fst (create_archive_mysql mfault mtok mmonth mfid msid mtid tp tm mdb)) \<noteq> 200"
  from create_archive_mysql_cases[where fault = mfault and tok = mtok and month = mmonth
      and fid = mfid and sid = msid and tid = mtid and tp = tp and tm = tm and db = mdb]
  show "my_players (snd (create_archive_mysql mfault mtok mmonth mfid msid mtid tp tm mdb)) =
        my_players mdb \<and>
      status (fst (create_archive_mysql mfault mtok mmonth mfid msid mtid tp tm mdb)) \<in> {400, 401, 500} \<and>
      (mfault 2 = None \<longrightarrow>
         same_rows_mysql mdb (snd (create_archive_mysql mfault mtok mmonth mfid msid mtid tp tm mdb)))"
  proof (elim disjE exE conjE)
    assume "same_rows_mysql mdb (snd (create_archive_mysql mfault mtok mmonth mfid msid mtid tp tm mdb))"
      "status (fst (create_archive_mysql mfault mtok mmonth mfid msid mtid tp tm mdb)) \<in> {400, 401, 500}"
    then show ?thesis by (simp add: same_rows_mysql_def)
  next
    fix m p1 p2 p3
    assume "mfault 2 \<noteq> None"
      "status (fst (create_archive_mysql mfault mtok mmonth mfid msid mtid tp tm mdb)) \<in> {400, 500}"
      "snd (create_archive_mysql mfault mtok mmonth mfid msid mtid tp tm mdb) =
         mdb\<lparr>my_archives := my_archives mdb @ [archive_row_mysql mdb m p1 p2 p3 tp tm],
             my_archives_seq := my_archives_seq mdb + 1\<rparr>"
    then show ?thesis by auto
  next
    fix m p1 p2 p3
    assume "status (fst (create_archive_mysql mfault mtok mmonth mfid msid mtid tp tm mdb)) = 200"
    with a show ?thesis by simp
  qed
qed

lemma create_archive_mysql_part_refused:
  "(\<exists>m. mmonth = Some m \<and> m \<in> set (map my_archive_month (my_archives mdb))) \<longrightarrow>
      status (fst (create_archive_mysql mfault mtok mmonth mfid msid mtid tp tm mdb)) \<noteq> 200 \<and>
      same_rows_mysql mdb (snd (create_archive_mysql mfault mtok mmonth mfid msid mtid tp tm mdb))"
proof
  assume a: "\<exists>m. mmonth = Some m \<and> m \<in> set (map my_archive_month (my_archives mdb))"
  from create_archive_mysql_cases[where fault = mfault and tok = mtok and month = mmonth
      and fid = mfid and sid = msid and tid = mtid and tp = tp and tm = tm and db = mdb]
  show "status (fst (create_archive_mysql mfault mtok mmonth mfid msid mtid tp tm mdb)) \<noteq> 200 \<and>
      same_rows_mysql mdb (snd (create_archive_mysql mfault mtok mmonth mfid msid mtid tp tm mdb))"
  proof (elim disjE exE conjE)
    assume "same_rows_mysql mdb (snd (create_archive_mysql mfault mtok mmonth mfid msid mtid tp tm mdb))"
      "status (fst (create_archive_mysql mfault mtok mmonth mfid msid mtid tp tm mdb)) \<in> {400, 401, 500}"
    then show ?thesis by auto
  next
    fix m p1 p2 p3
    assume "mmonth = Some m" "m \<notin> set (map my_archive_month (my_archives mdb))"
      "mfault 2 \<noteq> None"
    with a show ?thesis by auto
  next
    fix m p1 p2 p3
    assume "mmonth = Some m" "m \<notin> set (map my_archive_month (my_archives mdb))"
      "p1 \<in> set (my_players mdb)"
    with a show ?thesis by auto
  qed
qed

lemma create_archive_mysql_part_accepted:
  "status (fst (create_archive_mysql mfault mtok mmonth mfid msid mtid tp tm mdb)) = 200 \<longrightarrow>
      (\<exists>m p1 p2 p3.
         mmonth = Some m \<and> mfid = Some (my_id p1) \<and> msid = Some (my_id p2) \<and>
         mtid = Some (my_id p3) \<and> m \<notin> set (map my_archive_month (my_archives mdb)) \<and>
         p1 \<in> set (my_players mdb) \<and> p2 \<in> set (my_players mdb) \<and> p3 \<in> set (my_players mdb) \<and>
         snd (create_archive_mysql mfault mtok mmonth mfid msid mtid tp tm mdb) =
           mdb\<lparr>my_players := set_champions [my_id p1, my_id p2, my_id p3] (my_players mdb),
               my_archives := my_archives mdb @ [archive_row_mysql mdb m p1 p2 p3 tp tm],
               my_archives_seq := my_archives_seq mdb + 1\<rparr>)"
proof
  assume a: "status (fst (create_archive_mysql mfault mtok mmonth mfid msid mtid tp tm mdb)) = 200"
  from create_archive_mysql_cases[where fault = mfault and tok = mtok and month = mmonth
      and fid = mfid and sid = msid and tid = mtid and tp = tp and tm = tm and db = mdb]
  show "\<exists>m p1 p2 p3.
         mmonth = Some m \<and> mfid = Some (my_id p1) \<and> msid = Some (my_id p2) \<and>
         mtid = Some (my_id p3) \<and> m \<notin> set (map my_archive_month (my_archives mdb)) \<and>
         p1 \<in> set (my_players mdb) \<and> p2 \<in> set (my_players mdb) \<and> p3 \<in> set (my_players mdb) \<and>
         snd (create_archive_mysql mfault mtok mmonth mfid msid mtid tp tm mdb) =
           mdb\<lparr>my_players := set_champions [my_id p1, my_id p2, my_id p3] (my_players mdb),
               my_archives := my_archives mdb @ [archive_row_mysql mdb m p1 p2 p3 tp tm],
               my_archives_seq := my_archives_seq mdb + 1\<rparr>"
  proof (elim disjE exE conjE)
    assume "status (fst (create_archive_mysql mfault mtok mmonth mfid msid mtid tp tm mdb)) \<in> {400, 401, 500}"
    with a show ?thesis by simp
  next
    fix m p1 p2 p3
    assume "status (fst (create_archive_mysql mfault mtok mmonth mfid msid mtid tp tm mdb)) \<in> {400, 500}"
    with a show ?thesis by simp
  next
    fix m p1 p2 p3
    assume "mmonth = Some m" "mfid = Some (my_id p1)" "msid = Some (my_id p2)"
      "mtid = Some (my_id p3)" "m \<notin> set (map my_archive_month (my_archives mdb))"
      "p1 \<in> set (my_players mdb)" "p2 \<in> set (my_players mdb)" "p3 \<in> set (my_players mdb)"
      "snd (create_archive_mysql mfault mtok mmonth mfid msid mtid tp tm mdb) =
         mdb\<lparr>my_players := set_champions [my_id p1, my_id p2, my_id p3] (my_players mdb),
             my_archives := my_archives mdb @ [archive_row_mysql mdb m p1 p2 p3 tp tm],
             my_archives_seq := my_archives_seq mdb + 1\<rparr>"
    then show ?thesis by blast
  qed
qed

lemma create_archive_mysql_part_success:
  "mm \<notin> set (map my_archive_month (my_archives mdb)) \<and>
    set [mf, ms, mt] \<subseteq> my_id ` set (my_players mdb) \<and>
    nf 0 = None \<and> nf 1 = None \<and> nf 2 = None \<longrightarrow>
      status (fst (create_archive_mysql nf ValidToken (Some mm) (Some mf) (Some ms) (Some mt)
                     tp tm mdb)) = 200"
  using create_archive_mysql_success by blast

text \<open>
  C3, amended. In server.js an archive-creation request that is not answered with a
  success leaves the rows of every table as they were and is answered with status 400,
  401 or 500; a request whose month already has an archive, or in which two of the three
  ids are equal, is never a success. A success means that all four fields were present,
  the three ids are different ids of players in the table and the month is new, and
  exactly one archive row with the three players' current points is appended. A request
  with a valid token, a non-empty new month and three different non-zero ids of existing
  players is a success (player ids being unique). The MySQL server checks the month only: a request whose
  month already has an archive is never a success and leaves the rows of every table as
  they were, while equal ids are not rejected, and a request with a valid token, a new
  month and three ids of existing players, equal or not, is a success when none of the
  three statements fails. A success appends exactly one row with the current points of
  three players of the table and sets their champion flags. A request that is not a
  success is answered with status 400, 401 or 500 and leaves the players as they were; it
  leaves the rows of every table as they were when the statement that sets the champion
  flags did not fail.
\<close>

theorem create_archive_outcome:
  "(status (fst (create_archive development fault tok month fid sid tid db)) \<noteq> 200 \<longrightarrow>
      same_rows db (snd (create_archive development fault tok month fid sid tid db)) \<and>
      status (fst (create_archive development fault tok month fid sid tid db)) \<in> {400, 401, 500}) \<and>
   ((\<exists>m. month = Some m \<and> m \<in> set (map archive_month (monthly_archives db))) \<or>
    fid = sid \<or> sid = tid \<or> fid = tid \<longrightarrow>
      status (fst (create_archive development fault tok month fid sid tid db)) \<noteq> 200) \<and>
   (status (fst (create_archive development fault tok month fid sid tid db)) = 200 \<longrightarrow>
      (\<exists>m p1 p2 p3.
         month = Some m \<and> fid = Some (player_id p1) \<and> sid = Some (player_id p2) \<and>
         tid = Some (player_id p3) \<and> distinct [player_id p1, player_id p2, player_id p3] \<and>
         m \<notin> set (map archive_month (monthly_archives db)) \<and>
         p1 \<in> set (players db) \<and> p2 \<in> set (players db) \<and> p3 \<in> set (players db) \<and>
         snd (create_archive development fault tok month fid sid tid db) =
           db\<lparr>monthly_archives := monthly_archives db @ [archive_row db m p1 p2 p3],
              archives_seq := archives_seq db + 1\<rparr>)) \<and>
   (m \<noteq> [] \<and> m \<notin> set (map archive_month (monthly_archives db)) \<and>
    f \<noteq> 0 \<and> s \<noteq> 0 \<and> t \<noteq> 0 \<and> distinct [f, s, t] \<and>
    distinct (map player_id (players db)) \<and> set [f, s, t] \<subseteq> player_id ` set (players db) \<longrightarrow>
      status (fst (create_archive development None ValidToken (Some m) (Some f) (Some s) (Some t)
                     db)) = 200) \<and>
   (status (fst (create_archive_mysql mfault mtok mmonth mfid msid mtid tp tm mdb)) \<noteq> 200 \<longrightarrow>
      my_players (snd (create_archive_mysql mfault mtok mmonth mfid msid mtid tp tm mdb)) =
        my_players mdb \<and>
      status (fst (create_archive_mysql mfault mtok mmonth mfid msid mtid tp tm mdb)) \<in> {400, 401, 500} \<and>
      (mfault 2 = None \<longrightarrow>
         same_rows_mysql mdb (snd (create_archive_mysql mfault mtok mmonth mfid msid mtid tp tm mdb)))) \<and>
   ((\<exists>m. mmonth = Some m \<and> m \<in> set (map my_archive_month (my_archives mdb))) \<longrightarrow>
      status (fst (create_archive_mysql mfault mtok mmonth mfid msid mtid tp tm mdb)) \<noteq> 200 \<and>
      same_rows_mysql mdb (snd (create_archive_mysql mfault mtok mmonth mfid msid mtid tp tm mdb))) \<and>
   (status (fst (create_archive_mysql mfault mtok mmonth mfid msid mtid tp tm mdb)) = 200 \<longrightarrow>
      (\<exists>m p1 p2 p3.
         mmonth = Some m \<and> mfid = Some (my_id p1) \<and> msid = Some (my_id p2) \<and>
         mtid = Some (my_id p3) \<and> m \<notin> set (map my_archive_month (my_archives mdb)) \<and>
         p1 \<in> set (my_players mdb) \<and> p2 \<in> set (my_players mdb) \<and> p3 \<in> set (my_players mdb) \<and>
         snd (create_archive_mysql mfault mtok mmonth mfid msid mtid tp tm mdb) =
           mdb\<lparr>my_players := set_champions [my_id p1, my_id p2, my_id p3] (my_players mdb),
               my_archives := my_archives mdb @ [archive_row_mysql mdb m p1 p2 p3 tp tm],
               my_archives_seq := my_archives_seq mdb + 1\<rparr>)) \<and>
   (mm \<notin> set (map my_archive_month (my_archives mdb)) \<and>
    set [mf, ms, mt] \<subseteq> my_id ` set (my_players mdb) \<and>
    nf 0 = None \<and> nf 1 = None \<and> nf 2 = None \<longrightarrow>
      status (fst (create_archive_mysql nf ValidToken (Some mm) (Some mf) (Some ms) (Some mt)
                     tp tm mdb)) = 200)"
  by (rule conjI[OF create_archive_part_rejected conjI[OF create_archive_part_refused conjI[OF create_archive_part_accepted conjI[OF create_archive_part_success conjI[OF create_archive_mysql_part_rejected conjI[OF create_archive_mysql_part_refused conjI[OF create_archive_mysql_part_accepted create_archive_mysql_part_success]]]]]]])

text \<open>
  C3, as the claim states it, fails on both servers. In server.js the month 2024-06 has
  no archive and no two of the ids 1, 2 and 99 resolve to the same player, yet no row is
  inserted: the request is answered with status 400, because no player has id 99. In the
  MySQL server the first and the second of the ids 1, 1 and 2 are the same player, yet the
  request is a success and the archive row with that player in the first two places is
  inserted.
\<close>

theorem create_archive_outcome_counterexample:
  "''2024-06'' \<notin> set (map archive_month (monthly_archives example_db)) \<and>
   99 \<notin> set (map player_id (players example_db)) \<and>
   status (fst (create_archive False None ValidToken (Some ''2024-06'') (Some 1) (Some 2) (Some 99)
                  example_db)) = 400 \<and>
   snd (create_archive False None ValidToken (Some ''2024-06'') (Some 1) (Some 2) (Some 99)
          example_db) = example_db \<and>
   status (fst (create_archive_mysql no_fault ValidToken (Some ''2024-06'') (Some 1) (Some 1)
                  (Some 2) None None example_db_mysql)) = 200 \<and>
   my_archives (snd (create_archive_mysql no_fault ValidToken (Some ''2024-06'') (Some 1) (Some 1)
                       (Some 2) None None example_db_mysql)) =
     [\<lparr>my_archive_id = 1, my_archive_month = ''2024-06'',
       my_first_place_player_id = 1, my_first_place_points = 10,
       my_second_place_player_id = 1, my_second_place_points = 10,
       my_third_place_player_id = 2, my_third_place_points = 10,
       my_total_players = 0, my_total_matches = 0\<rparr>]"
  by (simp add: create_archive_def example_db_def create_archive_mysql_def
        archive_statements_mysql_def no_fault_def run_from_def insert_archive_mysql_def
        example_db_mysql_def)

theorem create_archive_outcome_witness:
  "status (fst (create_archive False None ValidToken (Some ''2024-06'') (Some 1) (Some 2) (Some 3)
                  example_db)) = 200 \<and>
   status (fst (create_archive False None ValidToken (Some ''2024-05'') (Some 1) (Some 2) (Some 3)
                  example_db)) \<noteq> 200 \<and>
   monthly_archives (snd (create_archive False None ValidToken (Some ''2024-05'') (Some 1) (Some 2)
                            (Some 3) example_db)) = monthly_archives example_db \<and>
   status (fst (create_archive_mysql no_fault ValidToken (Some ''2024-05'') (Some 1) (Some 1)
                  (Some 3) None None example_db_mysql)) = 200 \<and>
   status (fst (create_archive_mysql (no_fault(2 := Some signal)) ValidToken (Some ''2024-05'')
                  (Some 1) (Some 2) (Some 3) None None example_db_mysql)) = 500 \<and>
   my_players (snd (create_archive_mysql (no_fault(2 := Some signal)) ValidToken (Some ''2024-05'')
                      (Some 1) (Some 2) (Some 3) None None example_db_mysql)) =
     my_players example_db_mysql \<and>
   my_archives (snd (create_archive_mysql no_fault ValidToken (Some ''2024-05'') (Some 1) (Some 2)
                       (Some 99) None None example_db_mysql)) = my_archives example_db_mysql \<and>
   map my_archive_month (my_archives example_db_mysql_archived) = [''2024-05''] \<and>
   status (fst (create_archive_mysql no_fault ValidToken (Some ''2024-05'') (Some 3) (Some 2)
                  (Some 1) None None example_db_mysql_archived)) \<noteq> 200 \<and>
   my_archives (snd (create_archive_mysql no_fault ValidToken (Some ''2024-05'') (Some 3) (Some 2)
                       (Some 1) None None example_db_mysql_archived)) =
     my_archives example_db_mysql_archived \<and>
   length (monthly_archives (snd (create_archive False None ValidToken (Some ''2024-06'') (Some 1)
                                    (Some 2) (Some 3) example_db))) = 2 \<and>
   length (my_archives (snd (create_archive_mysql no_fault ValidToken (Some ''2024-05'') (Some 1)
                               (Some 1) (Some 3) None None example_db_mysql))) = 1"
proof -
  have h1: "''2024-06'' \<noteq> [] \<and>
      ''2024-06'' \<notin> set (map archive_month (monthly_archives example_db)) \<and>
      (1 :: int) \<noteq> 0 \<and> (2 :: int) \<noteq> 0 \<and> (3 :: int) \<noteq> 0 \<and> distinct [1, 2, 3 :: int] \<and>
      distinct (map player_id (players example_db)) \<and>
      set [1, 2, 3] \<subseteq> player_id ` set (players example_db)"
    by (simp add: example_db_def)
  have h2: "(\<exists>m. Some ''2024-05'' = Some m \<and>
                m \<in> set (map archive_month (monthly_archives example_db))) \<or>
            Some (1 :: int) = Some 2 \<or> Some (2 :: int) = Some 3 \<or> Some (1 :: int) = Some 3"
    by (simp add: example_db_def)
  have h3: "''2024-05'' \<notin> set (map my_archive_month (my_archives example_db_mysql)) \<and>
      set [1, 1, 3] \<subseteq> my_id ` set (my_players example_db_mysql) \<and>
      no_fault 0 = None \<and> no_fault 1 = None \<and> no_fault 2 = None"
    by (simp add: example_db_mysql_def no_fault_def)
  have h4: "status (fst (create_archive_mysql (no_fault(2 := Some signal)) ValidToken
      (Some ''2024-05'') (Some 1) (Some 2) (Some 3) None None example_db_mysql)) = 500"
    by (simp add: create_archive_mysql_def archive_statements_mysql_def no_fault_def run_from_def
          insert_archive_mysql_def example_db_mysql_def signal_def)
  have h5: "status (fst (create_archive_mysql no_fault ValidToken (Some ''2024-05'') (Some 1)
      (Some 2) (Some 99) None None example_db_mysql)) \<noteq> 200 \<and> no_fault 2 = None"
    by (simp add: create_archive_mysql_def archive_statements_mysql_def no_fault_def
          example_db_mysql_def type_error_def)
  note t = create_archive_outcome[where development = False and fault = None and tok = ValidToken
      and month = "Some ''2024-05''" and fid = "Some 1" and sid = "Some 2" and tid = "Some 3"
      and db = example_db and m = "''2024-06''" and f = 1 and s = 2 and t = 3
      and mdb = example_db_mysql and mm = "''2024-05''" and mf = 1 and ms = 1 and mt = 3
      and tp = None and tm = None and nf = no_fault]
  note u = t[where mfault = "no_fault(2 := Some signal)" and mtok = ValidToken
      and mmonth = "Some ''2024-05''" and mfid = "Some 1" and msid = "Some 2" and mtid = "Some 3"]
  note v = t[where mfault = no_fault and mtok = ValidToken
      and mmonth = "Some ''2024-05''" and mfid = "Some 1" and msid = "Some 2" and mtid = "Some 99"]
  have a: "status (fst (create_archive False None ValidToken (Some ''2024-06'') (Some 1) (Some 2)
                          (Some 3) example_db)) = 200"
    using t[THEN conjunct2, THEN conjunct2, THEN conjunct2, THEN conjunct1] h1 by (rule mp)
  have b: "status (fst (create_archive False None ValidToken (Some ''2024-05'') (Some 1) (Some 2)
                          (Some 3) example_db)) \<noteq> 200"
    using t[THEN conjunct2, THEN conjunct1] h2 by (rule mp)
  have c: "monthly_archives (snd (create_archive False None ValidToken (Some ''2024-05'') (Some 1)
                                    (Some 2) (Some 3) example_db)) = monthly_archives example_db"
    using t[THEN conjunct1, THEN mp, OF b] by (simp add: same_rows_def)
  have d: "status (fst (create_archive_mysql no_fault ValidToken (Some ''2024-05'') (Some 1) (Some 1)
                          (Some 3) None None example_db_mysql)) = 200"
    using t[THEN conjunct2, THEN conjunct2, THEN conjunct2, THEN conjunct2, THEN conjunct2,
            THEN conjunct2, THEN conjunct2] h3 by (rule mp)
  have e: "my_players (snd (create_archive_mysql (no_fault(2 := Some signal)) ValidToken
      (Some ''2024-05'') (Some 1) (Some 2) (Some 3) None None example_db_mysql)) =
     my_players example_db_mysql"
    using u[THEN conjunct2, THEN conjunct2, THEN conjunct2, THEN conjunct2, THEN conjunct1] h4
    by simp
  have g: "my_archives (snd (create_archive_mysql no_fault ValidToken (Some ''2024-05'') (Some 1)
      (Some 2) (Some 99) None None example_db_mysql)) = my_archives example_db_mysql"
    using v[THEN conjunct2, THEN conjunct2, THEN conjunct2, THEN conjunct2, THEN conjunct1,
            THEN mp, OF h5[THEN conjunct1], THEN conjunct2, THEN conjunct2, THEN mp,
            OF h5[THEN conjunct2]]
    by (simp add: same_rows_mysql_def)
  have h6: "map my_archive_month (my_archives example_db_mysql_archived) = [''2024-05'']"
    by (simp add: example_db_mysql_archived_def create_archive_mysql_def
          archive_statements_mysql_def no_fault_def run_from_def insert_archive_mysql_def
          example_db_mysql_def)
  then have h7: "\<exists>m. Some ''2024-05'' = Some m \<and>
      m \<in> set (map my_archive_month (my_archives example_db_mysql_archived))"
    by simp
  note x = create_archive_outcome[where mfault = no_fault and mtok = ValidToken
      and mmonth = "Some ''2024-05''" and mfid = "Some 3" and msid = "Some 2" and mtid = "Some 1"
      and tp = None and tm = None and mdb = example_db_mysql_archived]
  note i0 = x[THEN conjunct2, THEN conjunct2, THEN conjunct2, THEN conjunct2, THEN conjunct2,
      THEN conjunct1, THEN mp, OF h7]
  have i: "status (fst (create_archive_mysql no_fault ValidToken (Some ''2024-05'') (Some 3) (Some 2)
                  (Some 1) None None example_db_mysql_archived)) \<noteq> 200 \<and>
      my_archives (snd (create_archive_mysql no_fault ValidToken (Some ''2024-05'') (Some 3) (Some 2)
                       (Some 1) None None example_db_mysql_archived)) =
        my_archives example_db_mysql_archived"
    using i0 by (simp add: same_rows_mysql_def)
  note y = create_archive_outcome[where development = False and fault = None and tok = ValidToken
      and month = "Some ''2024-06''" and fid = "Some 1" and sid = "Some 2" and tid = "Some 3"
      and db = example_db and mfault = no_fault and mtok = ValidToken
      and mmonth = "Some ''2024-05''" and mfid = "Some 1" and msid = "Some 1" and mtid = "Some 3"
      and tp = None and tm = None and mdb = example_db_mysql]
  from y[THEN conjunct2, THEN conjunct2, THEN conjunct1, THEN mp, OF a]
  have j: "length (monthly_archives (snd (create_archive False None ValidToken (Some ''2024-06'')
                                    (Some 1) (Some 2) (Some 3) example_db))) = 2"
  proof (elim exE conjE)
    fix m p1 p2 p3
    assume "snd (create_archive False None ValidToken (Some ''2024-06'') (Some 1) (Some 2) (Some 3)
                   example_db) =
       example_db\<lparr>monthly_archives := monthly_archives example_db @ [archive_row example_db m p1 p2 p3],
                  archives_seq := archives_seq example_db + 1\<rparr>"
    then show ?thesis by (simp add: example_db_def)
  qed
  from y[THEN conjunct2, THEN conjunct2, THEN conjunct2, THEN conjunct2, THEN conjunct2,
         THEN conjunct2, THEN conjunct1, THEN mp, OF d]
  have k: "length (my_archives (snd (create_archive_mysql no_fault ValidToken (Some ''2024-05'')
                               (Some 1) (Some 1) (Some 3) None None example_db_mysql))) = 1"
  proof (elim exE conjE)
    fix m p1 p2 p3
    assume "snd (create_archive_mysql no_fault ValidToken (Some ''2024-05'') (Some 1) (Some 1) (Some 3)
                   None None example_db_mysql) =
       example_db_mysql\<lparr>my_players := set_champions [my_id p1, my_id p2, my_id p3]
                                         (my_players example_db_mysql),
          my_archives := my_archives example_db_mysql @
            [archive_row_mysql example_db_mysql m p1 p2 p3 None None],
          my_archives_seq := my_archives_seq example_db_mysql + 1\<rparr>"
    then show ?thesis by (simp add: example_db_mysql_def)
  qed
  from a b c d h4 e g h6 i j k show ?thesis by blast
qed

subsection \<open>Recording a match\<close>

lemma find_filter_hd: "find P xs = Some x \<Longrightarrow> \<exists>rest. filter P xs = x # rest"
  by (induction xs) (auto split: if_splits)

lemma names_by_id_found:
  "player_by_id db pid = Some p \<Longrightarrow> \<exists>rest. names_by_id db pid = name p # rest"
  using find_filter_hd[of "\<lambda>p. player_id p = pid" "players db" p]
  by (auto simp: names_by_id_def player_by_id_def)

lemma select_name_found:
  assumes "bound_id int4in v = Inr (Some i)" "player_by_id db i = Some p"
  shows "\<exists>rest. select_name int4in None v db = Inr (name p # rest)"
  using names_by_id_found[OF assms(2)] assms(1) by (auto simp: select_name_def run_def)

lemma select_name_fault: "select_name int4in (Some e) v db = Inl e"
  by (simp add: select_name_def run_def)

lemma final_names_same_id:
  assumes "\<not> (truthy wname \<and> truthy lname)" "truthy w" "truthy l"
    "bound_id int4in w = Inr (Some i)" "bound_id int4in l = Inr (Some j)"
    "player_by_id db i = Some p" "player_by_id db j = Some p"
  shows "final_names int4in fault w l wname lname db = Names (VStr (name p)) (VStr (name p)) \<or>
         (\<exists>e. final_names int4in fault w l wname lname db = Thrown e)"
    and "fault 0 = None \<Longrightarrow> fault 1 = None \<Longrightarrow>
         final_names int4in fault w l wname lname db = Names (VStr (name p)) (VStr (name p))"
proof -
  from select_name_found[OF assms(4,6)] select_name_found[OF assms(5,7)]
  obtain r1 r2 where nm: "select_name int4in None w db = Inr (name p # r1)"
    "select_name int4in None l db = Inr (name p # r2)"
    by blast
  have branch: "final_names int4in fault w l wname lname db =
      (case select_name int4in (fault 0) w db of
         Inl e \<Rightarrow> Thrown e
       | Inr winnerRows \<Rightarrow>
           (case select_name int4in (fault 1) l db of
              Inl e \<Rightarrow> Thrown e
            | Inr loserRows \<Rightarrow>
                (case (winnerRows, loserRows) of
                   (w # _, l # _) \<Rightarrow> Names (VStr w) (VStr l)
                 | _ \<Rightarrow> Sent (failure 400 ''One or both players not found''))))"
    using assms(1-3) by (cases "truthy wname"; cases "truthy lname") (simp_all add: final_names_def)
  show "final_names int4in fault w l wname lname db = Names (VStr (name p)) (VStr (name p)) \<or>
         (\<exists>e. final_names int4in fault w l wname lname db = Thrown e)"
    unfolding branch using nm
    by (cases "fault 0"; cases "fault 1") (simp_all add: select_name_fault)
  show "final_names int4in fault w l wname lname db = Names (VStr (name p)) (VStr (name p))"
    if "fault 0 = None" "fault 1 = None"
    unfolding branch using nm that by simp
qed

lemma same_id_rejected:
  "\<not> (truthy wname \<and> truthy lname) \<and> truthy w \<and> truthy l \<and>
    bound_id int4in w = Inr (Some i) \<and> bound_id int4in l = Inr (Some j) \<and>
    player_by_id db i = Some q \<and> player_by_id db j = Some q \<longrightarrow>
      snd (record_match development int4in rmr fault ValidToken w l wname lname db) = db \<and>
      status (fst (record_match development int4in rmr fault ValidToken w l wname lname db))
        \<in> {400, 500} \<and>
      (fault 0 = None \<and> fault 1 = None \<longrightarrow>
         record_match development int4in rmr fault ValidToken w l wname lname db =
           (failure 400 ''Winner and loser cannot be the same player'', db))"
proof
  assume a: "\<not> (truthy wname \<and> truthy lname) \<and> truthy w \<and> truthy l \<and>
    bound_id int4in w = Inr (Some i) \<and> bound_id int4in l = Inr (Some j) \<and>
    player_by_id db i = Some q \<and> player_by_id db j = Some q"
  then have fn: "final_names int4in fault w l wname lname db = Names (VStr (name q)) (VStr (name q)) \<or>
         (\<exists>e. final_names int4in fault w l wname lname db = Thrown e)"
    and fn0: "fault 0 = None \<Longrightarrow> fault 1 = None \<Longrightarrow>
         final_names int4in fault w l wname lname db = Names (VStr (name q)) (VStr (name q))"
    using final_names_same_id[of wname lname w l int4in i j db q fault] by blast+
  from fn have "snd (record_match development int4in rmr fault ValidToken w l wname lname db) = db \<and>
      status (fst (record_match development int4in rmr fault ValidToken w l wname lname db))
        \<in> {400, 500}"
    by (auto simp: record_match_def failure_def handleError_def respond_def)
  moreover have "fault 0 = None \<and> fault 1 = None \<longrightarrow>
         record_match development int4in rmr fault ValidToken w l wname lname db =
           (failure 400 ''Winner and loser cannot be the same player'', db)"
    using fn0 by (simp add: record_match_def)
  ultimately show "snd (record_match development int4in rmr fault ValidToken w l wname lname db) = db \<and>
      status (fst (record_match development int4in rmr fault ValidToken w l wname lname db))
        \<in> {400, 500} \<and>
      (fault 0 = None \<and> fault 1 = None \<longrightarrow>
         record_match development int4in rmr fault ValidToken w l wname lname db =
           (failure 400 ''Winner and loser cannot be the same player'', db))"
    by blast
qed

lemma same_name_rejected:
  "truthy wn \<and> wn = ln' \<longrightarrow>
      record_match development int4in rmr fault ValidToken wi li wn ln' db =
        (failure 400 ''Winner and loser cannot be the same player'', db)"
  by (auto simp: record_match_def final_names_def)

lemma other_names_passed_on:
  "truthy wn \<and> truthy ln' \<and> wn \<noteq> ln' \<longrightarrow>
      fst (record_match development int4in rmr fault ValidToken wi li wn ln' db) \<noteq>
        failure 400 ''Winner and loser cannot be the same player''"
proof
  assume a: "truthy wn \<and> truthy ln' \<and> wn \<noteq> ln'"
  show "fst (record_match development int4in rmr fault ValidToken wi li wn ln' db) \<noteq>
        failure 400 ''Winner and loser cannot be the same player''"
  proof (cases "run (fault 2) (rmr wn ln' db)")
    case (Inl e)
    with a show ?thesis
      by (simp add: record_match_def final_names_def failure_def handleError_def respond_def)
  next
    case (Inr x)
    obtain msg db' where x: "x = (msg, db')" by (cases x)
    show ?thesis
    proof (cases msg)
      case None
      with a Inr x show ?thesis
        by (simp add: record_match_def final_names_def failure_def handleError_def respond_def)
    next
      case (Some m)
      show ?thesis
      proof (cases "take 6 m = ''Error:''")
        case True
        then have "m \<noteq> ''Winner and loser cannot be the same player''" by auto
        with a Inr x Some True show ?thesis
          by (simp add: record_match_def final_names_def failure_def respond_def)
      next
        case False
        with a Inr x Some show ?thesis
          by (cases "fault 3")
             (simp_all add: record_match_def final_names_def failure_def handleError_def ok_def
                respond_def)
      qed
    qed
  qed
qed

lemma ids_required_mysql:
  "\<not> truthy mw \<or> \<not> truthy ml \<longrightarrow>
      record_match_mysql as_id RecordMatch mfault ValidToken mw ml pe mt mdb =
        (failure_mysql 400 ''Winner and loser IDs are required'', mdb)"
  by (auto simp: record_match_mysql_def)

lemma same_id_rejected_mysql:
  "truthy mw \<and> mw = ml \<longrightarrow>
      record_match_mysql as_id RecordMatch mfault ValidToken mw ml pe mt mdb =
        (failure_mysql 400 ''Winner and loser cannot be the same player'', mdb)"
  by (auto simp: record_match_mysql_def)

lemma other_ids_passed_on_mysql:
  "truthy mw \<and> truthy ml \<and> mw \<noteq> ml \<longrightarrow>
      fst (record_match_mysql as_id RecordMatch mfault ValidToken mw ml pe mt mdb) \<noteq>
        failure_mysql 400 ''Winner and loser cannot be the same player''"
proof
  assume a: "truthy mw \<and> truthy ml \<and> mw \<noteq> ml"
  show "fst (record_match_mysql as_id RecordMatch mfault ValidToken mw ml pe mt mdb) \<noteq>
        failure_mysql 400 ''Winner and loser cannot be the same player''"
  proof (cases "run (mfault 0) (RecordMatch mw ml (or_default pe (VNum 1))
                                  (or_default mt (VStr ''casual'')) mdb)")
    case (Inl e)
    with a show ?thesis by (simp add: record_match_mysql_def failure_mysql_def respond_def)
  next
    case (Inr db')
    with a show ?thesis
      by (cases "mfault 1"; cases "mfault 2")
         (simp_all add: record_match_mysql_def failure_mysql_def ok_def respond_def)
  qed
qed

text \<open>
  C4, amended. In server.js a record-match request given by an id pair (the two names
  not both given) whose two ids the database reads as ids of the same player is never a
  success and leaves the database as it was, whatever the stored function is: when the
  two selects by id run, it is answered with status 400 and the error "Winner and loser
  cannot be the same player", the comparison being made on the names read from the table
  and not on the ids as given, and when one of them fails it is answered with status
  500. A request given by a name pair is answered with that error when the two names are
  the same value; the handler compares them as given, and two names that are different
  values are never answered with it, whatever player they name. The MySQL server takes
  ids only, a request without both ids being answered with status 400 and "Winner and
  loser IDs are required", and compares them as given: two ids that are the same value
  are answered with status 400 and that error, the database unchanged and the stored
  procedure not called, and two ids that are different values are never answered with it,
  whatever player they resolve to.
\<close>

theorem same_player_rejected:
  "(\<not> (truthy wname \<and> truthy lname) \<and> truthy w \<and> truthy l \<and>
    bound_id int4in w = Inr (Some i) \<and> bound_id int4in l = Inr (Some j) \<and>
    player_by_id db i = Some q \<and> player_by_id db j = Some q \<longrightarrow>
      snd (record_match development int4in rmr fault ValidToken w l wname lname db) = db \<and>
      status (fst (record_match development int4in rmr fault ValidToken w l wname lname db))
        \<in> {400, 500} \<and>
      (fault 0 = None \<and> fault 1 = None \<longrightarrow>
         record_match development int4in rmr fault ValidToken w l wname lname db =
           (failure 400 ''Winner and loser cannot be the same player'', db))) \<and>
   (truthy wn \<and> wn = ln' \<longrightarrow>
      record_match development int4in rmr fault ValidToken wi li wn ln' db =
        (failure 400 ''Winner and loser cannot be the same player'', db)) \<and>
   (truthy wn \<and> truthy ln' \<and> wn \<noteq> ln' \<longrightarrow>
      fst (record_match development int4in rmr fault ValidToken wi li wn ln' db) \<noteq>
        failure 400 ''Winner and loser cannot be the same player'') \<and>
   (\<not> truthy mw \<or> \<not> truthy ml \<longrightarrow>
      record_match_mysql as_id RecordMatch mfault ValidToken mw ml pe mt mdb =
        (failure_mysql 400 ''Winner and loser IDs are required'', mdb)) \<and>
   (truthy mw \<and> mw = ml \<longrightarrow>
      record_match_mysql as_id RecordMatch mfault ValidToken mw ml pe mt mdb =
        (failure_mysql 400 ''Winner and loser cannot be the same player'', mdb)) \<and>
   (truthy mw \<and> truthy ml \<and> mw \<noteq> ml \<longrightarrow>
      fst (record_match_mysql as_id RecordMatch mfault ValidToken mw ml pe mt mdb) \<noteq>
        failure_mysql 400 ''Winner and loser cannot be the same player'')"
  by (rule conjI[OF same_id_rejected conjI[OF same_name_rejected conjI[OF other_names_passed_on
        conjI[OF ids_required_mysql conjI[OF same_id_rejected_mysql other_ids_passed_on_mysql]]]]])

lemma decimal_examples: "decimal 1 = ''1''" "decimal 7 = ''7''"
  by (simp_all add: decimal_def digits.simps)

lemma example_int4in_examples:
  "example_int4in ''1'' = Inr 1" "example_int4in ''2'' = Inr 2" "example_int4in ''7'' = Inr 7"
  by (simp_all add: example_int4in_def digit_val_def)

lemma example_id_comparison_examples:
  "example_id_comparison (VNum 1) = Some 1" "example_id_comparison (VStr ''1'') = Some 1"
  by (simp_all add: example_id_comparison_def example_int4in_examples)

text \<open>
  C4, as the claim states it, fails on the MySQL server: the number 1 and the string "1"
  are both compared as the id 1, Ann's, but they are different values, so the handler
  does not reject the request and calls the stored procedure. With a procedure that
  records what it is given, the match of Ann against herself is recorded and the request
  is a success; with a procedure that refuses it, the request is answered with status 500
  and "Failed to record match", the answer to any failure of the statement. It fails on
  the name pairs of server.js in the same way: the number 7 and the string "7" are both
  written as the text 7, the name of one player, but they are different values, and the
  handler calls the stored function, which here records the match.
\<close>

theorem same_player_rejected_counterexample:
  "example_id_comparison (VNum 1) = Some 1 \<and> example_id_comparison (VStr ''1'') = Some 1 \<and>
   map_option my_name (player_by_id_mysql example_db_mysql 1) = Some ''Ann'' \<and>
   record_match_mysql example_id_comparison example_RecordMatch no_fault ValidToken (VNum 1)
       (VStr ''1'') VUndefined VUndefined example_db_mysql =
     (ok [(''message'', JStr ''Match recorded successfully!''), (''winner'', JOther),
          (''loser'', JOther)],
      example_db_mysql\<lparr>my_matches :=
        my_matches example_db_mysql @ [\<lparr>winner_id = 1, loser_id = 1\<rparr>]\<rparr>) \<and>
   record_match_mysql example_id_comparison checking_RecordMatch no_fault ValidToken (VNum 1)
       (VStr ''1'') VUndefined VUndefined example_db_mysql =
     (failure_mysql 500 ''Failed to record match'', example_db_mysql) \<and>
   to_text (VNum 7) = Some ''7'' \<and> to_text (VStr ''7'') = Some ''7'' \<and>
   player_by_name example_db_seven ''7'' =
     Some \<lparr>player_id = 5, name = ''7'', points = 0, tier = ''Bronze''\<rparr> \<and>
   status (fst (record_match False example_int4in example_record_match_result no_fault ValidToken
                  VUndefined VUndefined (VNum 7) (VStr ''7'') example_db_seven)) = 200 \<and>
   matches (snd (record_match False example_int4in example_record_match_result no_fault ValidToken
                   VUndefined VUndefined (VNum 7) (VStr ''7'') example_db_seven)) =
     [\<lparr>winner_id = 2, loser_id = 3\<rparr>, \<lparr>winner_id = 5, loser_id = 5\<rparr>]"
proof -
  have a: "record_match_mysql example_id_comparison example_RecordMatch no_fault ValidToken (VNum 1)
       (VStr ''1'') VUndefined VUndefined example_db_mysql =
     (ok [(''message'', JStr ''Match recorded successfully!''), (''winner'', JOther),
          (''loser'', JOther)],
      example_db_mysql\<lparr>my_matches :=
        my_matches example_db_mysql @ [\<lparr>winner_id = 1, loser_id = 1\<rparr>]\<rparr>)"
    by (simp add: record_match_mysql_def no_fault_def run_def example_RecordMatch_def
          example_id_comparison_examples by_id_mysql_def example_db_mysql_def)
  have b: "record_match_mysql example_id_comparison checking_RecordMatch no_fault ValidToken (VNum 1)
       (VStr ''1'') VUndefined VUndefined example_db_mysql =
     (failure_mysql 500 ''Failed to record match'', example_db_mysql)"
    by (simp add: record_match_mysql_def no_fault_def run_def checking_RecordMatch_def
          example_id_comparison_examples)
  have c: "player_by_name example_db_seven ''7'' =
     Some \<lparr>player_id = 5, name = ''7'', points = 0, tier = ''Bronze''\<rparr>"
    by (simp add: player_by_name_def example_db_seven_def example_db_def)
  have d: "record_match False example_int4in example_record_match_result no_fault ValidToken
                  VUndefined VUndefined (VNum 7) (VStr ''7'') example_db_seven =
     (ok [(''message'', JStr ''Match recorded''), (''winner'', JOther), (''loser'', JOther)],
      example_db_seven\<lparr>matches := matches example_db_seven @ [\<lparr>winner_id = 5, loser_id = 5\<rparr>]\<rparr>)"
    by (simp add: record_match_def final_names_def no_fault_def run_def
          example_record_match_result_def decimal_examples c by_name_def)
       (simp add: example_db_seven_def example_db_def)
  have e: "map_option my_name (player_by_id_mysql example_db_mysql 1) = Some ''Ann''"
    by (simp add: player_by_id_mysql_def example_db_mysql_def)
  show ?thesis
    unfolding d using a b c e
    by (simp add: example_id_comparison_examples decimal_examples)
       (simp add: example_db_seven_def example_db_def)
qed

theorem same_player_rejected_witness:
  "bound_id example_int4in (VNum 1) = Inr (Some 1) \<and>
   bound_id example_int4in (VStr ''1'') = Inr (Some 1) \<and>
   player_by_id example_db 1 =
     Some \<lparr>player_id = 1, name = ''Ann'', points = 10, tier = ''Gold''\<rparr> \<and>
   record_match False example_int4in example_record_match_result no_fault ValidToken (VNum 1)
       (VStr ''1'') VUndefined VUndefined example_db =
     (failure 400 ''Winner and loser cannot be the same player'', example_db) \<and>
   record_match False example_int4in example_record_match_result no_fault ValidToken VUndefined
       VUndefined (VStr ''Ann'') (VStr ''Ann'') example_db =
     (failure 400 ''Winner and loser cannot be the same player'', example_db) \<and>
   fst (record_match False example_int4in example_record_match_result no_fault ValidToken VUndefined
          VUndefined (VNum 7) (VStr ''7'') example_db_seven) \<noteq>
     failure 400 ''Winner and loser cannot be the same player'' \<and>
   record_match_mysql example_id_comparison example_RecordMatch no_fault ValidToken (VNum 1)
       (VNum 1) VUndefined VUndefined example_db_mysql =
     (failure_mysql 400 ''Winner and loser cannot be the same player'', example_db_mysql) \<and>
   record_match_mysql example_id_comparison example_RecordMatch no_fault ValidToken VUndefined
       VUndefined VUndefined VUndefined example_db_mysql =
     (failure_mysql 400 ''Winner and loser IDs are required'', example_db_mysql) \<and>
   fst (record_match_mysql example_id_comparison example_RecordMatch no_fault ValidToken (VNum 1)
          (VStr ''1'') VUndefined VUndefined example_db_mysql) \<noteq>
     failure_mysql 400 ''Winner and loser cannot be the same player'' \<and>
   matches (snd (record_match False example_int4in example_record_match_result no_fault ValidToken
                   (VNum 1) (VStr ''2'') VUndefined VUndefined example_db)) =
     [\<lparr>winner_id = 2, loser_id = 3\<rparr>, \<lparr>winner_id = 1, loser_id = 2\<rparr>]"
proof -
  define ann where "ann = \<lparr>player_id = 1, name = ''Ann'', points = 10, tier = ''Gold''\<rparr>"
  have bi: "bound_id example_int4in (VNum 1) = Inr (Some 1)"
    "bound_id example_int4in (VStr ''1'') = Inr (Some 1)"
    by (simp_all add: bound_id_def decimal_examples example_int4in_examples)
  have pa: "player_by_id example_db 1 = Some ann"
    by (simp add: player_by_id_def example_db_def ann_def)
  have h1: "\<not> (truthy VUndefined \<and> truthy VUndefined) \<and> truthy (VNum 1) \<and> truthy (VStr ''1'') \<and>
    bound_id example_int4in (VNum 1) = Inr (Some 1) \<and>
    bound_id example_int4in (VStr ''1'') = Inr (Some 1) \<and>
    player_by_id example_db 1 = Some ann \<and> player_by_id example_db 1 = Some ann"
    using bi pa by simp
  have h1': "no_fault 0 = None \<and> no_fault 1 = None" by (simp add: no_fault_def)
  have h2: "truthy (VStr ''Ann'') \<and> VStr ''Ann'' = VStr ''Ann''" by simp
  have h3: "truthy (VNum 7) \<and> truthy (VStr ''7'') \<and> VNum 7 \<noteq> VStr ''7''" by simp
  have h4: "truthy (VNum 1) \<and> VNum 1 = VNum 1" by simp
  have h5: "truthy (VNum 1) \<and> truthy (VStr ''1'') \<and> VNum 1 \<noteq> VStr ''1''" by simp
  note t = same_player_rejected[where development = False and int4in = example_int4in
      and rmr = example_record_match_result and fault = no_fault
      and as_id = example_id_comparison and RecordMatch = example_RecordMatch
      and mfault = no_fault and pe = VUndefined and mt = VUndefined and mdb = example_db_mysql]
  note t1 = t[where w = "VNum 1" and l = "VStr ''1''" and wname = VUndefined and lname = VUndefined
      and i = 1 and j = 1 and q = ann and db = example_db
      and wi = VUndefined and li = VUndefined and wn = "VStr ''Ann''" and ln' = "VStr ''Ann''"
      and mw = "VNum 1" and ml = "VNum 1"]
  note t2 = t[where db = example_db_seven
      and wi = VUndefined and li = VUndefined and wn = "VNum 7" and ln' = "VStr ''7''"
      and mw = "VNum 1" and ml = "VStr ''1''"]
  have a: "record_match False example_int4in example_record_match_result no_fault ValidToken (VNum 1)
       (VStr ''1'') VUndefined VUndefined example_db =
     (failure 400 ''Winner and loser cannot be the same player'', example_db)"
    by (rule t1[THEN conjunct1, THEN mp, OF h1, THEN conjunct2, THEN conjunct2, THEN mp, OF h1'])
  have b: "record_match False example_int4in example_record_match_result no_fault ValidToken VUndefined
       VUndefined (VStr ''Ann'') (VStr ''Ann'') example_db =
     (failure 400 ''Winner and loser cannot be the same player'', example_db)"
    by (rule t1[THEN conjunct2, THEN conjunct1, THEN mp, OF h2])
  have c: "fst (record_match False example_int4in example_record_match_result no_fault ValidToken
          VUndefined VUndefined (VNum 7) (VStr ''7'') example_db_seven) \<noteq>
     failure 400 ''Winner and loser cannot be the same player''"
    by (rule t2[THEN conjunct2, THEN conjunct2, THEN conjunct1, THEN mp, OF h3])
  have d: "record_match_mysql example_id_comparison example_RecordMatch no_fault ValidToken (VNum 1)
       (VNum 1) VUndefined VUndefined example_db_mysql =
     (failure_mysql 400 ''Winner and loser cannot be the same player'', example_db_mysql)"
    by (rule t1[THEN conjunct2, THEN conjunct2, THEN conjunct2, THEN conjunct2, THEN conjunct1,
          THEN mp, OF h4])
  have h6: "\<not> truthy VUndefined \<or> \<not> truthy VUndefined" by simp
  have d': "record_match_mysql example_id_comparison example_RecordMatch no_fault ValidToken
       VUndefined VUndefined VUndefined VUndefined example_db_mysql =
     (failure_mysql 400 ''Winner and loser IDs are required'', example_db_mysql)"
    by (rule t[where mw = VUndefined and ml = VUndefined, THEN conjunct2, THEN conjunct2,
          THEN conjunct2, THEN conjunct1, THEN mp, OF h6])
  have e: "fst (record_match_mysql example_id_comparison example_RecordMatch no_fault ValidToken
          (VNum 1) (VStr ''1'') VUndefined VUndefined example_db_mysql) \<noteq>
     failure_mysql 400 ''Winner and loser cannot be the same player''"
    by (rule t2[THEN conjunct2, THEN conjunct2, THEN conjunct2, THEN conjunct2, THEN conjunct2,
          THEN mp, OF h5])
  have pb: "player_by_name example_db ''Ann'' = Some ann"
    "player_by_name example_db ''Bob'' =
       Some \<lparr>player_id = 2, name = ''Bob'', points = 10, tier = ''Gold''\<rparr>"
    by (simp_all add: player_by_name_def example_db_def ann_def)
  have fn: "final_names example_int4in no_fault (VNum 1) (VStr ''2'') VUndefined VUndefined
               example_db = Names (VStr ''Ann'') (VStr ''Bob'')"
    by (simp add: final_names_def select_name_def bound_id_def no_fault_def run_def
          decimal_examples example_int4in_examples names_by_id_def example_db_def)
  have rm: "example_record_match_result (VStr ''Ann'') (VStr ''Bob'') example_db =
      Inr (Some ''Match recorded'',
           example_db\<lparr>matches := matches example_db @ [\<lparr>winner_id = 1, loser_id = 2\<rparr>]\<rparr>)"
    by (simp add: example_record_match_result_def pb ann_def)
  have f: "matches (snd (record_match False example_int4in example_record_match_result no_fault
                   ValidToken (VNum 1) (VStr ''2'') VUndefined VUndefined example_db)) =
     [\<lparr>winner_id = 2, loser_id = 3\<rparr>, \<lparr>winner_id = 1, loser_id = 2\<rparr>]"
    by (simp add: record_match_def fn rm run_def no_fault_def) (simp add: example_db_def)
  from bi pa a b c d d' e f show ?thesis unfolding ann_def by simp
qed

subsection \<open>Creating a player\<close>

lemma add_player_name_required:
  "name_f = None \<or> (\<exists>nm. name_f = Some nm \<and> trim nm = []) \<longrightarrow>
      add_player development tier_of fault ValidToken name_f points_f db =
        (failure 400 ''Player name is required'', db)"
  by (cases name_f) (auto simp: add_player_def trim_def)

lemma add_player_points_range:
  "points_f = Some n \<and> (n < 0 \<or> 49 < n) \<longrightarrow>
      status (fst (add_player development tier_of fault ValidToken name_f points_f db)) = 400 \<and>
      snd (add_player development tier_of fault ValidToken name_f points_f db) = db \<and>
      (\<forall>nm. name_f = Some nm \<and> trim nm \<noteq> [] \<longrightarrow>
         add_player development tier_of fault ValidToken name_f points_f db =
           (failure 400 ''Points must be between 0 and 49'', db))"
  by (cases name_f) (auto simp: add_player_def trim_def)

lemma add_player_points_default:
  "add_player development tier_of fault tok name_f None db =
      add_player development tier_of fault tok name_f (Some 0) db"
  by (cases tok) (simp_all add: add_player_def)

lemma add_player_duplicate_name:
  "trim nm \<noteq> [] \<and> 0 \<le> n \<and> n \<le> 49 \<and> trim nm \<in> set (map name (players db)) \<longrightarrow>
      fst (add_player development tier_of None ValidToken (Some nm) (Some n) db) =
        failure 400 ''Player name already exists'' \<and>
      same_rows db (snd (add_player development tier_of None ValidToken (Some nm) (Some n) db))"
  by (auto simp: add_player_def trim_def run_from_def insert_player_def unique_violation_def
        same_rows_def)

lemma add_player_new_player:
  "trim nm \<noteq> [] \<and> 0 \<le> n \<and> n \<le> 49 \<and> trim nm \<notin> set (map name (players db)) \<longrightarrow>
      status (fst (add_player development tier_of None ValidToken (Some nm) (Some n) db)) = 200 \<and>
      snd (add_player development tier_of None ValidToken (Some nm) (Some n) db) =
        db\<lparr>players := players db @
                [\<lparr>player_id = players_seq db, name = trim nm, points = n, tier = tier_of n\<rparr>],
           players_seq := players_seq db + 1\<rparr>"
  by (auto simp: add_player_def trim_def run_from_def insert_player_def)

lemma add_player_rejected_keeps:
  "status (fst (add_player development tier_of fault tok name_f points_f db)) \<noteq> 200 \<longrightarrow>
      same_rows db (snd (add_player development tier_of fault tok name_f points_f db))"
  by (cases tok; cases name_f; cases fault)
     (auto simp: add_player_def run_from_def insert_player_def Let_def same_rows_def
        split: if_splits)

lemma add_player_name_required_mysql:
  "\<not> truthy_str mname \<longrightarrow>
      add_player_mysql AddPlayer mfault ValidToken mname email mpoints mdb =
        (failure_mysql 400 ''Player name is required'', mdb)"
  by (simp add: add_player_mysql_def)

lemma add_player_email_required_mysql:
  "truthy_str mname \<longrightarrow>
      add_player_mysql AddPlayer mfault ValidToken mname None mpoints mdb =
        (failure_mysql 500 ''Failed to add player'', mdb)"
  by (simp add: add_player_mysql_def)

lemma add_player_points_default_mysql:
  "add_player_mysql AddPlayer mfault mtok mname email None mdb =
      add_player_mysql AddPlayer mfault mtok mname email (Some 0) mdb"
  by (cases mtok) (simp_all add: add_player_mysql_def)

lemma add_player_passed_on_mysql:
  "mnm \<noteq> [] \<longrightarrow>
      add_player_mysql AddPlayer None ValidToken (Some mnm) (Some em) (Some k) mdb =
        (case AddPlayer mnm em k mdb of
           Inr db' \<Rightarrow>
             (ok [(''message'', JStr (''Player '' @ mnm @ '' added successfully!''))], db')
         | Inl e \<Rightarrow>
             if err_code e = Some ''ER_DUP_ENTRY''
             then (failure_mysql 400 ''Player name already exists'', mdb)
             else (failure_mysql 500 ''Failed to add player'', mdb))"
  by (simp add: add_player_mysql_def run_def split: sum.splits)

lemma add_player_duplicate_name_mysql:
  "mnm \<noteq> [] \<and> AddPlayer mnm em k mdb = Inl e \<and> err_code e = Some ''ER_DUP_ENTRY'' \<longrightarrow>
      add_player_mysql AddPlayer None ValidToken (Some mnm) (Some em) (Some k) mdb =
        (failure_mysql 400 ''Player name already exists'', mdb)"
  by (simp add: add_player_mysql_def run_def)

lemma add_player_rejected_keeps_mysql:
  "status (fst (add_player_mysql AddPlayer mfault mtok mname email mpoints mdb)) \<noteq> 200 \<longrightarrow>
      snd (add_player_mysql AddPlayer mfault mtok mname email mpoints mdb) = mdb"
proof (cases mtok)
  case ValidToken
  show ?thesis
  proof (cases "truthy_str mname")
    case False
    with ValidToken show ?thesis by (simp add: add_player_mysql_def)
  next
    case True
    show ?thesis
    proof (cases email)
      case None
      with ValidToken True show ?thesis by (simp add: add_player_mysql_def)
    next
      case (Some em)
      show ?thesis
      proof (cases "run mfault (AddPlayer (str_of mname) em
                      (case mpoints of None \<Rightarrow> 0 | Some n \<Rightarrow> n) mdb)")
        case (Inl e)
        with ValidToken True Some show ?thesis by (simp add: add_player_mysql_def)
      next
        case (Inr db')
        with ValidToken True Some show ?thesis
          by (simp add: add_player_mysql_def ok_def respond_def)
      qed
    qed
  qed
qed (simp_all add: add_player_mysql_def)

text \<open>
  C8, amended. In server.js a player-creation request with a valid token is answered with
  status 400 and "Player name is required" when the name is missing or empty after
  trimming, and with status 400 when the points lie outside 0..49 ("Points must be between
  0 and 49" when the name is acceptable), the database unchanged; omitted points are
  taken as 0; a trimmed name that is already in the table is answered with status 400 and
  "Player name already exists"; every request that is not a success leaves the rows of
  every table as they were, and an acceptable request with a new name appends one row with
  the trimmed name and the points. The MySQL handler rejects a missing or empty name with status 400 and answers a
  request without an email with status 500; it takes omitted points as 0; it neither trims
  the name nor checks the points: every non-empty name and every number of points is
  handed to the stored procedure AddPlayer as given, whose success is answered as a
  success, whose duplicate-entry error is answered with status 400 and "Player name
  already exists" and whose other errors are answered with status 500 and "Failed to add
  player"; every request that is not a success leaves the database as it was.
\<close>

theorem add_player_validation:
  "(name_f = None \<or> (\<exists>nm. name_f = Some nm \<and> trim nm = []) \<longrightarrow>
      add_player development tier_of fault ValidToken name_f points_f db =
        (failure 400 ''Player name is required'', db)) \<and>
   (points_f = Some n \<and> (n < 0 \<or> 49 < n) \<longrightarrow>
      status (fst (add_player development tier_of fault ValidToken name_f points_f db)) = 400 \<and>
      snd (add_player development tier_of fault ValidToken name_f points_f db) = db \<and>
      (\<forall>nm. name_f = Some nm \<and> trim nm \<noteq> [] \<longrightarrow>
         add_player development tier_of fault ValidToken name_f points_f db =
           (failure 400 ''Points must be between 0 and 49'', db))) \<and>
   (add_player development tier_of fault tok name_f None db =
      add_player development tier_of fault tok name_f (Some 0) db) \<and>
   (trim nm \<noteq> [] \<and> 0 \<le> n \<and> n \<le> 49 \<and> trim nm \<in> set (map name (players db)) \<longrightarrow>
      fst (add_player development tier_of None ValidToken (Some nm) (Some n) db) =
        failure 400 ''Player name already exists'' \<and>
      same_rows db (snd (add_player development tier_of None ValidToken (Some nm) (Some n) db))) \<and>
   (trim nm \<noteq> [] \<and> 0 \<le> n \<and> n \<le> 49 \<and> trim nm \<notin> set (map name (players db)) \<longrightarrow>
      status (fst (add_player development tier_of None ValidToken (Some nm) (Some n) db)) = 200 \<and>
      snd (add_player development tier_of None ValidToken (Some nm) (Some n) db) =
        db\<lparr>players := players db @
                [\<lparr>player_id = players_seq db, name = trim nm, points = n, tier = tier_of n\<rparr>],
           players_seq := players_seq db + 1\<rparr>) \<and>
   (status (fst (add_player development tier_of fault tok name_f points_f db)) \<noteq> 200 \<longrightarrow>
      same_rows db (snd (add_player development tier_of fault tok name_f points_f db))) \<and>
   (\<not> truthy_str mname \<longrightarrow>
      add_player_mysql AddPlayer mfault ValidToken mname email mpoints mdb =
        (failure_mysql 400 ''Player name is required'', mdb)) \<and>
   (truthy_str mname \<longrightarrow>
      add_player_mysql AddPlayer mfault ValidToken mname None mpoints mdb =
        (failure_mysql 500 ''Failed to add player'', mdb)) \<and>
   (add_player_mysql AddPlayer mfault mtok mname email None mdb =
      add_player_mysql AddPlayer mfault mtok mname email (Some 0) mdb) \<and>
   (mnm \<noteq> [] \<longrightarrow>
      add_player_mysql AddPlayer None ValidToken (Some mnm) (Some em) (Some k) mdb =
        (case AddPlayer mnm em k mdb of
           Inr db' \<Rightarrow>
             (ok [(''message'', JStr (''Player '' @ mnm @ '' added successfully!''))], db')
         | Inl e \<Rightarrow>
             if err_code e = Some ''ER_DUP_ENTRY''
             then (failure_mysql 400 ''Player name already exists'', mdb)
             else (failure_mysql 500 ''Failed to add player'', mdb))) \<and>
   (mnm \<noteq> [] \<and> AddPlayer mnm em k mdb = Inl e \<and> err_code e = Some ''ER_DUP_ENTRY'' \<longrightarrow>
      add_player_mysql AddPlayer None ValidToken (Some mnm) (Some em) (Some k) mdb =
        (failure_mysql 400 ''Player name already exists'', mdb)) \<and>
   (status (fst (add_player_mysql AddPlayer mfault mtok mname email mpoints mdb)) \<noteq> 200 \<longrightarrow>
      snd (add_player_mysql AddPlayer mfault mtok mname email mpoints mdb) = mdb)"
  by (rule conjI[OF add_player_name_required conjI[OF add_player_points_range conjI[OF add_player_points_default conjI[OF add_player_duplicate_name conjI[OF add_player_new_player conjI[OF add_player_rejected_keeps conjI[OF add_player_name_required_mysql conjI[OF add_player_email_required_mysql conjI[OF add_player_points_default_mysql conjI[OF add_player_passed_on_mysql conjI[OF add_player_duplicate_name_mysql add_player_rejected_keeps_mysql]]]]]]]]]]])

text \<open>
  C8, as the claim states it, fails on the MySQL server: a name of three spaces is empty
  after trimming and 50 points lie outside 0..49, but the handler checks neither and calls
  the stored procedure with them. With a procedure that inserts what it is given, the
  request is a success and the player is inserted; with a procedure that refuses them, the
  request is answered with status 500 and "Failed to add player", the answer to any
  failure of the statement, and not with a validation error.
\<close>

theorem add_player_validation_counterexample:
  "trim ''   '' = [] \<and> (49 :: int) < 50 \<and>
   status (fst (add_player_mysql example_AddPlayer None ValidToken (Some ''   '')
                  (Some ''eve@club.org'') (Some 50) example_db_mysql)) = 200 \<and>
   map (\<lambda>p. (my_name p, my_points p))
     (my_players (snd (add_player_mysql example_AddPlayer None ValidToken (Some ''   '')
                         (Some ''eve@club.org'') (Some 50) example_db_mysql))) =
     [(''Ann'', 10), (''Bob'', 10), (''Cy'', 5), (''   '', 50)] \<and>
   add_player_mysql checking_AddPlayer None ValidToken (Some ''   '') (Some ''eve@club.org'')
       (Some 50) example_db_mysql =
     (failure_mysql 500 ''Failed to add player'', example_db_mysql)"
proof -
  have tr: "trim ''   '' = []" by (simp add: trim_def is_ws_def)
  have a: "add_player_mysql example_AddPlayer None ValidToken (Some ''   '')
                  (Some ''eve@club.org'') (Some 50) example_db_mysql =
      (ok [(''message'', JStr (''Player '' @ ''   '' @ '' added successfully!''))],
       example_db_mysql\<lparr>my_players := my_players example_db_mysql @
                  [\<lparr>my_id = 4, my_name = ''   '', my_points = 50,
                    my_tier = ''Bronze'', my_wins = 0, my_losses = 0, my_is_active = True,
                    my_is_champion = False, my_is_tournament_winner = False\<rparr>]\<rparr>)"
    by (simp add: add_player_mysql_def run_def example_AddPlayer_def example_db_mysql_def)
  have b: "add_player_mysql checking_AddPlayer None ValidToken (Some ''   '') (Some ''eve@club.org'')
       (Some 50) example_db_mysql =
     (failure_mysql 500 ''Failed to add player'', example_db_mysql)"
    by (simp add: add_player_mysql_def run_def checking_AddPlayer_def tr signal_def)
  show ?thesis unfolding a b using tr by (simp add: example_db_mysql_def)
qed

theorem add_player_validation_witness:
  "trim ''  '' = [] \<and>
   add_player False example_tier_of None ValidToken (Some ''  '') (Some 50) example_db =
     (failure 400 ''Player name is required'', example_db) \<and>
   status (fst (add_player False example_tier_of None ValidToken (Some ''  '') (Some 50) example_db))
     = 400 \<and>
   trim ''Ann '' = ''Ann'' \<and>
   fst (add_player False example_tier_of None ValidToken (Some ''Ann '') (Some 3) example_db) =
     failure 400 ''Player name already exists'' \<and>
   players (snd (add_player False example_tier_of None ValidToken (Some ''Ann '') (Some 3)
                   example_db)) = players example_db \<and>
   map name (players (snd (add_player False example_tier_of None ValidToken (Some '' Eve'') (Some 3)
                             example_db))) = [''Ann'', ''Bob'', ''Cy'', ''Dee'', ''Eve''] \<and>
   add_player_mysql example_AddPlayer None ValidToken None None None example_db_mysql =
     (failure_mysql 400 ''Player name is required'', example_db_mysql) \<and>
   add_player_mysql example_AddPlayer None ValidToken (Some ''Eve'') None (Some 3)
       example_db_mysql =
     (failure_mysql 500 ''Failed to add player'', example_db_mysql) \<and>
   add_player_mysql example_AddPlayer None ValidToken (Some ''Ann'') (Some ''ann@club.org'')
       (Some 0) example_db_mysql =
     (failure_mysql 400 ''Player name already exists'', example_db_mysql) \<and>
   map my_name (my_players (snd (add_player_mysql example_AddPlayer None ValidToken (Some '' Eve'')
                                   (Some ''eve@club.org'') (Some 77) example_db_mysql))) =
     [''Ann'', ''Bob'', ''Cy'', '' Eve''] \<and>
   players (snd (add_player False example_tier_of None ValidToken (Some ''  '') (Some 50)
                   example_db)) = players example_db \<and>
   snd (add_player_mysql example_AddPlayer None ValidToken (Some ''Eve'') None (Some 3)
          example_db_mysql) = example_db_mysql"
proof -
  have tr: "trim ''  '' = []" "trim ''Ann '' = ''Ann''" "trim '' Eve'' = ''Eve''"
    by (simp_all add: trim_def is_ws_def)
  have h1: "Some ''  '' = None \<or> (\<exists>nm. Some ''  '' = Some nm \<and> trim nm = [])"
    using tr by simp
  have h2: "Some (50 :: int) = Some 50 \<and> ((50 :: int) < 0 \<or> 49 < (50 :: int))" by simp
  have h4: "trim ''Ann '' \<noteq> [] \<and> (0 :: int) \<le> 3 \<and> (3 :: int) \<le> 49 \<and>
            trim ''Ann '' \<in> set (map name (players example_db))"
    by (simp add: tr example_db_def)
  have h5: "trim '' Eve'' \<noteq> [] \<and> (0 :: int) \<le> 3 \<and> (3 :: int) \<le> 49 \<and>
            trim '' Eve'' \<notin> set (map name (players example_db))"
    by (simp add: tr example_db_def)
  have h7: "\<not> truthy_str None" by simp
  have h8: "truthy_str (Some ''Eve'')" by simp
  have h9: "''Ann'' \<noteq> [] \<and>
            example_AddPlayer ''Ann'' ''ann@club.org'' 0 example_db_mysql = Inl dup_entry \<and>
            err_code dup_entry = Some ''ER_DUP_ENTRY''"
    by (simp add: example_AddPlayer_def example_db_mysql_def dup_entry_def)
  have h10: "'' Eve'' \<noteq> []" by simp
  note t = add_player_validation[where development = False and tier_of = example_tier_of
      and fault = None and name_f = "Some ''  ''" and points_f = "Some 50" and db = example_db
      and n = 50 and mname = None and AddPlayer = example_AddPlayer and mfault = None
      and email = None and mpoints = None and mdb = example_db_mysql
      and mnm = "''Ann''" and em = "''ann@club.org''" and k = 0 and e = dup_entry]
  note u = add_player_validation[where development = False and tier_of = example_tier_of
      and db = example_db and n = 3 and nm = "''Ann ''"]
  note v = add_player_validation[where development = False and tier_of = example_tier_of
      and db = example_db and n = 3 and nm = "'' Eve''"]
  note w = add_player_validation[where AddPlayer = example_AddPlayer and mfault = None
      and mname = "Some ''Eve''" and mpoints = "Some 3" and mdb = example_db_mysql
      and mnm = "'' Eve''" and em = "''eve@club.org''" and k = 77]
  have a: "add_player False example_tier_of None ValidToken (Some ''  '') (Some 50) example_db =
     (failure 400 ''Player name is required'', example_db)"
    using t[THEN conjunct1] h1 by (rule mp)
  have b: "status (fst (add_player False example_tier_of None ValidToken (Some ''  '') (Some 50)
                          example_db)) = 400"
    using t[THEN conjunct2, THEN conjunct1, THEN mp, OF h2] by (rule conjunct1)
  have c: "fst (add_player False example_tier_of None ValidToken (Some ''Ann '') (Some 3)
                  example_db) = failure 400 ''Player name already exists'' \<and>
      players (snd (add_player False example_tier_of None ValidToken (Some ''Ann '') (Some 3)
                      example_db)) = players example_db"
    using u[THEN conjunct2, THEN conjunct2, THEN conjunct2, THEN conjunct1, THEN mp, OF h4]
    by (simp add: same_rows_def)
  have d: "snd (add_player False example_tier_of None ValidToken (Some '' Eve'') (Some 3) example_db) =
        example_db\<lparr>players := players example_db @
                [\<lparr>player_id = players_seq example_db, name = trim '' Eve'', points = 3,
                  tier = example_tier_of 3\<rparr>],
           players_seq := players_seq example_db + 1\<rparr>"
    using v[THEN conjunct2, THEN conjunct2, THEN conjunct2, THEN conjunct2, THEN conjunct1,
            THEN mp, OF h5] by (rule conjunct2)
  have d': "map name (players (snd (add_player False example_tier_of None ValidToken (Some '' Eve'')
                                     (Some 3) example_db))) = [''Ann'', ''Bob'', ''Cy'', ''Dee'', ''Eve'']"
    unfolding d by (simp add: tr example_db_def)
  have f: "add_player_mysql example_AddPlayer None ValidToken None None None example_db_mysql =
     (failure_mysql 400 ''Player name is required'', example_db_mysql)"
    using t[THEN conjunct2, THEN conjunct2, THEN conjunct2, THEN conjunct2, THEN conjunct2,
            THEN conjunct2, THEN conjunct1] h7 by (rule mp)
  have f': "add_player_mysql example_AddPlayer None ValidToken (Some ''Eve'') None (Some 3)
       example_db_mysql =
     (failure_mysql 500 ''Failed to add player'', example_db_mysql)"
    using w[THEN conjunct2, THEN conjunct2, THEN conjunct2, THEN conjunct2, THEN conjunct2,
            THEN conjunct2, THEN conjunct2, THEN conjunct1] h8 by (rule mp)
  have g: "add_player_mysql example_AddPlayer None ValidToken (Some ''Ann'') (Some ''ann@club.org'')
             (Some 0) example_db_mysql =
     (failure_mysql 400 ''Player name already exists'', example_db_mysql)"
    using t[THEN conjunct2, THEN conjunct2, THEN conjunct2, THEN conjunct2, THEN conjunct2,
            THEN conjunct2, THEN conjunct2, THEN conjunct2, THEN conjunct2, THEN conjunct2,
            THEN conjunct1] h9 by (rule mp)
  have i: "add_player_mysql example_AddPlayer None ValidToken (Some '' Eve'') (Some ''eve@club.org'')
             (Some 77) example_db_mysql =
        (case example_AddPlayer '' Eve'' ''eve@club.org'' 77 example_db_mysql of
           Inr db' \<Rightarrow>
             (ok [(''message'', JStr (''Player '' @ '' Eve'' @ '' added successfully!''))], db')
         | Inl e \<Rightarrow>
             if err_code e = Some ''ER_DUP_ENTRY''
             then (failure_mysql 400 ''Player name already exists'', example_db_mysql)
             else (failure_mysql 500 ''Failed to add player'', example_db_mysql))"
    using w[THEN conjunct2, THEN conjunct2, THEN conjunct2, THEN conjunct2, THEN conjunct2,
            THEN conjunct2, THEN conjunct2, THEN conjunct2, THEN conjunct2, THEN conjunct1]
          h10 by (rule mp)
  have i': "map my_name (my_players (snd (add_player_mysql example_AddPlayer None ValidToken
      (Some '' Eve'') (Some ''eve@club.org'') (Some 77) example_db_mysql))) =
     [''Ann'', ''Bob'', ''Cy'', '' Eve'']"
    unfolding i by (simp add: example_AddPlayer_def example_db_mysql_def)
  have b': "status (fst (add_player False example_tier_of None ValidToken (Some ''  '') (Some 50)
                           example_db)) \<noteq> 200"
    using b by simp
  have j: "players (snd (add_player False example_tier_of None ValidToken (Some ''  '') (Some 50)
                           example_db)) = players example_db"
    using t[where tok = ValidToken, THEN conjunct2, THEN conjunct2, THEN conjunct2, THEN conjunct2,
            THEN conjunct2, THEN conjunct1, THEN mp, OF b']
    by (simp add: same_rows_def)
  have f'': "status (fst (add_player_mysql example_AddPlayer None ValidToken (Some ''Eve'') None
                            (Some 3) example_db_mysql)) \<noteq> 200"
    unfolding f' by simp
  have k: "snd (add_player_mysql example_AddPlayer None ValidToken (Some ''Eve'') None (Some 3)
          example_db_mysql) = example_db_mysql"
    using w[where mtok = ValidToken and email = None, THEN conjunct2, THEN conjunct2,
            THEN conjunct2, THEN conjunct2, THEN conjunct2, THEN conjunct2, THEN conjunct2,
            THEN conjunct2, THEN conjunct2, THEN conjunct2, THEN conjunct2] f'' by (rule mp)
  from tr a b c d' f f' g i' j k show ?thesis by simp
qed

subsection \<open>The response envelope\<close>

lemma sound_ok [simp]: "sound_response (ok p)"
  by (simp add: sound_response_def envelope_def success_matches_status_def ok_def respond_def)

lemma sound_failure [simp]: "st \<noteq> 200 \<Longrightarrow> sound_response (failure st msg)"
  by (simp add: sound_response_def envelope_def success_matches_status_def failure_def respond_def)

lemma sound_handleError [simp]: "sound_response (handleError d e msg)"
  by (simp add: sound_response_def envelope_def success_matches_status_def handleError_def
        respond_def)

lemma sound_unauthorized [simp]:
  "sound_response (respond 401 [(''success'', JBool False), (''error'', JStr msg)])"
  by (simp add: sound_response_def envelope_def success_matches_status_def respond_def)

lemma sound_login: "sound_response (login d f p s)"
  by (cases f) (simp_all add: login_def)

lemma sound_get_leaderboard: "sound_response (fst (get_leaderboard d f db))"
  by (cases f) (simp_all add: get_leaderboard_def)

lemma sound_get_top3: "sound_response (fst (get_top3 d f db))"
  by (cases f) (simp_all add: get_top3_def)

lemma sound_get_player_stats: "sound_response (get_player_stats d f i db)"
  by (cases f; cases "parseInt i") (simp_all add: get_player_stats_def)

lemma sound_add_player: "sound_response (fst (add_player d t f tok n p db))"
  by (cases tok; cases n; cases f)
     (simp_all add: add_player_def run_from_def insert_player_def Let_def unique_violation_def)

lemma sound_get_admin_players: "sound_response (fst (get_admin_players d f tok db))"
  by (cases tok; cases f) (simp_all add: get_admin_players_def)

lemma sound_remove_player: "sound_response (fst (remove_player d od f tok i db))"
  by (cases tok; cases f; cases "parseInt i")
     (auto simp: remove_player_def run_def delete_player_def Let_def
        split: option.splits list.splits)

lemma sound_final_names:
  "final_names i4 f wi li wn lname db = Sent r \<Longrightarrow> sound_response r"
  by (auto simp: final_names_def split: if_splits sum.splits list.splits)

lemma sound_record_match:
  "sound_response (fst (record_match d i4 rmr f tok wi li wn lname db))"
proof (cases tok)
  case ValidToken
  show ?thesis
  proof (cases "final_names i4 f wi li wn lname db")
    case (Thrown e)
    with ValidToken show ?thesis by (simp add: record_match_def)
  next
    case (Sent r)
    with ValidToken sound_final_names[OF Sent] show ?thesis by (simp add: record_match_def)
  next
    case (Names a b)
    show ?thesis
    proof (cases "a = b")
      case True
      with ValidToken Names show ?thesis by (simp add: record_match_def)
    next
      case False
      show ?thesis
      proof (cases "run (f 2) (rmr a b db)")
        case (Inl e)
        with ValidToken Names False show ?thesis by (simp add: record_match_def)
      next
        case (Inr x)
        obtain msg db' where "x = (msg, db')" by (cases x)
        with ValidToken Names False Inr show ?thesis
          by (cases msg; cases "f 3") (simp_all add: record_match_def)
      qed
    qed
  qed
qed (simp_all add: record_match_def)

lemma sound_recent_matches: "sound_response (fst (recent_matches d f q h))"
  by (cases f) (simp_all add: recent_matches_def run_def select_recent_def)

lemma sound_get_archives: "sound_response (get_archives d f)"
  by (cases f) (simp_all add: get_archives_def)


lemma sound_create_archive: "sound_response (fst (create_archive d f tok m a b c db))"
proof (cases tok)
  case ValidToken
  show ?thesis
  proof (cases "\<exists>m' a' b' c'. m = Some m' \<and> a = Some a' \<and> b = Some b' \<and> c = Some c'")
    case False
    then show ?thesis using ValidToken
      by (cases m; cases a; cases b; cases c) (simp_all add: create_archive_def)
  next
    case True
    then obtain m' a' b' c' where pre: "m = Some m'" "a = Some a'" "b = Some b'" "c = Some c'"
      by blast
    define rows where "rows = filter (\<lambda>p. player_id p \<in> set [a', b', c']) (players db)"
    show ?thesis
    proof (cases f)
      case (Some e)
      with ValidToken pre show ?thesis by (simp add: create_archive_def)
    next
      case None
      show ?thesis
      proof (cases "playerMap rows a'"; cases "playerMap rows b'"; cases "playerMap rows c'")
      qed (use ValidToken pre None in
            \<open>simp_all add: create_archive_def rows_def Let_def type_error_def insert_archive_def
                unique_violation_def\<close>)
    qed
  qed
qed (simp_all add: create_archive_def)

lemma sound_delete_archive: "sound_response (fst (delete_archive d f tok i db))"
  by (cases tok; cases f; cases "parseInt i")
     (auto simp: delete_archive_def run_def delete_archive_rows_def split: list.splits)

lemma sound_get_tournament_winners: "sound_response (get_tournament_winners d f)"
  by (cases f) (simp_all add: get_tournament_winners_def)

lemma sound_patch_tournament_winner:
  "sound_response (fst (patch_tournament_winner d today f tok i b tn db))"
  by (cases tok; cases f; cases "parseInt i"; cases b)
     (simp_all add: patch_tournament_winner_def run_def insert_badge_def)

lemma sound_add_tournament_winner:
  "sound_response (fst (add_tournament_winner d today f tok i n tn db))"
proof (cases tok)
  case ValidToken
  show ?thesis
  proof (cases f)
    case None
    show ?thesis
    proof (cases "truthy_num i")
      case True
      with ValidToken None show ?thesis
        by (simp add: add_tournament_winner_def run_def insert_badge_def unique_violation_def)
    next
      case False
      show ?thesis
      proof (cases "filter (\<lambda>p. name p = str_of n) (players db)")
        case Nil
        with ValidToken None False show ?thesis
          by (simp add: add_tournament_winner_def run_def)
      next
        case (Cons p ps)
        with ValidToken None False show ?thesis
          by (simp add: add_tournament_winner_def run_def insert_badge_def unique_violation_def)
      qed
    qed
  next
    case (Some e)
    with ValidToken show ?thesis
      by (simp add: add_tournament_winner_def run_def)
  qed
qed (simp_all add: add_tournament_winner_def)

lemma sound_remove_tournament_winner:
  "sound_response (fst (remove_tournament_winner d f tok i db))"
  by (cases tok; cases f; cases "parseInt i") (simp_all add: remove_tournament_winner_def)

lemma sound_clear_tournament_winners:
  "sound_response (fst (clear_tournament_winners d f tok db))"
  by (cases tok; cases f) (simp_all add: clear_tournament_winners_def)

lemma sound_health: "sound_response (health f)"
  by (cases f)
     (simp_all add: health_def sound_response_def envelope_def success_matches_status_def
        respond_def ok_def)

lemma sound_error_middleware: "sound_response (error_middleware d e)"
  by (simp add: error_middleware_def sound_response_def envelope_def success_matches_status_def
        respond_def)

lemma sound_not_found: "sound_response not_found"
  by (simp add: not_found_def)

lemma sound_app: "sound_response (fst (app w fault req db))"
  by (cases req)
     (simp_all add: sound_login sound_get_leaderboard sound_get_top3 sound_get_player_stats
        sound_add_player sound_get_admin_players sound_remove_player sound_record_match
        sound_recent_matches sound_get_archives sound_create_archive sound_delete_archive
        sound_get_tournament_winners sound_patch_tournament_winner sound_add_tournament_winner
        sound_remove_tournament_winner sound_clear_tournament_winners sound_health
        sound_error_middleware sound_not_found)


lemma shape_mysql_ok [simp]: "sound_response_mysql (ok p)"
  by (simp add: sound_response_mysql_def ok_def respond_def)

lemma shape_mysql_failure [simp]: "400 \<le> st \<Longrightarrow> sound_response_mysql (failure_mysql st msg)"
  by (simp add: sound_response_mysql_def plain_error_def failure_mysql_def respond_def)

lemma shape_mysql_get_leaderboard: "sound_response_mysql (fst (get_leaderboard_mysql f db))"
  by (cases f) (simp_all add: get_leaderboard_mysql_def)

lemma shape_mysql_get_top3: "sound_response_mysql (fst (get_top3_mysql f db))"
  by (cases f) (simp_all add: get_top3_mysql_def)

lemma shape_mysql_get_player_stats: "sound_response_mysql (get_player_stats_mysql f i db)"
  by (cases f) (simp_all add: get_player_stats_mysql_def)

lemma shape_mysql_add_player: "sound_response_mysql (fst (add_player_mysql ap f tok n e p db))"
proof (cases tok)
  case ValidToken
  show ?thesis
  proof (cases "truthy_str n")
    case False
    with ValidToken show ?thesis by (simp add: add_player_mysql_def)
  next
    case True
    show ?thesis
    proof (cases e)
      case None
      with ValidToken True show ?thesis by (simp add: add_player_mysql_def)
    next
      case (Some em)
      show ?thesis
      proof (cases "run f (ap (str_of n) em (case p of None \<Rightarrow> 0 | Some k \<Rightarrow> k) db)")
        case (Inl x)
        with ValidToken True Some show ?thesis by (simp add: add_player_mysql_def)
      next
        case (Inr x)
        with ValidToken True Some show ?thesis by (simp add: add_player_mysql_def)
      qed
    qed
  qed
qed (simp_all add: add_player_mysql_def)

lemma shape_mysql_record_match:
  "sound_response_mysql (fst (record_match_mysql ai rm f tok wi li pe mt db))"
proof (cases tok)
  case ValidToken
  show ?thesis
  proof (cases "\<not> truthy wi \<or> \<not> truthy li \<or> wi = li")
    case True
    with ValidToken show ?thesis by (auto simp: record_match_mysql_def)
  next
    case False
    show ?thesis
    proof (cases "run (f 0) (rm wi li (or_default pe (VNum 1)) (or_default mt (VStr ''casual'')) db)")
      case (Inl x)
      with ValidToken False show ?thesis by (simp add: record_match_mysql_def)
    next
      case (Inr x)
      with ValidToken False show ?thesis
        by (cases "f 1"; cases "f 2") (simp_all add: record_match_mysql_def)
    qed
  qed
qed (simp_all add: record_match_mysql_def)

lemma shape_mysql_get_admin_players: "sound_response_mysql (fst (get_admin_players_mysql f tok db))"
  by (cases tok; cases f) (simp_all add: get_admin_players_mysql_def)

lemma shape_mysql_remove_player: "sound_response_mysql (fst (remove_player_mysql f tok i db))"
  by (cases tok; cases f) (simp_all add: remove_player_mysql_def)

lemma shape_mysql_get_archives: "sound_response_mysql (get_archives_mysql f)"
  by (cases f) (simp_all add: get_archives_mysql_def)

lemma shape_mysql_create_archive:
  "sound_response_mysql (fst (create_archive_mysql f tok m a b c tp tm db))"
proof (cases tok)
  case ValidToken
  obtain r db' where st: "archive_statements_mysql f m a b c tp tm db = (r, db')"
    by (cases "archive_statements_mysql f m a b c tp tm db")
  with ValidToken show ?thesis by (cases r) (simp_all add: create_archive_mysql_def)
qed (simp_all add: create_archive_mysql_def)

lemma shape_mysql_delete_archive: "sound_response_mysql (fst (delete_archive_mysql f tok i db))"
  by (cases tok; cases f) (simp_all add: delete_archive_mysql_def)

lemma shape_mysql_patch_tournament_winner:
  "sound_response_mysql (fst (patch_tournament_winner_mysql f tok i b db))"
  by (cases tok; cases f; cases b) (simp_all add: patch_tournament_winner_mysql_def)

lemma shape_mysql_recent_matches: "sound_response_mysql (fst (recent_matches_mysql f q h))"
  by (cases f; cases "if truthy_str q then parseInt (str_of q) else Some 10")
     (simp_all add: recent_matches_mysql_def)

lemma shape_mysql_error_middleware: "sound_response_mysql (error_middleware_mysql d e)"
  by (simp add: error_middleware_mysql_def sound_response_mysql_def plain_error_def respond_def)

lemma shape_mysql_login: "sound_response_mysql (login_mysql f True s)"
  by (cases f) (simp_all add: login_mysql_def)

lemma shape_mysql_app:
  assumes "\<forall>s. req \<noteq> MPostLogin False s" "req \<noteq> MGetHealth"
  shows "sound_response_mysql (fst (app_mysql w fault req db))"
proof (cases req)
  case (MPostLogin p s)
  with assms(1) have "p" by (cases p) auto
  with MPostLogin show ?thesis by (simp add: shape_mysql_login)
qed (use assms(2) in \<open>simp_all add: shape_mysql_get_leaderboard shape_mysql_get_top3 shape_mysql_get_player_stats
      shape_mysql_add_player shape_mysql_record_match shape_mysql_get_admin_players shape_mysql_remove_player shape_mysql_get_archives
      shape_mysql_create_archive shape_mysql_delete_archive shape_mysql_patch_tournament_winner shape_mysql_recent_matches
      shape_mysql_error_middleware\<close>)

text \<open>
  C9, amended. Every response of server.js, from any route handler, the admin check, the
  error middleware and the 404 handler, on success and on failure, has a boolean
  \<^verbatim>\<open>success\<close> field, which is true exactly on status 200, and a string \<^verbatim>\<open>error\<close>
  field when \<^verbatim>\<open>success\<close> is false. In the MySQL server a response with an error status
  has a string \<^verbatim>\<open>error\<close> field and no \<^verbatim>\<open>success\<close> field, and any other response has
  \<^verbatim>\<open>success: true\<close>; the rejected login (which sends \<^verbatim>\<open>success: false\<close> with a
  \<^verbatim>\<open>message\<close>) and the health route (which sends no \<^verbatim>\<open>success\<close> field) are the two
  exceptions.
\<close>

theorem response_envelope:
  "envelope (fst (app w fault req db)) \<and>
   success_matches_status (fst (app w fault req db)) \<and>
   ((\<forall>s. mreq \<noteq> MPostLogin False s) \<and> mreq \<noteq> MGetHealth \<longrightarrow>
      (if 400 \<le> status (fst (app_mysql mw mfault mreq mdb))
       then plain_error (fst (app_mysql mw mfault mreq mdb))
       else map_of (body (fst (app_mysql mw mfault mreq mdb))) ''success'' = Some (JBool True)))"
  using sound_app[of w fault req db] shape_mysql_app[of mreq mw mfault mdb]
  by (simp add: sound_response_def sound_response_mysql_def)

text \<open>
  C9, as the claim states it, fails on the MySQL server: the validation branch of player
  creation and the error branch of the leaderboard send a body with an \<^verbatim>\<open>error\<close> field
  only, which has no \<^verbatim>\<open>success\<close> field.
\<close>

theorem response_envelope_counterexample:
  "body (fst (add_player_mysql example_AddPlayer None ValidToken None None None example_db_mysql)) =
     [(''error'', JStr ''Player name is required'')] \<and>
   \<not> envelope (fst (add_player_mysql example_AddPlayer None ValidToken None None None
                       example_db_mysql)) \<and>
   body (fst (get_leaderboard_mysql (Some type_error) example_db_mysql)) =
     [(''error'', JStr ''Failed to fetch leaderboard'')] \<and>
   \<not> envelope (fst (get_leaderboard_mysql (Some type_error) example_db_mysql))"
  by (simp add: add_player_mysql_def get_leaderboard_mysql_def failure_mysql_def respond_def
        envelope_def)

theorem response_envelope_witness:
  "MDeletePlayer ValidToken 99 \<noteq> MGetHealth \<and>
   status (fst (app_mysql example_outside_mysql no_fault (MDeletePlayer ValidToken 99) example_db_mysql))
     = 404 \<and>
   plain_error (fst (app_mysql example_outside_mysql no_fault (MDeletePlayer ValidToken 99)
                       example_db_mysql)) \<and>
   envelope (fst (app example_outside no_fault (DeletePlayer ValidToken ''99'') example_db))"
proof -
  have st: "status (fst (app_mysql example_outside_mysql no_fault (MDeletePlayer ValidToken 99)
                           example_db_mysql)) = 404"
    by (simp add: remove_player_mysql_def no_fault_def example_db_mysql_def failure_mysql_def respond_def)
  have h: "(\<forall>s. MDeletePlayer ValidToken 99 \<noteq> MPostLogin False s) \<and>
           MDeletePlayer ValidToken 99 \<noteq> MGetHealth"
    by simp
  note t = response_envelope[where w = example_outside and fault = no_fault
      and req = "DeletePlayer ValidToken ''99''" and db = example_db
      and mw = example_outside_mysql and mfault = no_fault and mreq = "MDeletePlayer ValidToken 99"
      and mdb = example_db_mysql]
  from t[THEN conjunct2, THEN conjunct2, THEN mp, OF h] st
  have p: "plain_error (fst (app_mysql example_outside_mysql no_fault (MDeletePlayer ValidToken 99)
                       example_db_mysql))"
    by simp
  from t[THEN conjunct1] h st p show ?thesis by simp
qed

end
